theory Spec2Isabelle
  imports Main
begin

section \<open>JavaScript values and strings\<close>

text \<open>
  The sources are TypeScript. A property that may be \<^verbatim>\<open>undefined\<close> is an \<open>option\<close>;
  where the code also tests for \<^verbatim>\<open>null\<close> the property is a \<open>nullable\<close>. Strings are
  \<open>char list\<close>s; case conversion is modelled on the ASCII letters.
\<close>

datatype 'a nullable = Undefined | Null | Defined 'a

definition sq :: string where
  "sq = [CHR 0x27]"

definition dq :: string where
  "dq = [CHR 0x22]"

text \<open>\<^verbatim>\<open>`"${s}"`\<close>: the text between double quotes.\<close>

definition quoted :: "string \<Rightarrow> string" where
  "quoted s = dq @ s @ dq"

text \<open>Truthiness of an optional string: \<^verbatim>\<open>undefined\<close> and the empty string are falsy.\<close>

fun truthy :: "string option \<Rightarrow> bool" where
  "truthy None = False"
| "truthy (Some s) = (s \<noteq> [])"

text \<open>\<^verbatim>\<open>a || b\<close> on optional strings.\<close>

definition or_js :: "string option \<Rightarrow> string option \<Rightarrow> string option" where
  "or_js a b = (if truthy a then a else b)"

definition toLowerCase_char :: "char \<Rightarrow> char" where
  "toLowerCase_char c =
     (if 65 \<le> (of_char c :: nat) \<and> (of_char c :: nat) \<le> 90
      then char_of ((of_char c :: nat) + 32) else c)"

definition toUpperCase_char :: "char \<Rightarrow> char" where
  "toUpperCase_char c =
     (if 97 \<le> (of_char c :: nat) \<and> (of_char c :: nat) \<le> 122
      then char_of ((of_char c :: nat) - 32) else c)"

definition toLowerCase :: "string \<Rightarrow> string" where
  "toLowerCase s = map toLowerCase_char s"

definition toUpperCase :: "string \<Rightarrow> string" where
  "toUpperCase s = map toUpperCase_char s"

text \<open>\<^verbatim>\<open>s.split(sep)\<close> for a one-character separator: the empty string gives one empty part.\<close>

fun split_js :: "char \<Rightarrow> string \<Rightarrow> string list" where
  "split_js sep [] = [[]]"
| "split_js sep (c # cs) =
     (if c = sep then [] # split_js sep cs
      else (case split_js sep cs of
              p # ps \<Rightarrow> (c # p) # ps
            | [] \<Rightarrow> [[c]]))"

text \<open>\<^verbatim>\<open>xs.join(sep)\<close>.\<close>

fun join_js :: "string \<Rightarrow> string list \<Rightarrow> string" where
  "join_js sep [] = []"
| "join_js sep [x] = x"
| "join_js sep (x # y # ys) = x @ sep @ join_js sep (y # ys)"

text \<open>\<^verbatim>\<open>xs.map((v, i) => f(v, i))\<close>.\<close>

definition mapi_js :: "('a \<Rightarrow> nat \<Rightarrow> 'b) \<Rightarrow> 'a list \<Rightarrow> 'b list" where
  "mapi_js f xs = map (\<lambda>(i, v). f v i) (enumerate 0 xs)"


section \<open>SqlServerDriver: table names\<close>

record SqlServerDriver =
  drv_database :: "string option"
  drv_schema :: "string option"
  drv_searchSchema :: "string option"

text \<open>\<^verbatim>\<open>buildTableName(tableName, schema?, database?)\<close>\<close>

definition buildTableName :: "string \<Rightarrow> string option \<Rightarrow> string option \<Rightarrow> string" where
  "buildTableName tableName schema database =
     (let tablePath = [tableName];
          tablePath = (if truthy schema then the schema # tablePath else tablePath);
          tablePath =
            (if truthy database
             then the database # (if \<not> truthy schema then [] # tablePath else tablePath)
             else tablePath)
      in join_js ''.'' tablePath)"

record ParsedTableName =
  database :: "string option"
  schema :: "string option"
  tableName :: string

text \<open>The string branch of \<^verbatim>\<open>parseTableName\<close>: the target is split at the dots.\<close>

definition parseTableName_string :: "SqlServerDriver \<Rightarrow> string \<Rightarrow> ParsedTableName" where
  "parseTableName_string driver target =
     (let driverDatabase = drv_database driver;
          driverSchema = drv_schema driver;
          parts = split_js (CHR ''.'') target
      in if length parts = 3 then
           \<lparr>database = or_js (Some (parts ! 0)) driverDatabase,
            schema = or_js (Some (parts ! 1)) driverSchema,
            tableName = parts ! 2\<rparr>
         else if length parts = 2 then
           \<lparr>database = driverDatabase,
            schema = Some (parts ! 0),
            tableName = parts ! 1\<rparr>
         else
           \<lparr>database = driverDatabase,
            schema = driverSchema,
            tableName = target\<rparr>)"

text \<open>
  The targets \<^verbatim>\<open>parseTableName\<close> accepts, each with the properties the function reads:
  a Table or View (name, schema, database), a TableForeignKey (referencedTableName,
  referencedSchema, referencedDatabase), an EntityMetadata (tableName, schema, database),
  or a string.
\<close>

datatype ParseTarget =
    TargetTableOrView string "string option" "string option"
  | TargetTableForeignKey string "string option" "string option"
  | TargetEntityMetadata string "string option" "string option"
  | TargetString string

fun parseTableName :: "SqlServerDriver \<Rightarrow> ParseTarget \<Rightarrow> ParsedTableName" where
  "parseTableName driver (TargetTableOrView name tschema tdatabase) =
     (let parsed = parseTableName_string driver name
      in \<lparr>database = or_js (or_js tdatabase (database parsed)) (drv_database driver),
          schema = or_js (or_js tschema (schema parsed)) (drv_schema driver),
          tableName = tableName parsed\<rparr>)"
| "parseTableName driver (TargetTableForeignKey referencedTableName referencedSchema referencedDatabase) =
     (let parsed = parseTableName_string driver referencedTableName
      in \<lparr>database = or_js (or_js referencedDatabase (database parsed)) (drv_database driver),
          schema = or_js (or_js referencedSchema (schema parsed)) (drv_schema driver),
          tableName = tableName parsed\<rparr>)"
| "parseTableName driver (TargetEntityMetadata tname tschema tdatabase) =
     \<lparr>database = or_js tdatabase (drv_database driver),
      schema = or_js tschema (drv_schema driver),
      tableName = tname\<rparr>"
| "parseTableName driver (TargetString target) = parseTableName_string driver target"


section \<open>SqlServerDriver: default values\<close>

text \<open>
  \<^verbatim>\<open>lowerDefaultValueIfNecessary(value)\<close>: a falsy value (\<^verbatim>\<open>undefined\<close>, \<^verbatim>\<open>null\<close>, the
  empty string) is returned as it is; otherwise the parts between the single quotes at
  even positions are lower-cased.
\<close>

definition lowerPart :: "string \<Rightarrow> nat \<Rightarrow> string" where
  "lowerPart v i = (if i mod 2 = 1 then v else toLowerCase v)"

definition lowerDefaultValueIfNecessary :: "string nullable \<Rightarrow> string nullable" where
  "lowerDefaultValueIfNecessary v =
     (case v of
        Defined s \<Rightarrow>
          if s = [] then v
          else Defined (join_js sq (mapi_js lowerPart (split_js (CHR 0x27) s)))
      | _ \<Rightarrow> v)"

text \<open>\<^verbatim>\<open>`${n}`\<close> for an integer: its decimal digits, with a minus sign below zero.\<close>

definition digit_char :: "nat \<Rightarrow> char" where
  "digit_char n = ''0123456789'' ! (n mod 10)"

function decimal :: "nat \<Rightarrow> string" where
  "decimal n = (if n div 10 = 0 then [digit_char n] else decimal (n div 10) @ [digit_char n])"
  by pat_completeness auto
termination
  by (relation "measure id") auto

declare decimal.simps [simp del]

definition toString_int :: "int \<Rightarrow> string" where
  "toString_int i = (if 0 \<le> i then decimal (nat i) else CHR ''-'' # decimal (nat (- i)))"


section \<open>Columns\<close>

text \<open>
  Modelled from the spec: the classes TableColumn and ColumnMetadata are not among the
  sources. The records have the properties that the driver and the query runner read
  and write, named as they are there after a prefix (\<open>col_\<close> for a TableColumn, \<open>cm_\<close>
  for a ColumnMetadata); \<^verbatim>\<open>default\<close> and \<^verbatim>\<open>precision\<close> may be \<^verbatim>\<open>null\<close>.
\<close>

record TableColumn =
  col_name :: string
  col_type :: string
  col_default :: "string nullable"
  col_isNullable :: bool
  col_isGenerated :: bool
  col_generationStrategy :: "string option"
  col_isPrimary :: bool
  col_isUnique :: bool
  col_isArray :: bool
  col_comment :: "string option"
  col_length :: string
  col_charset :: "string option"
  col_collation :: "string option"
  col_precision :: "int nullable"
  col_scale :: "int option"
  col_enum :: "string list option"
  col_enumName :: "string option"
  col_primaryKeyConstraintName :: "string option"
  col_asExpression :: "string option"
  col_generatedType :: "string option"
  col_generatedIdentity :: "string option"
  col_spatialFeatureType :: "string option"
  col_srid :: "int option"

text \<open>
  The declared type of a column is one of the constructors Number, String, Date, Boolean
  and Buffer, or the name of a type.
\<close>

datatype ColumnType = NumberCtor | StringCtor | DateCtor | BooleanCtor | BufferCtor | TypeName string

text \<open>
  The declared default of a column, by its \<^verbatim>\<open>typeof\<close>: a number (an integer here), a
  boolean, a function (with the string it returns), a string, \<^verbatim>\<open>undefined\<close>, \<^verbatim>\<open>null\<close>,
  or any other value (with its text in a template).
\<close>

datatype ColumnDefault =
    DefaultNumber int
  | DefaultBoolean bool
  | DefaultFunction string
  | DefaultString string
  | DefaultUndefined
  | DefaultNull
  | DefaultOther string

datatype EnumValue = EnumString string | EnumNumber int

text \<open>
  \<open>cm_ref\<close> is the identity of the ColumnMetadata object and \<open>cm_uniques\<close> the unique
  constraints of its entity (\<^verbatim>\<open>entityMetadata.uniques\<close>), each the list of the identities
  of its columns.
\<close>

record ColumnMetadata =
  databaseName :: string
  cm_type :: ColumnType
  cm_length :: string
  cm_precision :: "int nullable"
  cm_scale :: "int option"
  cm_isGenerated :: bool
  cm_default :: ColumnDefault
  cm_isPrimary :: bool
  cm_isNullable :: bool
  cm_asExpression :: "string option"
  cm_generatedType :: "string option"
  cm_enum :: "EnumValue list option"
  cm_ref :: nat
  cm_uniques :: "nat list list"


section \<open>SqlServerDriver: changed columns\<close>

fun normalizeType :: "ColumnType \<Rightarrow> string" where
  "normalizeType NumberCtor = ''int''"
| "normalizeType StringCtor = ''nvarchar''"
| "normalizeType DateCtor = ''datetime''"
| "normalizeType BooleanCtor = ''bit''"
| "normalizeType BufferCtor = ''binary''"
| "normalizeType (TypeName t) =
     (if t = ''integer'' then ''int''
      else if t = ''uuid'' then ''uniqueidentifier''
      else if t = ''simple-array'' \<or> t = ''simple-json'' then ''ntext''
      else if t = ''simple-enum'' then ''nvarchar''
      else if t = ''dec'' then ''decimal''
      else if t = ''double precision'' then ''float''
      else if t = ''rowversion'' then ''timestamp''
      else t)"

fun normalizeDefault :: "ColumnDefault \<Rightarrow> string nullable" where
  "normalizeDefault (DefaultNumber n) = Defined (toString_int n)"
| "normalizeDefault (DefaultBoolean b) = Defined (if b then ''1'' else ''0'')"
| "normalizeDefault (DefaultFunction v) =
     (if toUpperCase v = ''CURRENT_TIMESTAMP'' then Defined ''getdate()'' else Defined v)"
| "normalizeDefault (DefaultString s) = Defined (sq @ s @ sq)"
| "normalizeDefault DefaultUndefined = Undefined"
| "normalizeDefault DefaultNull = Undefined"
| "normalizeDefault (DefaultOther s) = Defined s"

text \<open>\<^verbatim>\<open>normalizeIsUnique(column)\<close>: some unique constraint of the entity has this column alone.\<close>

definition normalizeIsUnique :: "ColumnMetadata \<Rightarrow> bool" where
  "normalizeIsUnique column =
     list_ex (\<lambda>uq. length uq = 1 \<and> uq ! 0 = cm_ref column) (cm_uniques column)"

text \<open>\<^verbatim>\<open>getColumnLength(column)\<close> on a ColumnMetadata.\<close>

definition getColumnLength :: "ColumnMetadata \<Rightarrow> string" where
  "getColumnLength column =
     (if cm_length column \<noteq> [] then cm_length column
      else if cm_type column = TypeName ''varchar'' \<or> cm_type column = TypeName ''nvarchar''
              \<or> cm_type column = StringCtor
      then ''255''
      else [])"

definition compareColumnType :: "TableColumn \<Rightarrow> ColumnMetadata \<Rightarrow> bool" where
  "compareColumnType tableColumn columnMetadata =
     (if truthy (cm_asExpression columnMetadata) then False
      else col_type tableColumn \<noteq> normalizeType (cm_type columnMetadata))"

definition compareColumnLength :: "TableColumn \<Rightarrow> ColumnMetadata \<Rightarrow> bool" where
  "compareColumnLength tableColumn columnMetadata =
     (if truthy (cm_asExpression columnMetadata) then False
      else toUpperCase (col_length tableColumn) \<noteq> toUpperCase (getColumnLength columnMetadata))"

definition enumValueText :: "EnumValue \<Rightarrow> string" where
  "enumValueText v = (case v of EnumString s \<Rightarrow> s | EnumNumber n \<Rightarrow> toString_int n)"

text \<open>
  The test of \<^verbatim>\<open>findChangedColumns\<close> on a declared column and the current column of its
  name. \<^verbatim>\<open>OrmUtils.isArraysEqual\<close> is not among the sources: it is the parameter
  \<open>isArraysEqual\<close>.
\<close>

definition isColumnChanged ::
  "(string list \<Rightarrow> string list \<Rightarrow> bool) \<Rightarrow> TableColumn \<Rightarrow> ColumnMetadata \<Rightarrow> bool" where
  "isColumnChanged isArraysEqual tableColumn columnMetadata =
     (col_name tableColumn \<noteq> databaseName columnMetadata \<or>
      compareColumnType tableColumn columnMetadata \<or>
      compareColumnLength tableColumn columnMetadata \<or>
      col_precision tableColumn \<noteq> cm_precision columnMetadata \<or>
      col_scale tableColumn \<noteq> cm_scale columnMetadata \<or>
      col_isGenerated tableColumn \<noteq> cm_isGenerated columnMetadata \<or>
      (\<not> col_isGenerated tableColumn \<and>
         lowerDefaultValueIfNecessary (normalizeDefault (cm_default columnMetadata)) \<noteq>
         lowerDefaultValueIfNecessary (col_default tableColumn)) \<or>
      col_isPrimary tableColumn \<noteq> cm_isPrimary columnMetadata \<or>
      col_isNullable tableColumn \<noteq> cm_isNullable columnMetadata \<or>
      col_asExpression tableColumn \<noteq> cm_asExpression columnMetadata \<or>
      col_generatedType tableColumn \<noteq> cm_generatedType columnMetadata \<or>
      col_isUnique tableColumn \<noteq> normalizeIsUnique columnMetadata \<or>
      (case (col_enum tableColumn, cm_enum columnMetadata) of
         (Some te, Some ce) \<Rightarrow> \<not> isArraysEqual te (map enumValueText ce)
       | _ \<Rightarrow> False))"

definition findChangedColumns ::
  "(string list \<Rightarrow> string list \<Rightarrow> bool) \<Rightarrow> TableColumn list \<Rightarrow> ColumnMetadata list
     \<Rightarrow> ColumnMetadata list" where
  "findChangedColumns isArraysEqual tableColumns columnMetadatas =
     filter (\<lambda>columnMetadata.
       case find (\<lambda>c. col_name c = databaseName columnMetadata) tableColumns of
         None \<Rightarrow> False
       | Some tableColumn \<Rightarrow> isColumnChanged isArraysEqual tableColumn columnMetadata)
       columnMetadatas"

text \<open>The columns of the examples: a current varchar(255) column and its declaration.\<close>

definition title_TableColumn :: TableColumn where
  "title_TableColumn =
     \<lparr>col_name = ''title'', col_type = ''varchar'', col_default = Undefined,
      col_isNullable = True, col_isGenerated = False, col_generationStrategy = None,
      col_isPrimary = False, col_isUnique = False, col_isArray = False, col_comment = None,
      col_length = ''255'', col_charset = None, col_collation = None,
      col_precision = Undefined, col_scale = None, col_enum = None, col_enumName = None,
      col_primaryKeyConstraintName = None, col_asExpression = None,
      col_generatedType = None, col_generatedIdentity = None,
      col_spatialFeatureType = None, col_srid = None\<rparr>"

definition title_ColumnMetadata :: ColumnMetadata where
  "title_ColumnMetadata =
     \<lparr>databaseName = ''title'', cm_type = TypeName ''varchar'', cm_length = ''255'',
      cm_precision = Undefined, cm_scale = None, cm_isGenerated = False,
      cm_default = DefaultUndefined, cm_isPrimary = False, cm_isNullable = True,
      cm_asExpression = None, cm_generatedType = None, cm_enum = None,
      cm_ref = 0, cm_uniques = []\<rparr>"

text \<open>
  A generated current column whose default the database has filled in, and its
  declaration, which has no default.
\<close>

definition id_TableColumn :: TableColumn where
  "id_TableColumn =
     title_TableColumn\<lparr>col_name := ''id'', col_type := ''uniqueidentifier'', col_length := [],
       col_isGenerated := True, col_generationStrategy := Some ''uuid'',
       col_isNullable := False, col_default := Defined ''newsequentialid()''\<rparr>"

definition id_ColumnMetadata :: ColumnMetadata where
  "id_ColumnMetadata =
     title_ColumnMetadata\<lparr>databaseName := ''id'', cm_type := TypeName ''uuid'', cm_length := [],
       cm_isGenerated := True, cm_isNullable := False\<rparr>"


section \<open>Schema model\<close>

text \<open>
  Modelled from the spec: the classes Query, Table, TableUnique, TableIndex,
  TableForeignKey, TableCheck and TableExclusion are not among the sources. The records have the
  properties that the query runner reads and writes, named as they are there after a
  prefix. A Table owns an ordered sequence of columns and its constraints, with the
  database, the schema and the name that identify it. The columns of a table are given
  either by value (a Table) or by the addresses of the column objects (a TableObj).
\<close>

type_synonym Query = "string \<times> string list option"

definition newQuery :: "string \<Rightarrow> Query" where
  "newQuery sql = (sql, None)"

record TableUnique =
  uq_name :: "string option"
  uq_columnNames :: "string list"
  uq_deferrable :: "string option"

record TableIndex =
  idx_name :: "string option"
  idx_columnNames :: "string list"
  idx_where :: "string option"
  idx_isUnique :: bool
  idx_isSpatial :: bool
  idx_isConcurrent :: bool
  idx_isFulltext :: bool

record TableForeignKey =
  fk_name :: "string option"
  fk_columnNames :: "string list"
  fk_referencedColumnNames :: "string list"
  fk_referencedTableName :: string
  fk_referencedSchema :: "string option"
  fk_referencedDatabase :: "string option"
  fk_onDelete :: "string option"
  fk_onUpdate :: "string option"
  fk_deferrable :: "string option"

record TableCheck =
  chk_name :: "string option"
  chk_columnNames :: "string list option"
  chk_expression :: "string option"

record TableExclusion =
  exc_name :: "string option"
  exc_expression :: "string option"

record 'c TableOf =
  tbl_name :: string
  tbl_schema :: "string option"
  tbl_database :: "string option"
  tbl_comment :: "string option"
  tbl_columns :: "'c list"
  tbl_uniques :: "TableUnique list"
  tbl_indices :: "TableIndex list"
  tbl_foreignKeys :: "TableForeignKey list"
  tbl_checks :: "TableCheck list"
  tbl_exclusions :: "TableExclusion list"

type_synonym Table = "TableColumn TableOf"

type_synonym TableObj = "nat TableOf"

text \<open>\<^verbatim>\<open>`${x}`\<close> for an optional string: \<^verbatim>\<open>undefined\<close> is spelled out.\<close>

definition tpl :: "string option \<Rightarrow> string" where
  "tpl x = (case x of None \<Rightarrow> ''undefined'' | Some s \<Rightarrow> s)"

text \<open>\<^verbatim>\<open>`${x}`\<close> for a default value, which may be \<^verbatim>\<open>null\<close>.\<close>

definition tpl_nullable :: "string nullable \<Rightarrow> string" where
  "tpl_nullable x = (case x of Undefined \<Rightarrow> ''undefined'' | Null \<Rightarrow> ''null'' | Defined s \<Rightarrow> s)"

text \<open>\<^verbatim>\<open>x !== null && x !== undefined\<close>\<close>

definition isSet :: "'a nullable \<Rightarrow> bool" where
  "isSet x = (x \<noteq> Null \<and> x \<noteq> Undefined)"

text \<open>What \<^verbatim>\<open>parseTableName\<close> reads of a table and of a foreign key.\<close>

definition targetOf :: "'c TableOf \<Rightarrow> ParseTarget" where
  "targetOf table = TargetTableOrView (tbl_name table) (tbl_schema table) (tbl_database table)"

definition targetOfForeignKey :: "TableForeignKey \<Rightarrow> ParseTarget" where
  "targetOfForeignKey fk =
     TargetTableForeignKey (fk_referencedTableName fk) (fk_referencedSchema fk) (fk_referencedDatabase fk)"

text \<open>\<^verbatim>\<open>table.primaryColumns\<close>: the columns marked primary, in order.\<close>

definition primaryColumns :: "Table \<Rightarrow> TableColumn list" where
  "primaryColumns table = filter col_isPrimary (tbl_columns table)"

text \<open>
  A value of a row of a result of the database is a string, a number (an integer here)
  or a boolean. A row is a list of column names with their values; a value that is
  \<^verbatim>\<open>null\<close> is left out.
\<close>

datatype jsval = JsString string | JsNumber int | JsBoolean bool

type_synonym row = "(string \<times> jsval) list"

text \<open>The arguments of the statements on the metadata table.\<close>

record MetadataArgs =
  md_database :: "string option"
  md_schema :: "string option"
  md_table :: "string option"
  md_type :: string
  md_name :: string
  md_value :: "string option"

text \<open>
  The parts of the repository that the query runner uses and that are not among the
  sources, as parameters: of PostgresDriver \<^verbatim>\<open>parseTableName\<close>, \<^verbatim>\<open>buildTableName\<close>,
  \<^verbatim>\<open>createFullType\<close>, \<^verbatim>\<open>normalizeType\<close>, \<^verbatim>\<open>withLengthColumnTypes\<close>, \<^verbatim>\<open>searchSchema\<close>,
  \<^verbatim>\<open>database\<close>, \<^verbatim>\<open>options.schema\<close>, \<^verbatim>\<open>uuidGenerator\<close> and \<^verbatim>\<open>maxAliasLength\<close>; the four
  names of the naming strategy; of BaseQueryRunner \<^verbatim>\<open>getTablePath\<close>,
  \<^verbatim>\<open>getTypeormMetadataTableName\<close>, the three statements on the metadata table and the
  three tests \<^verbatim>\<open>isDefaultColumnPrecision\<close>, \<^verbatim>\<open>isDefaultColumnScale\<close> and
  \<^verbatim>\<open>isDefaultColumnLength\<close>; \<^verbatim>\<open>OrmUtils.isArraysEqual\<close> and \<^verbatim>\<open>OrmUtils.uniq\<close>; the
  values VIEW, MATERIALIZED_VIEW and GENERATED_COLUMN of MetadataTableType.
\<close>

record Deps =
  pg_parseTableName :: "ParseTarget \<Rightarrow> ParsedTableName"
  pg_buildTableName :: "string option \<Rightarrow> string option \<Rightarrow> string"
  pg_createFullType :: "TableColumn \<Rightarrow> string"
  pg_normalizeType :: "string \<Rightarrow> string"
  pg_withLengthColumnTypes :: "string list"
  pg_searchSchema :: "string option"
  pg_database :: "string option"
  pg_options_schema :: "string option"
  pg_uuidGenerator :: string
  pg_maxAliasLength :: nat
  ns_primaryKeyName :: "Table \<Rightarrow> string list \<Rightarrow> string"
  ns_uniqueConstraintName :: "Table \<Rightarrow> string list \<Rightarrow> string"
  ns_indexName :: "Table \<Rightarrow> string list \<Rightarrow> string option \<Rightarrow> string"
  ns_foreignKeyName :: "Table \<Rightarrow> string list \<Rightarrow> string \<Rightarrow> string list \<Rightarrow> string"
  getTablePath :: "ParseTarget \<Rightarrow> string"
  getTypeormMetadataTableName :: string
  insertTypeormMetadataSql :: "MetadataArgs \<Rightarrow> Query"
  deleteTypeormMetadataSql :: "MetadataArgs \<Rightarrow> Query"
  selectTypeormMetadataSql :: "MetadataArgs \<Rightarrow> Query"
  isDefaultColumnPrecision :: "Table \<Rightarrow> TableColumn \<Rightarrow> int nullable \<Rightarrow> bool"
  isDefaultColumnScale :: "Table \<Rightarrow> TableColumn \<Rightarrow> int nullable \<Rightarrow> bool"
  isDefaultColumnLength :: "Table \<Rightarrow> TableColumn \<Rightarrow> string \<Rightarrow> bool"
  isArraysEqual :: "string list \<Rightarrow> string list \<Rightarrow> bool"
  uniq :: "row list \<Rightarrow> (row \<Rightarrow> string option) \<Rightarrow> row list"
  mt_VIEW :: string
  mt_MATERIALIZED_VIEW :: string
  mt_GENERATED_COLUMN :: string


section \<open>PostgresQueryRunner: building statements\<close>

text \<open>\<^verbatim>\<open>escapePath(target)\<close>\<close>

definition escapePath :: "Deps \<Rightarrow> ParseTarget \<Rightarrow> string" where
  "escapePath deps target =
     (let parsed = pg_parseTableName deps target
      in if truthy (schema parsed) \<and> schema parsed \<noteq> pg_searchSchema deps
         then quoted (the (schema parsed)) @ ''.'' @ quoted (tableName parsed)
         else quoted (tableName parsed))"

text \<open>\<^verbatim>\<open>buildEnumName(table, column, withSchema, disableEscape, toOld)\<close>\<close>

definition buildEnumName :: "Deps \<Rightarrow> Table \<Rightarrow> TableColumn \<Rightarrow> bool \<Rightarrow> bool \<Rightarrow> bool \<Rightarrow> string" where
  "buildEnumName deps table column withSchema disableEscape toOld =
     (let parsed = pg_parseTableName deps (targetOf table);
          enumName =
            (if truthy (col_enumName column) then the (col_enumName column)
             else tableName parsed @ ''_'' @ toLowerCase (col_name column) @ ''_enum'');
          enumName =
            (if truthy (schema parsed) \<and> withSchema then the (schema parsed) @ ''.'' @ enumName
             else enumName);
          enumName = (if toOld then enumName @ ''_old'' else enumName)
      in join_js ''.''
           (map (\<lambda>i. if disableEscape then i else quoted i) (split_js (CHR ''.'') enumName)))"

text \<open>\<^verbatim>\<open>value.replaceAll("'", "''")\<close>\<close>

definition doubleQuotes :: "string \<Rightarrow> string" where
  "doubleQuotes s = concat (map (\<lambda>c. if c = CHR 0x27 then sq @ sq else [c]) s)"

text \<open>
  \<^verbatim>\<open>createEnumTypeSql(table, column, enumName?)\<close>; reading the values of a column that has
  no \<^verbatim>\<open>enum\<close> is a TypeError.
\<close>

definition createEnumTypeSql :: "Deps \<Rightarrow> Table \<Rightarrow> TableColumn \<Rightarrow> string option \<Rightarrow> Query option" where
  "createEnumTypeSql deps table column enumName_opt =
     (let enumName =
            (if \<not> truthy enumName_opt then buildEnumName deps table column True False False
             else the enumName_opt)
      in case col_enum column of
           None \<Rightarrow> None
         | Some vs \<Rightarrow>
             Some (newQuery (''CREATE TYPE '' @ enumName @ '' AS ENUM('' @
                     join_js '', '' (map (\<lambda>v. sq @ doubleQuotes v @ sq) vs) @ '')'')))"

definition dropEnumTypeSql :: "Deps \<Rightarrow> Table \<Rightarrow> TableColumn \<Rightarrow> string option \<Rightarrow> Query" where
  "dropEnumTypeSql deps table column enumName_opt =
     (let enumName =
            (if \<not> truthy enumName_opt then buildEnumName deps table column True False False
             else the enumName_opt)
      in newQuery (''DROP TYPE '' @ enumName))"

definition createIndexSql :: "Deps \<Rightarrow> Table \<Rightarrow> TableIndex \<Rightarrow> Query" where
  "createIndexSql deps table index =
     (let columns = join_js '', '' (map quoted (idx_columnNames index))
      in newQuery (''CREATE '' @ (if idx_isUnique index then ''UNIQUE '' else '''') @ ''INDEX'' @
           (if idx_isConcurrent index then '' CONCURRENTLY'' else '''') @ '' '' @
           quoted (tpl (idx_name index)) @ '' ON '' @ escapePath deps (targetOf table) @ '' '' @
           (if idx_isSpatial index then ''USING GiST '' else '''') @ ''('' @ columns @ '') '' @
           (if truthy (idx_where index) then ''WHERE '' @ the (idx_where index) else '''')))"

text \<open>\<^verbatim>\<open>dropIndexSql(table, index)\<close> for a TableIndex.\<close>

definition dropIndexSql :: "Deps \<Rightarrow> Table \<Rightarrow> TableIndex \<Rightarrow> Query" where
  "dropIndexSql deps table index =
     (let indexName = idx_name index;
          concurrent = idx_isConcurrent index;
          parsed = pg_parseTableName deps (targetOf table)
      in if truthy (schema parsed)
         then newQuery (''DROP INDEX '' @ (if concurrent then ''CONCURRENTLY '' else '''') @
                quoted (the (schema parsed)) @ ''.'' @ quoted (tpl indexName))
         else newQuery (''DROP INDEX '' @ (if concurrent then ''CONCURRENTLY '' else '''') @
                quoted (tpl indexName)))"

text \<open>The unique constraints here have no \<^verbatim>\<open>deferrable\<close> mode.\<close>

definition createUniqueConstraintSql :: "Deps \<Rightarrow> Table \<Rightarrow> TableUnique \<Rightarrow> Query" where
  "createUniqueConstraintSql deps table uniqueConstraint =
     (let columnNames = join_js '', '' (map quoted (uq_columnNames uniqueConstraint))
      in newQuery (''ALTER TABLE '' @ escapePath deps (targetOf table) @ '' ADD CONSTRAINT '' @
           quoted (tpl (uq_name uniqueConstraint)) @ '' UNIQUE ('' @ columnNames @ '')''))"

definition dropUniqueConstraintSql :: "Deps \<Rightarrow> Table \<Rightarrow> TableUnique \<Rightarrow> Query" where
  "dropUniqueConstraintSql deps table uniqueConstraint =
     newQuery (''ALTER TABLE '' @ escapePath deps (targetOf table) @ '' DROP CONSTRAINT '' @
       quoted (tpl (uq_name uniqueConstraint)))"

definition createCheckConstraintSql :: "Deps \<Rightarrow> Table \<Rightarrow> TableCheck \<Rightarrow> Query" where
  "createCheckConstraintSql deps table checkConstraint =
     newQuery (''ALTER TABLE '' @ escapePath deps (targetOf table) @ '' ADD CONSTRAINT '' @
       quoted (tpl (chk_name checkConstraint)) @ '' CHECK ('' @ tpl (chk_expression checkConstraint) @ '')'')"

definition dropCheckConstraintSql :: "Deps \<Rightarrow> Table \<Rightarrow> TableCheck \<Rightarrow> Query" where
  "dropCheckConstraintSql deps table checkConstraint =
     newQuery (''ALTER TABLE '' @ escapePath deps (targetOf table) @ '' DROP CONSTRAINT '' @
       quoted (tpl (chk_name checkConstraint)))"

text \<open>\<^verbatim>\<open>buildSequenceName(table, columnName)\<close>\<close>

definition buildSequenceName :: "Deps \<Rightarrow> Table \<Rightarrow> string \<Rightarrow> string" where
  "buildSequenceName deps table columnName =
     (let tname = tableName (pg_parseTableName deps (targetOf table));
          seqName = tname @ ''_'' @ columnName @ ''_seq''
      in if length seqName > pg_maxAliasLength deps
         then take 29 tname @ ''_'' @
              take (nat (max 29 (63 - int (length (tbl_name table)) - 5))) columnName @ ''_seq''
         else seqName)"

definition buildSequencePath :: "Deps \<Rightarrow> Table \<Rightarrow> string \<Rightarrow> string" where
  "buildSequencePath deps table columnName =
     (let parsed = pg_parseTableName deps (targetOf table)
      in if truthy (schema parsed)
         then the (schema parsed) @ ''.'' @ buildSequenceName deps table columnName
         else buildSequenceName deps table columnName)"

text \<open>\<^verbatim>\<open>escapeComment(comment)\<close>: quotes are doubled and null bytes dropped.\<close>

definition escapeComment :: "string option \<Rightarrow> string" where
  "escapeComment comment =
     (if \<not> truthy comment then ''NULL''
      else sq @ filter (\<lambda>c. c \<noteq> CHR 0x00) (doubleQuotes (the comment)) @ sq)"

text \<open>\<^verbatim>\<open>buildCreateColumnSql(table, column)\<close>\<close>

definition buildCreateColumnSql :: "Deps \<Rightarrow> Table \<Rightarrow> TableColumn \<Rightarrow> string" where
  "buildCreateColumnSql deps table column =
     (let c = dq @ col_name column @ dq;
          c = (if col_isGenerated column \<and> col_generationStrategy column \<noteq> Some ''uuid'' then
                 (if col_generationStrategy column = Some ''identity'' then
                    c @ '' '' @ col_type column @ '' GENERATED '' @
                      (if truthy (col_generatedIdentity column) then the (col_generatedIdentity column)
                       else ''BY DEFAULT'') @ '' AS IDENTITY''
                  else
                    (let c = (if col_type column = ''integer'' \<or> col_type column = ''int''
                                 \<or> col_type column = ''int4'' then c @ '' SERIAL'' else c);
                         c = (if col_type column = ''smallint'' \<or> col_type column = ''int2''
                              then c @ '' SMALLSERIAL'' else c);
                         c = (if col_type column = ''bigint'' \<or> col_type column = ''int8''
                              then c @ '' BIGSERIAL'' else c)
                     in c))
               else c);
          c = (if col_type column = ''enum'' \<or> col_type column = ''simple-enum'' then
                 (let c = c @ '' '' @ buildEnumName deps table column True False False
                  in if col_isArray column then c @ '' array'' else c)
               else if \<not> col_isGenerated column \<or> col_type column = ''uuid'' then
                 c @ '' '' @ pg_createFullType deps column
               else c);
          c = (if col_generatedType column = Some ''STORED'' \<and> truthy (col_asExpression column)
               then c @ '' GENERATED ALWAYS AS ('' @ the (col_asExpression column) @ '') STORED''
               else c);
          c = (if truthy (col_charset column)
               then c @ '' CHARACTER SET '' @ dq @ the (col_charset column) @ dq else c);
          c = (if truthy (col_collation column)
               then c @ '' COLLATE '' @ dq @ the (col_collation column) @ dq else c);
          c = (if \<not> col_isNullable column then c @ '' NOT NULL'' else c);
          c = (if isSet (col_default column)
               then c @ '' DEFAULT '' @ tpl_nullable (col_default column) else c);
          c = (if col_isGenerated column \<and> col_generationStrategy column = Some ''uuid''
                  \<and> (col_default column = Undefined \<or> col_default column = Null
                       \<or> col_default column = Defined [])
               then c @ '' DEFAULT '' @ pg_uuidGenerator deps else c)
      in c)"


section \<open>PostgresQueryRunner: connection and statements\<close>

text \<open>
  The result object of the driver has the properties \<^verbatim>\<open>rows\<close>, \<^verbatim>\<open>rowCount\<close> and
  \<^verbatim>\<open>command\<close>, each of which may be missing; \<^verbatim>\<open>rowCount\<close> may be \<^verbatim>\<open>null\<close>.
\<close>

record PgResult =
  rows :: "row list option"
  rowCount :: "int nullable"
  command :: "string option"

text \<open>What \<^verbatim>\<open>result.raw\<close> is set to: the rows, or the array of the rows and the row count.\<close>

datatype RawPayload =
    RawRows "row list option"
  | RawRowsAndCount "row list option" "int nullable"

text \<open>
  Modelled from the spec: the class QueryResult is not among the sources; the result has
  the three properties \<^verbatim>\<open>records\<close>, \<^verbatim>\<open>affected\<close> and \<^verbatim>\<open>raw\<close>, none of them set in a new
  object but \<^verbatim>\<open>records\<close>, which is empty.
\<close>

record QueryResult =
  records :: "row list"
  affected :: "int nullable"
  raw :: "RawPayload option"

definition new_QueryResult :: QueryResult where
  "new_QueryResult = \<lparr>records = [], affected = Undefined, raw = None\<rparr>"

datatype QueryReturn =
    ReturnRaw RawPayload
  | ReturnResult QueryResult

text \<open>
  The errors of the runner. QueryFailedError is built from the query, its parameters and
  the driver's error. JsTypeError is the TypeError of reading a property of \<^verbatim>\<open>undefined\<close>.
  CollaboratorError stands for what a collaborator outside of the runner throws (the pool
  when no connection can be obtained, a subscriber of the broadcaster).
\<close>

datatype RunnerError =
    QueryRunnerAlreadyReleasedError
  | TransactionNotStartedError
  | QueryFailedError string "string list option" string
  | TypeORMError string
  | JsTypeError
  | CollaboratorError string

text \<open>
  The collaborators of the runner: whether obtaining a connection fails, whether a
  method of the logger throws (by the name of the method), whether broadcasting an event
  fails, whether the time of a statement is above \<^verbatim>\<open>maxQueryExecutionTime\<close>, and what the
  database answers to a statement, given the statements it has received before: an
  error, or a result object (or nothing). For the broadcaster the event AfterQuery is the
  call of \<^verbatim>\<open>broadcastAfterQueryEvent\<close> and the event AfterQueryWait is the promise
  \<^verbatim>\<open>broadcasterResult.wait()\<close>.
\<close>

record Env =
  connect_fails :: "string option"
  logger_fails :: "string \<Rightarrow> string option"
  broadcast_fails :: "string \<Rightarrow> string option"
  query_is_slow :: "string \<Rightarrow> bool"
  driver_query :: "Query list \<Rightarrow> string \<Rightarrow> string list option \<Rightarrow> string + PgResult option"

text \<open>
  The state of a runner; \<open>sent\<close> lists the statements handed to
  \<^verbatim>\<open>databaseConnection.query\<close>, the oldest first.

  Modelled from the spec: the class BaseQueryRunner is not among the sources. Of its
  state the runner has the cached tables (\<open>loadedTables\<close>), the up and down statements
  of the run (\<^verbatim>\<open>sqlInMemory.upQueries\<close> and \<^verbatim>\<open>sqlInMemory.downQueries\<close>) and the mode in
  which statements are only recorded (\<open>sqlMemoryMode\<close>). \<open>heap\<close> is the store of the
  TableColumn objects and \<open>tables\<close> the store of the Table objects: the address of an
  object is its position. The cache holds the addresses of the cached tables.
\<close>

record Runner =
  isReleased :: bool
  isTransactionActive :: bool
  transactionDepth :: int
  databaseConnection :: bool
  sent :: "Query list"
  heap :: "TableColumn list"
  tables :: "TableObj list"
  loadedTables :: "nat list"
  sqlMemoryMode :: bool
  upQueries :: "Query list"
  downQueries :: "Query list"

text \<open>An asynchronous method: from the state, an error or a value, and the state after it.\<close>

type_synonym 'a action = "Runner \<Rightarrow> (RunnerError + 'a) \<times> Runner"

definition ret :: "'a \<Rightarrow> 'a action" where
  "ret a = (\<lambda>rs. (Inr a, rs))"

definition throw :: "RunnerError \<Rightarrow> 'a action" where
  "throw e = (\<lambda>rs. (Inl e, rs))"

definition andThen :: "'a action \<Rightarrow> ('a \<Rightarrow> 'b action) \<Rightarrow> 'b action" where
  "andThen m f = (\<lambda>rs. case m rs of (Inl e, rs') \<Rightarrow> (Inl e, rs') | (Inr a, rs') \<Rightarrow> f a rs')"

definition modify :: "(Runner \<Rightarrow> Runner) \<Rightarrow> unit action" where
  "modify g = (\<lambda>rs. (Inr (), g rs))"

text \<open>\<^verbatim>\<open>connect()\<close>: the memoized connection, or a new one from the pool.\<close>

definition connect :: "Env \<Rightarrow> unit action" where
  "connect env = (\<lambda>rs.
     if databaseConnection rs then (Inr (), rs)
     else (case connect_fails env of
             Some e \<Rightarrow> (Inl (CollaboratorError e), rs)
           | None \<Rightarrow> (Inr (), rs\<lparr>databaseConnection := True\<rparr>)))"

text \<open>\<^verbatim>\<open>release()\<close>, that is \<^verbatim>\<open>releasePostgresConnection()\<close>.\<close>

definition release :: "Runner \<Rightarrow> Runner" where
  "release rs = (if isReleased rs then rs else rs\<lparr>isReleased := True\<rparr>)"

text \<open>\<^verbatim>\<open>await this.broadcaster.broadcast(event)\<close>\<close>

definition broadcast :: "Env \<Rightarrow> string \<Rightarrow> unit action" where
  "broadcast env event =
     (case broadcast_fails env event of
        Some e \<Rightarrow> throw (CollaboratorError e)
      | None \<Rightarrow> ret ())"

text \<open>The result of \<^verbatim>\<open>query\<close> from the driver's result object.\<close>

definition normalizeResult :: "PgResult option \<Rightarrow> bool \<Rightarrow> QueryReturn" where
  "normalizeResult raw_opt useStructuredResult =
     (let result = new_QueryResult
      in case raw_opt of
           None \<Rightarrow> ReturnResult result
         | Some r \<Rightarrow>
             (let result = (case rows r of Some rs \<Rightarrow> result\<lparr>records := rs\<rparr> | None \<Rightarrow> result);
                  result = (if rowCount r \<noteq> Undefined then result\<lparr>affected := rowCount r\<rparr> else result);
                  payload =
                    (if command r = Some ''DELETE'' \<or> command r = Some ''UPDATE''
                     then RawRowsAndCount (rows r) (rowCount r)
                     else RawRows (rows r));
                  result = result\<lparr>raw := Some payload\<rparr>
              in if \<not> useStructuredResult then ReturnRaw payload
                 else ReturnResult result))"

text \<open>A call of a method of the logger.\<close>

definition logger :: "Env \<Rightarrow> string \<Rightarrow> unit action" where
  "logger env method =
     (case logger_fails env method of
        Some e \<Rightarrow> throw (CollaboratorError e)
      | None \<Rightarrow> ret ())"

text \<open>
  The \<^verbatim>\<open>try\<close> block of \<^verbatim>\<open>query\<close>: the statement is handed to the driver; after its answer
  the event AfterQuery is broadcast, a slow statement is logged, and the result is built.
  What the driver, the broadcaster or the logger throws here is the error of the block.
\<close>

definition query_try ::
  "Env \<Rightarrow> string \<Rightarrow> string list option \<Rightarrow> bool \<Rightarrow> Runner \<Rightarrow> (string + QueryReturn) \<times> Runner" where
  "query_try env q parameters useStructuredResult rs =
     (let rs' = rs\<lparr>sent := sent rs @ [(q, parameters)]\<rparr>
      in case driver_query env (sent rs) q parameters of
           Inl err \<Rightarrow> (Inl err, rs')
         | Inr raw_opt \<Rightarrow>
             (case broadcast_fails env ''AfterQuery'' of
                Some e \<Rightarrow> (Inl e, rs')
              | None \<Rightarrow>
                  (case (if query_is_slow env q then logger_fails env ''logQuerySlow'' else None) of
                     Some e \<Rightarrow> (Inl e, rs')
                   | None \<Rightarrow> (Inr (normalizeResult raw_opt useStructuredResult), rs'))))"

text \<open>
  The \<^verbatim>\<open>catch\<close> block: the error is logged, the event AfterQuery is broadcast, and a
  QueryFailedError with the statement, its parameters and the error is thrown.
\<close>

definition query_catch :: "Env \<Rightarrow> string \<Rightarrow> string list option \<Rightarrow> string \<Rightarrow> RunnerError" where
  "query_catch env q parameters err =
     (case logger_fails env ''logQueryError'' of
        Some e \<Rightarrow> CollaboratorError e
      | None \<Rightarrow>
          (case broadcast_fails env ''AfterQuery'' of
             Some e \<Rightarrow> CollaboratorError e
           | None \<Rightarrow> QueryFailedError q parameters err))"

text \<open>
  The \<^verbatim>\<open>finally\<close> block: \<^verbatim>\<open>await broadcasterResult.wait()\<close>; when this promise is rejected,
  its error is the outcome in place of the result or of the error so far.
\<close>

definition query_finally :: "Env \<Rightarrow> (RunnerError + 'a) \<Rightarrow> (RunnerError + 'a)" where
  "query_finally env outcome =
     (case broadcast_fails env ''AfterQueryWait'' of
        Some e \<Rightarrow> Inl (CollaboratorError e)
      | None \<Rightarrow> outcome)"

text \<open>\<^verbatim>\<open>query(query, parameters, useStructuredResult)\<close>\<close>

definition query :: "Env \<Rightarrow> string \<Rightarrow> string list option \<Rightarrow> bool \<Rightarrow> QueryReturn action" where
  "query env q parameters useStructuredResult = (\<lambda>rs.
     if isReleased rs then (Inl QueryRunnerAlreadyReleasedError, rs)
     else
       andThen (connect env) (\<lambda>_.
       andThen (logger env ''logQuery'') (\<lambda>_.
       andThen (broadcast env ''BeforeQuery'') (\<lambda>_. (\<lambda>rs.
         (case query_try env q parameters useStructuredResult rs of
            (Inl err, rs') \<Rightarrow> (query_finally env (Inl (query_catch env q parameters err)), rs')
          | (Inr result, rs') \<Rightarrow> (query_finally env (Inr result), rs')))))) rs)"


section \<open>PostgresQueryRunner: transactions\<close>

definition startTransaction :: "Env \<Rightarrow> string option \<Rightarrow> unit action" where
  "startTransaction env isolationLevel =
     andThen (modify (\<lambda>rs. rs\<lparr>isTransactionActive := True\<rparr>)) (\<lambda>_.
     andThen (\<lambda>rs. case broadcast env ''BeforeTransactionStart'' rs of
                     (Inl err, rs') \<Rightarrow> (Inl err, rs'\<lparr>isTransactionActive := False\<rparr>)
                   | (Inr u, rs') \<Rightarrow> (Inr u, rs')) (\<lambda>_.
     andThen (\<lambda>rs.
        if transactionDepth rs = 0 then
          andThen (query env ''START TRANSACTION'' None False) (\<lambda>_.
            if truthy isolationLevel
            then andThen (query env (''SET TRANSACTION ISOLATION LEVEL '' @ the isolationLevel) None False)
                   (\<lambda>_. ret ())
            else ret ()) rs
        else
          andThen (query env (''SAVEPOINT typeorm_'' @ toString_int (transactionDepth rs)) None False)
            (\<lambda>_. ret ()) rs) (\<lambda>_.
     andThen (modify (\<lambda>rs. rs\<lparr>transactionDepth := transactionDepth rs + 1\<rparr>)) (\<lambda>_.
     broadcast env ''AfterTransactionStart''))))"

definition commitTransaction :: "Env \<Rightarrow> unit action" where
  "commitTransaction env = (\<lambda>rs.
     if \<not> isTransactionActive rs then (Inl TransactionNotStartedError, rs)
     else
       andThen (broadcast env ''BeforeTransactionCommit'') (\<lambda>_.
       andThen (\<lambda>rs.
          if transactionDepth rs > 1 then
            andThen (query env (''RELEASE SAVEPOINT typeorm_'' @ toString_int (transactionDepth rs - 1))
                       None False) (\<lambda>_. ret ()) rs
          else
            andThen (query env ''COMMIT'' None False) (\<lambda>_.
              modify (\<lambda>rs. rs\<lparr>isTransactionActive := False\<rparr>)) rs) (\<lambda>_.
       andThen (modify (\<lambda>rs. rs\<lparr>transactionDepth := transactionDepth rs - 1\<rparr>)) (\<lambda>_.
       broadcast env ''AfterTransactionCommit''))) rs)"

definition rollbackTransaction :: "Env \<Rightarrow> unit action" where
  "rollbackTransaction env = (\<lambda>rs.
     if \<not> isTransactionActive rs then (Inl TransactionNotStartedError, rs)
     else
       andThen (broadcast env ''BeforeTransactionRollback'') (\<lambda>_.
       andThen (\<lambda>rs.
          if transactionDepth rs > 1 then
            andThen (query env (''ROLLBACK TO SAVEPOINT typeorm_'' @ toString_int (transactionDepth rs - 1))
                       None False) (\<lambda>_. ret ()) rs
          else
            andThen (query env ''ROLLBACK'' None False) (\<lambda>_.
              modify (\<lambda>rs. rs\<lparr>isTransactionActive := False\<rparr>)) rs) (\<lambda>_.
       andThen (modify (\<lambda>rs. rs\<lparr>transactionDepth := transactionDepth rs - 1\<rparr>)) (\<lambda>_.
       broadcast env ''AfterTransactionRollback''))) rs)"

text \<open>A new runner, and collaborators that never fail: the database answers every statement with no rows.\<close>

definition new_Runner :: Runner where
  "new_Runner = \<lparr>isReleased = False, isTransactionActive = False, transactionDepth = 0,
                 databaseConnection = False, sent = [], heap = [], tables = [],
                 loadedTables = [],
                 sqlMemoryMode = False, upQueries = [], downQueries = []\<rparr>"

definition quiet_Env :: Env where
  "quiet_Env = \<lparr>connect_fails = None, logger_fails = (\<lambda>_. None),
                broadcast_fails = (\<lambda>_. None), query_is_slow = (\<lambda>_. False),
                driver_query = (\<lambda>_ _ _. Inr (Some \<lparr>rows = Some [], rowCount = Null, command = None\<rparr>))\<rparr>"

text \<open>A database that answers a DELETE with a row count and anything else with one row.\<close>

definition sample_Env :: Env where
  "sample_Env = quiet_Env\<lparr>driver_query := (\<lambda>_ q _.
     if q = ''DELETE FROM post''
     then Inr (Some \<lparr>rows = Some [], rowCount = Defined 3, command = Some ''DELETE''\<rparr>)
     else Inr (Some \<lparr>rows = Some [[(''id'', JsString ''1'')]], rowCount = Defined 1, command = Some ''SELECT''\<rparr>))\<rparr>"


section \<open>PostgresQueryRunner: reading the catalog\<close>

text \<open>
  \<^verbatim>\<open>await this.query(sql)\<close> for a SELECT statement: the rows. The driver is taken to
  answer a SELECT with an array of rows; any other answer is the TypeError that reading
  it as an array of rows ends in.
\<close>

definition queryRowsWith :: "Env \<Rightarrow> string \<Rightarrow> string list option \<Rightarrow> row list action" where
  "queryRowsWith env sql parameters =
     andThen (query env sql parameters False) (\<lambda>r.
       case r of
         ReturnRaw (RawRows (Some rs)) \<Rightarrow> ret rs
       | _ \<Rightarrow> throw JsTypeError)"

definition queryRows :: "Env \<Rightarrow> string \<Rightarrow> row list action" where
  "queryRows env sql = queryRowsWith env sql None"

text \<open>
  \<^verbatim>\<open>row[key]\<close> where a string is read: the value of a column of a row, if the row has
  it; a number or a boolean is read as its text.
\<close>

definition textOf :: "jsval \<Rightarrow> string" where
  "textOf v = (case v of JsString s \<Rightarrow> s | JsNumber n \<Rightarrow> toString_int n
               | JsBoolean b \<Rightarrow> (if b then ''true'' else ''false''))"

definition field :: "row \<Rightarrow> string \<Rightarrow> string option" where
  "field r key = map_option textOf (map_of r key)"

text \<open>
  \<^verbatim>\<open>row[key]\<close> where a number is read: the number, or \<^verbatim>\<open>null\<close>; a value that is no number
  stands for no number.
\<close>

definition numberField :: "row \<Rightarrow> string \<Rightarrow> int nullable" where
  "numberField r key =
     (case map_of r key of None \<Rightarrow> Null | Some (JsNumber n) \<Rightarrow> Defined n | Some _ \<Rightarrow> Undefined)"

text \<open>\<^verbatim>\<open>row[key]\<close> as a condition: \<^verbatim>\<open>null\<close>, the empty string, 0 and \<^verbatim>\<open>false\<close> are falsy.\<close>

definition truthyField :: "row \<Rightarrow> string \<Rightarrow> bool" where
  "truthyField r key =
     (case map_of r key of
        None \<Rightarrow> False
      | Some (JsString s) \<Rightarrow> s \<noteq> []
      | Some (JsNumber n) \<Rightarrow> n \<noteq> 0
      | Some (JsBoolean b) \<Rightarrow> b)"

text \<open>\<^verbatim>\<open>rows[0][key]\<close>: reading the first row of no rows is a TypeError.\<close>

definition firstField :: "row list \<Rightarrow> string \<Rightarrow> string option action" where
  "firstField rs key = (case rs of [] \<Rightarrow> throw JsTypeError | r # _ \<Rightarrow> ret (field r key))"

definition getCurrentDatabase :: "Env \<Rightarrow> string option action" where
  "getCurrentDatabase env =
     andThen (queryRows env ''SELECT * FROM current_database()'') (\<lambda>q.
       firstField q ''current_database'')"

definition getCurrentSchema :: "Env \<Rightarrow> string option action" where
  "getCurrentSchema env =
     andThen (queryRows env ''SELECT * FROM current_schema()'') (\<lambda>q.
       firstField q ''current_schema'')"

text \<open>The schema of a parsed name, or the current schema when the name has none.\<close>

definition schemaOrCurrent :: "Env \<Rightarrow> ParsedTableName \<Rightarrow> string option action" where
  "schemaOrCurrent env parsed =
     (if \<not> truthy (schema parsed) then getCurrentSchema env else ret (schema parsed))"


definition hasEnumType :: "Deps \<Rightarrow> Env \<Rightarrow> Table \<Rightarrow> TableColumn \<Rightarrow> bool action" where
  \<open>hasEnumType deps env table column =
     (let parsed = pg_parseTableName deps (targetOf table)
      in andThen (schemaOrCurrent env parsed) (\<lambda>schema_opt.
         (let enumName = buildEnumName deps table column False True False
          in andThen (queryRows env
               (''SELECT "n"."nspname", "t"."typname" FROM "pg_type" "t" '' @
                ''INNER JOIN "pg_namespace" "n" ON "n"."oid" = "t"."typnamespace" '' @
                ''WHERE "n"."nspname" = '' @ sq @ tpl schema_opt @ sq @
                '' AND "t"."typname" = '' @ sq @ enumName @ sq))
               (\<lambda>result. ret (result \<noteq> [])))))\<close>

text \<open>
  \<^verbatim>\<open>getUserDefinedTypeName(table, column)\<close>: the schema and the name of the type of the
  column; a leading underscore of the name is dropped.
\<close>

definition getUserDefinedTypeName ::
  "Deps \<Rightarrow> Env \<Rightarrow> Table \<Rightarrow> TableColumn \<Rightarrow> (string option \<times> string) action" where
  \<open>getUserDefinedTypeName deps env table column =
     (let parsed = pg_parseTableName deps (targetOf table)
      in andThen (schemaOrCurrent env parsed) (\<lambda>schema_opt.
         andThen (queryRows env
           (''SELECT "udt_schema", "udt_name" '' @
            ''FROM "information_schema"."columns" WHERE "table_schema" = '' @ sq @ tpl schema_opt @ sq @
            '' AND "table_name" = '' @ sq @ tableName parsed @ sq @
            '' AND "column_name"='' @ sq @ col_name column @ sq)) (\<lambda>result.
         andThen (firstField result ''udt_name'') (\<lambda>udtName_opt.
         andThen (firstField result ''udt_schema'') (\<lambda>udtSchema.
           case udtName_opt of
             None \<Rightarrow> throw JsTypeError
           | Some udtName \<Rightarrow>
               ret (udtSchema, if take 1 udtName = ''_'' then drop 1 udtName else udtName))))))\<close>

text \<open>\<^verbatim>\<open>getTableNameWithSchema(target)\<close> for the name of a table.\<close>

definition getTableNameWithSchema :: "Env \<Rightarrow> string \<Rightarrow> string action" where
  "getTableNameWithSchema env tname =
     (if CHR ''.'' \<notin> set tname then
        andThen (queryRows env ''SELECT current_schema()'') (\<lambda>schemaResult.
        andThen (firstField schemaResult ''current_schema'') (\<lambda>schema_opt.
          ret (tpl schema_opt @ ''.'' @ tname)))
      else
        ret (split_js (CHR ''.'') tname ! 0 @ ''.'' @ split_js (CHR ''.'') tname ! 1))"


section \<open>PostgresQueryRunner: loading views and tables\<close>








section \<open>PostgresQueryRunner: the patterns of loadTables\<close>

text \<open>The classes \<^verbatim>\<open>\d\<close>, \<^verbatim>\<open>\w\<close> and \<^verbatim>\<open>\s\<close> of the patterns, on the characters of one byte.\<close>

definition isDigit :: "char \<Rightarrow> bool" where
  "isDigit c = (c \<in> set ''0123456789'')"

definition isWordChar :: "char \<Rightarrow> bool" where
  "isWordChar c =
     (c \<in> set ''abcdefghijklmnopqrstuvwxyzABCDEFGHIJKLMNOPQRSTUVWXYZ0123456789_'')"

definition isSpace :: "char \<Rightarrow> bool" where
  "isSpace c = (c \<in> set [CHR 0x09, CHR 0x0A, CHR 0x0B, CHR 0x0C, CHR 0x0D, CHR 0x20, CHR 0xA0])"

text \<open>\<^verbatim>\<open>+digits\<close>: the number that a string of digits is the numeral of.\<close>

definition digitsValue :: "string \<Rightarrow> int" where
  "digitsValue ds =
     fold (\<lambda>c n. 10 * n + int (length (takeWhile (\<lambda>d. d \<noteq> c) ''0123456789''))) ds 0"

text \<open>\<^verbatim>\<open>s.match(/^numeric\(([0-9]+),([0-9]+)\)\[\]$/)\<close>: the two numbers, if the string matches.\<close>

definition matchNumericSize :: "string \<Rightarrow> (int \<times> int) option" where
  "matchNumericSize s =
     (let p = takeWhile isDigit (drop 8 s);
          r = dropWhile isDigit (drop 8 s);
          q = takeWhile isDigit (drop 1 r);
          e = dropWhile isDigit (drop 1 r)
      in if take 8 s = ''numeric('' \<and> p \<noteq> [] \<and> take 1 r = '','' \<and> q \<noteq> [] \<and> e = '')[]''
         then Some (digitsValue p, digitsValue q) else None)"

text \<open>\<^verbatim>\<open>/\((\d+)\)/.exec(s)\<close>: the digits of the first group of digits in parentheses.\<close>

fun parenDigits :: "string \<Rightarrow> string option" where
  "parenDigits [] = None"
| "parenDigits (c # cs) =
     (if c = CHR ''('' \<and> takeWhile isDigit cs \<noteq> [] \<and> take 1 (dropWhile isDigit cs) = '')''
      then Some (takeWhile isDigit cs) else parenDigits cs)"

text \<open>\<^verbatim>\<open>/^uuid_generate_v\d\(\)/.test(s)\<close>\<close>

definition isUuidGenerate :: "string \<Rightarrow> bool" where
  "isUuidGenerate s =
     (take 15 s = ''uuid_generate_v'' \<and> list_all isDigit (take 1 (drop 15 s)) \<and>
      take 2 (drop 16 s) = ''()'')"

text \<open>\<^verbatim>\<open>s.indexOf(sub) !== -1\<close>\<close>

fun containsText :: "string \<Rightarrow> string \<Rightarrow> bool" where
  "containsText sub [] = (sub = [])"
| "containsText sub (c # cs) = (take (length sub) (c # cs) = sub \<or> containsText sub cs)"

text \<open>
  \<^verbatim>\<open>s.replace(/::[\w\s.[\]\-"]+/g, "")\<close>: every cast, two colons with the longest run of
  characters of a type name after them, is taken out.
\<close>

definition isCastChar :: "char \<Rightarrow> bool" where
  "isCastChar c = (isWordChar c \<or> isSpace c \<or> c \<in> set [CHR ''.'', CHR ''['', CHR '']'', CHR ''-'', CHR 0x22])"

function stripCasts :: "string \<Rightarrow> string" where
  "stripCasts [] = []"
| "stripCasts (c # cs) =
     (if c = CHR '':'' \<and> take 1 cs = '':'' \<and> takeWhile isCastChar (drop 1 cs) \<noteq> []
      then stripCasts (dropWhile isCastChar (drop 1 cs))
      else c # stripCasts cs)"
  by pat_completeness auto
termination
  by (relation "measure length")
     (auto simp: less_Suc_eq_le intro: le_trans [OF length_dropWhile_le])

text \<open>\<^verbatim>\<open>s.replace(/^(-?\d+)$/, "'$1'")\<close>: a whole number is put between single quotes.\<close>

definition quoteInteger :: "string \<Rightarrow> string" where
  "quoteInteger s =
     (let ds = (if take 1 s = ''-'' then drop 1 s else s)
      in if ds \<noteq> [] \<and> list_all isDigit ds then sq @ s @ sq else s)"

text \<open>
  \<^verbatim>\<open>s.replace(/^\s*CHECK\s*\((.*)\)\s*$/i, "$1")\<close>: what stands between the parenthesis after
  CHECK and the last one, when nothing but spaces follows it and no line ends in
  between.
\<close>

definition checkExpression :: "string \<Rightarrow> string" where
  "checkExpression s =
     (let s1 = dropWhile isSpace s;
          s2 = dropWhile isSpace (drop 5 s1);
          t = rev (dropWhile isSpace (rev (drop 1 s2)))
      in if toUpperCase (take 5 s1) = ''CHECK'' \<and> take 1 s2 = ''('' \<and> t \<noteq> [] \<and> last t = CHR '')'' \<and>
            list_all (\<lambda>c. c \<noteq> CHR 0x0A \<and> c \<noteq> CHR 0x0D) (butlast t)
         then butlast t else s)"

text \<open>\<^verbatim>\<open>s.replace("[]", "")\<close>: the first pair of brackets is taken out.\<close>

fun dropBrackets :: "string \<Rightarrow> string" where
  "dropBrackets (a # b # cs) =
     (if a = CHR ''['' \<and> b = CHR '']'' then cs else a # dropBrackets (b # cs))"
| "dropBrackets cs = cs"


section \<open>PostgresQueryRunner: loadTables\<close>

text \<open>
  \<^verbatim>\<open>`${row[key]}`\<close>: the value of a column of a row in a statement; a value left out is
  \<^verbatim>\<open>null\<close>.
\<close>

definition tplField :: "row \<Rightarrow> string \<Rightarrow> string" where
  "tplField r key = (case field r key of None \<Rightarrow> ''null'' | Some s \<Rightarrow> s)"

text \<open>
  \<^verbatim>\<open>row[key]\<close> where a method of a string is called on it: a value that is no string is a
  TypeError.
\<close>

definition stringField :: "row \<Rightarrow> string \<Rightarrow> string option" where
  "stringField r key = (case map_of r key of Some (JsString s) \<Rightarrow> Some s | _ \<Rightarrow> None)"

text \<open>The statement of \<^verbatim>\<open>loadTables\<close> that selects the tables, without a condition.\<close>

definition tablesSql :: string where
  \<open>tablesSql =
     ''SELECT "table_schema", "table_name", obj_description(('' @ sq @ ''"'' @ sq @
     '' || "table_schema" || '' @ sq @ ''"."'' @ sq @ '' || "table_name" || '' @ sq @
     ''"'' @ sq @ '')::regclass, '' @ sq @ ''pg_class'' @ sq @
     '') AS table_comment FROM "information_schema"."tables"''\<close>

definition tablesCondition :: "Deps \<Rightarrow> string option \<Rightarrow> string list \<Rightarrow> string" where
  \<open>tablesCondition deps currentSchema tableNames =
     join_js '' OR ''
       (map (\<lambda>parsed.
               ''("table_schema" = '' @ sq @ tpl (or_js (schema parsed) currentSchema) @ sq @
               '' AND "table_name" = '' @ sq @ tableName parsed @ sq @ '')'')
          (map (\<lambda>tname. pg_parseTableName deps (TargetString tname)) tableNames))\<close>

text \<open>The conditions on the rows found, with the two columns they compare.\<close>

definition rowsCondition :: "string \<Rightarrow> string \<Rightarrow> row list \<Rightarrow> string" where
  \<open>rowsCondition schemaColumn nameColumn dbTables =
     join_js '' OR ''
       (map (\<lambda>dbTable.
               ''('' @ schemaColumn @ '' = '' @ sq @ tplField dbTable ''table_schema'' @ sq @
               '' AND '' @ nameColumn @ '' = '' @ sq @ tplField dbTable ''table_name'' @ sq @ '')'')
          dbTables)\<close>

text \<open>The four statements that select the columns, the constraints, the indices and the
  foreign keys of the rows found.\<close>

definition columnsSql :: "row list \<Rightarrow> string" where
  \<open>columnsSql dbTables =
     ''SELECT columns.*, pg_catalog.col_description(('' @ sq @ ''"'' @ sq @
     '' || table_catalog || '' @ sq @ ''"."'' @ sq @ '' || table_schema || '' @ sq @
     ''"."'' @ sq @ '' || table_name || '' @ sq @ ''"'' @ sq @
     '')::regclass::oid, ordinal_position) AS description, ('' @ sq @ ''"'' @ sq @
     '' || "udt_schema" || '' @ sq @ ''"."'' @ sq @ '' || "udt_name" || '' @ sq @
     ''"'' @ sq @ '')::"regtype" AS "regtype", '' @
     ''pg_catalog.format_type("col_attr"."atttypid", '' @
     ''"col_attr"."atttypmod") AS "format_type" FROM '' @
     ''"information_schema"."columns" LEFT JOIN '' @
     ''"pg_catalog"."pg_attribute" AS "col_attr" ON '' @
     ''"col_attr"."attname" = "columns"."column_name" AND '' @
     ''"col_attr"."attrelid" = ( SELECT "cls"."oid" FROM '' @
     ''"pg_catalog"."pg_class" AS "cls" LEFT JOIN '' @
     ''"pg_catalog"."pg_namespace" AS "ns" ON "ns"."oid" = '' @
     ''"cls"."relnamespace" WHERE "cls"."relname" = '' @
     ''"columns"."table_name" AND "ns"."nspname" = '' @
     ''"columns"."table_schema" ) WHERE '' @
     rowsCondition ''"table_schema"'' ''"table_name"'' dbTables\<close>

definition constraintsSql :: "row list \<Rightarrow> string" where
  \<open>constraintsSql dbTables =
     ''SELECT "ns"."nspname" AS "table_schema", "t"."relname" AS '' @
     ''"table_name", "cnst"."conname" AS "constraint_name", '' @
     ''pg_get_constraintdef("cnst"."oid") AS "expression", CASE '' @
     ''"cnst"."contype" WHEN '' @ sq @ ''p'' @ sq @ '' THEN '' @ sq @ ''PRIMARY'' @
     sq @ '' WHEN '' @ sq @ ''u'' @ sq @ '' THEN '' @ sq @ ''UNIQUE'' @ sq @
     '' WHEN '' @ sq @ ''c'' @ sq @ '' THEN '' @ sq @ ''CHECK'' @ sq @ '' WHEN '' @
     sq @ ''x'' @ sq @ '' THEN '' @ sq @ ''EXCLUDE'' @ sq @
     '' END AS "constraint_type", "a"."attname" AS "column_name" '' @
     ''FROM "pg_constraint" "cnst" INNER JOIN "pg_class" "t" ON '' @
     ''"t"."oid" = "cnst"."conrelid" INNER JOIN "pg_namespace" '' @
     ''"ns" ON "ns"."oid" = "cnst"."connamespace" LEFT JOIN '' @
     ''"pg_attribute" "a" ON "a"."attrelid" = "cnst"."conrelid" '' @
     ''AND "a"."attnum" = ANY ("cnst"."conkey") WHERE '' @ ''"t"."relkind" IN ('' @
     sq @ ''r'' @ sq @ '', '' @ sq @ ''p'' @ sq @ '') AND ('' @
     rowsCondition ''"ns"."nspname"'' ''"t"."relname"'' dbTables @
     '')''\<close>

definition indicesSql :: "row list \<Rightarrow> string" where
  \<open>indicesSql dbTables =
     ''SELECT "ns"."nspname" AS "table_schema", "t"."relname" AS '' @
     ''"table_name", "i"."relname" AS "constraint_name", '' @
     ''"a"."attname" AS "column_name", CASE "ix"."indisunique" '' @ ''WHEN '' @ sq @
     ''t'' @ sq @ '' THEN '' @ sq @ ''TRUE'' @ sq @ '' ELSE'' @ sq @ ''FALSE'' @ sq @
     '' END AS "is_unique", pg_get_expr("ix"."indpred", '' @
     ''"ix"."indrelid") AS "condition", "types"."typname" AS '' @
     ''"type_name", "am"."amname" AS "index_type" FROM "pg_class" '' @
     ''"t" INNER JOIN "pg_index" "ix" ON "ix"."indrelid" = '' @
     ''"t"."oid" INNER JOIN "pg_attribute" "a" ON "a"."attrelid" = '' @
     ''"t"."oid"  AND "a"."attnum" = ANY ("ix"."indkey") INNER '' @
     ''JOIN "pg_namespace" "ns" ON "ns"."oid" = "t"."relnamespace" '' @
     ''INNER JOIN "pg_class" "i" ON "i"."oid" = "ix"."indexrelid" '' @
     ''INNER JOIN "pg_type" "types" ON "types"."oid" = '' @
     ''"a"."atttypid" INNER JOIN "pg_am" "am" ON "i"."relam" = '' @
     ''"am"."oid" LEFT JOIN "pg_constraint" "cnst" ON '' @
     ''"cnst"."conname" = "i"."relname" WHERE "t"."relkind" IN ('' @ sq @ ''r'' @
     sq @ '', '' @ sq @ ''p'' @ sq @ '') AND "cnst"."contype" IS NULL AND ('' @
     rowsCondition ''"ns"."nspname"'' ''"t"."relname"'' dbTables @
     '')''\<close>

definition foreignKeysSql :: "bool \<Rightarrow> row list \<Rightarrow> string" where
  \<open>foreignKeysSql hasRelispartitionColumn dbTables =
     ''SELECT "con"."conname" AS "constraint_name", '' @
     ''"con"."nspname" AS "table_schema", "con"."relname" AS '' @
     ''"table_name", "att2"."attname" AS "column_name", '' @
     ''"ns"."nspname" AS "referenced_table_schema", "cl"."relname" '' @
     ''AS "referenced_table_name", "att"."attname" AS '' @
     ''"referenced_column_name", "con"."confdeltype" AS '' @
     ''"on_delete", "con"."confupdtype" AS "on_update", '' @
     ''"con"."condeferrable" AS "deferrable", "con"."condeferred" '' @
     ''AS "deferred" FROM ( SELECT UNNEST ("con1"."conkey") AS '' @
     ''"parent", UNNEST ("con1"."confkey") AS "child", '' @
     ''"con1"."confrelid", "con1"."conrelid", "con1"."conname", '' @
     ''"con1"."contype", "ns"."nspname", "cl"."relname", '' @
     ''"con1"."condeferrable", CASE WHEN "con1"."condeferred" THEN '' @ sq @
     ''INITIALLY DEFERRED'' @ sq @ '' ELSE '' @ sq @ ''INITIALLY IMMEDIATE'' @ sq @
     '' END as condeferred, CASE "con1"."confdeltype" WHEN '' @ sq @ ''a'' @ sq @
     '' THEN '' @ sq @ ''NO ACTION'' @ sq @ '' WHEN '' @ sq @ ''r'' @ sq @
     '' THEN '' @ sq @ ''RESTRICT'' @ sq @ '' WHEN '' @ sq @ ''c'' @ sq @
     '' THEN '' @ sq @ ''CASCADE'' @ sq @ '' WHEN '' @ sq @ ''n'' @ sq @ '' THEN '' @
     sq @ ''SET NULL'' @ sq @ '' WHEN '' @ sq @ ''d'' @ sq @ '' THEN '' @ sq @
     ''SET DEFAULT'' @ sq @
     '' END as "confdeltype", CASE "con1"."confupdtype" WHEN '' @ sq @ ''a'' @ sq @
     '' THEN '' @ sq @ ''NO ACTION'' @ sq @ '' WHEN '' @ sq @ ''r'' @ sq @
     '' THEN '' @ sq @ ''RESTRICT'' @ sq @ '' WHEN '' @ sq @ ''c'' @ sq @
     '' THEN '' @ sq @ ''CASCADE'' @ sq @ '' WHEN '' @ sq @ ''n'' @ sq @ '' THEN '' @
     sq @ ''SET NULL'' @ sq @ '' WHEN '' @ sq @ ''d'' @ sq @ '' THEN '' @ sq @
     ''SET DEFAULT'' @ sq @
     '' END as "confupdtype" FROM "pg_class" "cl" INNER JOIN '' @
     ''"pg_namespace" "ns" ON "cl"."relnamespace" = "ns"."oid" '' @
     ''INNER JOIN "pg_constraint" "con1" ON "con1"."conrelid" = '' @
     ''"cl"."oid" WHERE "con1"."contype" = '' @ sq @ ''f'' @ sq @ '' AND ('' @
     rowsCondition ''"ns"."nspname"'' ''"cl"."relname"'' dbTables @
     '') ) "con" INNER JOIN "pg_attribute" "att" ON '' @
     ''"att"."attrelid" = "con"."confrelid" AND "att"."attnum" = '' @
     ''"con"."child" INNER JOIN "pg_class" "cl" ON "cl"."oid" = '' @
     ''"con"."confrelid" '' @
     (if hasRelispartitionColumn then '' AND "cl"."relispartition" = '' @ sq @ ''f'' @ sq else []) @
     ''INNER JOIN "pg_namespace" "ns" ON "cl"."relnamespace" = '' @
     ''"ns"."oid" INNER JOIN "pg_attribute" "att2" ON '' @
     ''"att2"."attrelid" = "con"."conrelid" AND "att2"."attnum" = '' @
     ''"con"."parent"''\<close>

text \<open>\<^verbatim>\<open>hasSupportForPartitionedTables()\<close>\<close>

definition partitionedSql :: string where
  \<open>partitionedSql =
     ''SELECT TRUE FROM information_schema.columns WHERE '' @ ''table_name = '' @
     sq @ ''pg_class'' @ sq @ '' and column_name = '' @ sq @ ''relispartition'' @ sq\<close>

definition hasSupportForPartitionedTables :: "Env \<Rightarrow> bool action" where
  "hasSupportForPartitionedTables env =
     andThen (queryRows env partitionedSql) (\<lambda>result. ret (result \<noteq> []))"

text \<open>The statements that select the labels of an enum type and the spatial type of a column.\<close>

definition enumLabelsSql :: "row \<Rightarrow> string \<Rightarrow> string" where
  \<open>enumLabelsSql dbTable typeName =
     ''SELECT "e"."enumlabel" AS "value" FROM "pg_enum" "e" INNER '' @
     ''JOIN "pg_type" "t" ON "t"."oid" = "e"."enumtypid" INNER '' @
     ''JOIN "pg_namespace" "n" ON "n"."oid" = "t"."typnamespace" '' @
     ''WHERE "n"."nspname" = '' @ sq @
     tplField dbTable ''table_schema'' @
     sq @ '' AND "t"."typname" = '' @ sq @
     typeName @
     sq\<close>

definition spatialSql :: "string \<Rightarrow> row \<Rightarrow> string" where
  \<open>spatialSql columnType dbColumn =
     ''SELECT * FROM (SELECT "f_table_schema" "table_schema", '' @
     ''"f_table_name" "table_name", "f_'' @
     columnType @
     ''_column" "column_name", "srid", "type" FROM "'' @
     columnType @
     ''_columns") AS _ WHERE "column_name" = '' @ sq @
     tplField dbColumn ''column_name'' @
     sq @ '' AND "table_schema" = '' @ sq @
     tplField dbColumn ''table_schema'' @
     sq @ '' AND "table_name" = '' @ sq @
     tplField dbColumn ''table_name'' @
     sq\<close>

text \<open>
  Modelled from the spec: the class TableColumn is not among the sources.
  \<^verbatim>\<open>new TableColumn()\<close> is a column without a name, a type and a length that may not be
  null, is not generated, not primary, not unique and no array, and has no other
  property.
\<close>

definition new_TableColumn :: TableColumn where
  "new_TableColumn =
     \<lparr>col_name = [], col_type = [], col_default = Undefined,
      col_isNullable = False, col_isGenerated = False, col_generationStrategy = None,
      col_isPrimary = False, col_isUnique = False, col_isArray = False, col_comment = None,
      col_length = [], col_charset = None, col_collation = None,
      col_precision = Undefined, col_scale = None, col_enum = None, col_enumName = None,
      col_primaryKeyConstraintName = None, col_asExpression = None,
      col_generatedType = None, col_generatedIdentity = None,
      col_spatialFeatureType = None, col_srid = None\<rparr>"

text \<open>A number of a row as a property that is a number or \<^verbatim>\<open>undefined\<close>.\<close>

definition definedNumber :: "int nullable \<Rightarrow> int option" where
  "definedNumber n = (case n of Defined k \<Rightarrow> Some k | _ \<Rightarrow> None)"

text \<open>The rows of the table of a row, by \<^verbatim>\<open>table_name\<close> and \<^verbatim>\<open>table_schema\<close>.\<close>

definition ofTable :: "row \<Rightarrow> row \<Rightarrow> bool" where
  "ofTable dbTable dbObject =
     (map_of dbObject ''table_name'' = map_of dbTable ''table_name'' \<and>
      map_of dbObject ''table_schema'' = map_of dbTable ''table_schema'')"

text \<open>The rows of the constraints of a column.\<close>

definition ofColumn :: "row \<Rightarrow> row \<Rightarrow> bool" where
  "ofColumn dbColumn dbConstraint =
     (map_of dbConstraint ''table_name'' = map_of dbColumn ''table_name'' \<and>
      map_of dbConstraint ''table_schema'' = map_of dbColumn ''table_schema'' \<and>
      map_of dbConstraint ''column_name'' = map_of dbColumn ''column_name'')"

text \<open>
  The precision and the scale of a numeric column. For an array they are read from the
  formatted type; reading it when it is no string is a TypeError.
\<close>

definition column_numeric :: "Deps \<Rightarrow> Table \<Rightarrow> row \<Rightarrow> TableColumn \<Rightarrow> TableColumn action" where
  "column_numeric deps table dbColumn tableColumn =
     (if col_type tableColumn = ''numeric'' \<or> col_type tableColumn = ''numeric[]'' \<or>
         col_type tableColumn = ''decimal'' \<or> col_type tableColumn = ''float'' then
        andThen
          (if field dbColumn ''data_type'' = Some ''ARRAY'' then
             (case stringField dbColumn ''format_type'' of
                None \<Rightarrow> throw JsTypeError
              | Some formatType \<Rightarrow>
                  (case matchNumericSize formatType of
                     Some numericSize \<Rightarrow> ret (Defined (fst numericSize), Defined (snd numericSize))
                   | None \<Rightarrow> ret (numberField dbColumn ''numeric_precision'',
                                 numberField dbColumn ''numeric_scale'')))
           else ret (numberField dbColumn ''numeric_precision'',
                     numberField dbColumn ''numeric_scale''))
          (\<lambda>size.
             (let numericPrecision = fst size;
                  numericScale = snd size;
                  tableColumn =
                    (if numericPrecision \<noteq> Null \<and>
                        \<not> isDefaultColumnPrecision deps table tableColumn numericPrecision
                     then tableColumn\<lparr>col_precision := numericPrecision\<rparr>
                     else if numericScale \<noteq> Null \<and>
                        \<not> isDefaultColumnScale deps table tableColumn numericScale
                     then tableColumn\<lparr>col_precision := Undefined\<rparr>
                     else tableColumn);
                  tableColumn =
                    (if numericScale \<noteq> Null \<and>
                        \<not> isDefaultColumnScale deps table tableColumn numericScale
                     then tableColumn\<lparr>col_scale := definedNumber numericScale\<rparr>
                     else if numericPrecision \<noteq> Null \<and>
                        \<not> isDefaultColumnPrecision deps table tableColumn numericPrecision
                     then tableColumn\<lparr>col_scale := None\<rparr>
                     else tableColumn)
              in ret tableColumn))
      else ret tableColumn)"

text \<open>The precision of a column of times.\<close>

definition column_time :: "Deps \<Rightarrow> Table \<Rightarrow> row \<Rightarrow> TableColumn \<Rightarrow> TableColumn" where
  "column_time deps table dbColumn tableColumn =
     (if col_type tableColumn = ''interval'' \<or>
         col_type tableColumn = ''time without time zone'' \<or>
         col_type tableColumn = ''time with time zone'' \<or>
         col_type tableColumn = ''timestamp without time zone'' \<or>
         col_type tableColumn = ''timestamp with time zone'' then
        tableColumn\<lparr>col_precision :=
          (if \<not> isDefaultColumnPrecision deps table tableColumn
                  (numberField dbColumn ''datetime_precision'')
           then numberField dbColumn ''datetime_precision'' else Undefined)\<rparr>
      else tableColumn)"

text \<open>
  A column of a type defined by the user, or an array: the name of its type is read from
  the database, and the labels of the type, if it is an enum type. The type of an array
  is normalized without its brackets.
\<close>

definition column_userDefined ::
  "Deps \<Rightarrow> Env \<Rightarrow> Table \<Rightarrow> row \<Rightarrow> row \<Rightarrow> TableColumn \<Rightarrow> TableColumn action" where
  "column_userDefined deps env table dbTable dbColumn tableColumn =
     (if field dbColumn ''data_type'' = Some ''USER-DEFINED'' \<or>
         field dbColumn ''data_type'' = Some ''ARRAY'' then
        andThen (getUserDefinedTypeName deps env table tableColumn) (\<lambda>userDefinedType.
          (let name = snd userDefinedType;
               builtEnumName = buildEnumName deps table tableColumn False True False;
               enumName = (if builtEnumName \<noteq> name then Some name else None)
           in andThen (queryRows env (enumLabelsSql dbTable (the (or_js enumName (Some name)))))
                (\<lambda>results.
                   (let tableColumn =
                          (if results \<noteq> [] then
                             tableColumn\<lparr>col_type := ''enum'',
                               col_enum := Some (map (\<lambda>result. tplField result ''value'') results),
                               col_enumName := enumName\<rparr>
                           else tableColumn);
                        tableColumn =
                          (if field dbColumn ''data_type'' = Some ''ARRAY'' then
                             tableColumn\<lparr>col_isArray := True,
                               col_type := pg_normalizeType deps (dropBrackets (col_type tableColumn))\<rparr>
                           else tableColumn)
                    in ret tableColumn))))
      else ret tableColumn)"

text \<open>A column of a spatial type: its feature type and its SRID are read from the database.\<close>

definition column_spatial :: "Env \<Rightarrow> row \<Rightarrow> TableColumn \<Rightarrow> TableColumn action" where
  "column_spatial env dbColumn tableColumn =
     (if col_type tableColumn = ''geometry'' \<or> col_type tableColumn = ''geography'' then
        andThen (queryRows env (spatialSql (col_type tableColumn) dbColumn)) (\<lambda>results.
          if length results > 0 then
            ret (tableColumn\<lparr>col_spatialFeatureType := field (hd results) ''type'',
                   col_srid := definedNumber (numberField (hd results) ''srid'')\<rparr>)
          else ret tableColumn)
      else ret tableColumn)"

text \<open>The length of a column of a type with a length; a length that is the default is left empty.\<close>

definition column_length :: "Deps \<Rightarrow> Table \<Rightarrow> row \<Rightarrow> TableColumn \<Rightarrow> TableColumn" where
  "column_length deps table dbColumn tableColumn =
     (if col_type tableColumn \<in> set (pg_withLengthColumnTypes deps) then
        (let len =
               (if col_isArray tableColumn then parenDigits (tplField dbColumn ''format_type'')
                else if truthyField dbColumn ''character_maximum_length''
                then field dbColumn ''character_maximum_length''
                else None)
         in if truthy len then
              tableColumn\<lparr>col_length :=
                (if \<not> isDefaultColumnLength deps table tableColumn (the len) then the len else [])\<rparr>
            else tableColumn)
      else tableColumn)"

text \<open>
  A primary column: the name of the primary key is kept when it is not the name that the
  naming strategy gives for the primary columns of the table, this column last.
\<close>

definition column_primary :: "Deps \<Rightarrow> Table \<Rightarrow> row list \<Rightarrow> row \<Rightarrow> TableColumn \<Rightarrow> TableColumn" where
  "column_primary deps table dbConstraints dbColumn tableColumn =
     (case find (\<lambda>constraint. field constraint ''constraint_type'' = Some ''PRIMARY'')
             (filter (ofColumn dbColumn) dbConstraints) of
        None \<Rightarrow> tableColumn
      | Some primaryConstraint \<Rightarrow>
          (let anotherPrimaryConstraints =
                 filter (\<lambda>constraint.
                           map_of constraint ''table_name'' = map_of dbColumn ''table_name'' \<and>
                           map_of constraint ''table_schema'' = map_of dbColumn ''table_schema'' \<and>
                           map_of constraint ''column_name'' \<noteq> map_of dbColumn ''column_name'' \<and>
                           field constraint ''constraint_type'' = Some ''PRIMARY'') dbConstraints;
               columnNames =
                 map (\<lambda>constraint. tplField constraint ''column_name'') anotherPrimaryConstraints @
                 [tplField dbColumn ''column_name''];
               pkName = ns_primaryKeyName deps table columnNames;
               tableColumn = tableColumn\<lparr>col_isPrimary := True\<rparr>
           in if field primaryConstraint ''constraint_name'' \<noteq> Some pkName
              then tableColumn\<lparr>col_primaryKeyConstraintName :=
                     field primaryConstraint ''constraint_name''\<rparr>
              else tableColumn))"

text \<open>
  A unique column: it has a unique constraint, and not every unique constraint of it has
  another column too.
\<close>

definition column_unique :: "row list \<Rightarrow> row \<Rightarrow> TableColumn \<Rightarrow> TableColumn" where
  "column_unique dbConstraints dbColumn tableColumn =
     (let uniqueConstraints =
            filter (\<lambda>constraint. field constraint ''constraint_type'' = Some ''UNIQUE'')
              (filter (ofColumn dbColumn) dbConstraints);
          isConstraintComposite =
            list_all (\<lambda>uniqueConstraint.
                list_ex (\<lambda>dbConstraint.
                    field dbConstraint ''constraint_type'' = Some ''UNIQUE'' \<and>
                    map_of dbConstraint ''constraint_name'' =
                      map_of uniqueConstraint ''constraint_name'' \<and>
                    map_of dbConstraint ''column_name'' \<noteq> map_of dbColumn ''column_name'')
                  dbConstraints)
              uniqueConstraints
      in tableColumn\<lparr>col_isUnique := (length uniqueConstraints > 0 \<and> \<not> isConstraintComposite)\<rparr>)"

text \<open>
  The generation and the default of a column, from its identity and from the text of
  its default; calling a method of a default that is no string is a TypeError.
\<close>

definition column_default :: "Deps \<Rightarrow> Table \<Rightarrow> row \<Rightarrow> TableColumn \<Rightarrow> TableColumn action" where
  \<open>column_default deps table dbColumn tableColumn =
     (if field dbColumn ''is_identity'' = Some ''YES'' then
        ret (tableColumn\<lparr>col_isGenerated := True, col_generationStrategy := Some ''identity'',
               col_generatedIdentity := field dbColumn ''identity_generation''\<rparr>)
      else if map_of dbColumn ''column_default'' \<noteq> None then
        (case stringField dbColumn ''column_default'' of
           None \<Rightarrow> throw JsTypeError
         | Some columnDefault \<Rightarrow>
             (let serialDefaultName =
                    ''nextval('' @ sq @
                    buildSequenceName deps table (tplField dbColumn ''column_name'') @ sq @
                    ''::regclass)'';
                  serialDefaultPath =
                    ''nextval('' @ sq @
                    buildSequencePath deps table (tplField dbColumn ''column_name'') @ sq @
                    ''::regclass)'';
                  defaultWithoutQuotes = filter (\<lambda>c. c \<noteq> CHR 0x22) columnDefault
              in if defaultWithoutQuotes = serialDefaultName \<or>
                    defaultWithoutQuotes = serialDefaultPath then
                   ret (tableColumn\<lparr>col_isGenerated := True,
                          col_generationStrategy := Some ''increment''\<rparr>)
                 else if columnDefault = ''gen_random_uuid()'' \<or> isUuidGenerate columnDefault then
                   (if col_type tableColumn = ''uuid'' then
                      ret (tableColumn\<lparr>col_isGenerated := True,
                             col_generationStrategy := Some ''uuid''\<rparr>)
                    else ret (tableColumn\<lparr>col_default := Defined columnDefault\<rparr>))
                 else if columnDefault = ''now()'' \<or>
                    containsText (sq @ ''now'' @ sq @ ''::text'') columnDefault then
                   ret (tableColumn\<lparr>col_default := Defined columnDefault\<rparr>)
                 else
                   ret (tableColumn\<lparr>col_default :=
                          Defined (quoteInteger (stripCasts columnDefault))\<rparr>)))
      else ret tableColumn)\<close>

text \<open>
  A column that is always generated: its expression is read from the metadata table and
  is empty when it is not there.
\<close>

definition column_generated ::
  "Deps \<Rightarrow> Env \<Rightarrow> string option \<Rightarrow> row \<Rightarrow> row \<Rightarrow> TableColumn \<Rightarrow> TableColumn action" where
  "column_generated deps env currentDatabase dbTable dbColumn tableColumn =
     (if field dbColumn ''is_generated'' = Some ''ALWAYS'' \<and>
         truthyField dbColumn ''generation_expression'' then
        (let asExpressionQuery =
               selectTypeormMetadataSql deps
                 \<lparr>md_database = currentDatabase, md_schema = field dbTable ''table_schema'',
                  md_table = field dbTable ''table_name'', md_type = mt_GENERATED_COLUMN deps,
                  md_name = col_name tableColumn, md_value = None\<rparr>
         in andThen (queryRowsWith env (fst asExpressionQuery) (snd asExpressionQuery)) (\<lambda>results.
              ret (tableColumn\<lparr>col_generatedType := Some ''STORED'',
                     col_asExpression :=
                       (if results \<noteq> [] \<and> truthyField (hd results) ''value''
                        then field (hd results) ''value'' else Some [])\<rparr>)))
      else ret tableColumn)"

text \<open>The comment, the character set and the collation of a column, when they are there.\<close>

definition column_comment :: "row \<Rightarrow> TableColumn \<Rightarrow> TableColumn" where
  "column_comment dbColumn tableColumn =
     (let tableColumn = tableColumn\<lparr>col_comment :=
            (if truthyField dbColumn ''description'' then field dbColumn ''description'' else None)\<rparr>;
          tableColumn =
            (if truthyField dbColumn ''character_set_name''
             then tableColumn\<lparr>col_charset := field dbColumn ''character_set_name''\<rparr>
             else tableColumn)
      in if truthyField dbColumn ''collation_name''
         then tableColumn\<lparr>col_collation := field dbColumn ''collation_name''\<rparr>
         else tableColumn)"

text \<open>
  The TableColumn of a row of the columns; calling \<^verbatim>\<open>toLowerCase\<close> on a type that is no
  string is a TypeError.
\<close>

definition loadColumn ::
  "Deps \<Rightarrow> Env \<Rightarrow> string option \<Rightarrow> Table \<Rightarrow> row list \<Rightarrow> row \<Rightarrow> row \<Rightarrow> TableColumn action" where
  "loadColumn deps env currentDatabase table dbConstraints dbTable dbColumn =
     (case stringField dbColumn ''regtype'' of
        None \<Rightarrow> throw JsTypeError
      | Some regtype \<Rightarrow>
          andThen (column_numeric deps table dbColumn
                     (new_TableColumn\<lparr>col_name := tplField dbColumn ''column_name'',
                                      col_type := toLowerCase regtype\<rparr>)) (\<lambda>tableColumn.
          andThen (column_userDefined deps env table dbTable dbColumn
                     (column_time deps table dbColumn tableColumn)) (\<lambda>tableColumn.
          andThen (column_spatial env dbColumn tableColumn) (\<lambda>tableColumn.
          andThen (column_default deps table dbColumn
                     (column_unique dbConstraints dbColumn
                       (column_primary deps table dbConstraints dbColumn
                         ((column_length deps table dbColumn tableColumn)
                            \<lparr>col_isNullable := (field dbColumn ''is_nullable'' = Some ''YES'')\<rparr>))))
            (\<lambda>tableColumn.
          andThen (column_generated deps env currentDatabase dbTable dbColumn tableColumn)
            (\<lambda>tableColumn. ret (column_comment dbColumn tableColumn)))))))"

text \<open>
  \<^verbatim>\<open>await Promise.all(xs.map(f))\<close>, with the promises taken one after the other in the order
  of the list: the results in this order, or the first error.
\<close>

fun mapM :: "('a \<Rightarrow> 'b action) \<Rightarrow> 'a list \<Rightarrow> 'b list action" where
  "mapM f [] = ret []"
| "mapM f (x # xs) = andThen (f x) (\<lambda>y. andThen (mapM f xs) (\<lambda>ys. ret (y # ys)))"

text \<open>
  The schema of a row for the name of a table: it is left out when it is the current
  schema and the connection names no other one.
\<close>

definition getSchemaFromKey :: "Deps \<Rightarrow> string option \<Rightarrow> row \<Rightarrow> string \<Rightarrow> string option" where
  "getSchemaFromKey deps currentSchema dbObject key =
     (if field dbObject key = currentSchema \<and>
         (\<not> truthy (pg_options_schema deps) \<or> pg_options_schema deps = currentSchema)
      then None else field dbObject key)"

text \<open>The first lines of building a Table from a row: its database, schema, comment and name.\<close>

definition tableOfRow :: "Deps \<Rightarrow> string option \<Rightarrow> string option \<Rightarrow> row \<Rightarrow> Table" where
  "tableOfRow deps currentSchema currentDatabase dbTable =
     (let schema_opt = getSchemaFromKey deps currentSchema dbTable ''table_schema''
      in \<lparr>tbl_name = pg_buildTableName deps (field dbTable ''table_name'') schema_opt,
          tbl_schema = field dbTable ''table_schema'',
          tbl_database = currentDatabase,
          tbl_comment = field dbTable ''table_comment'',
          tbl_columns = [], tbl_uniques = [], tbl_indices = [], tbl_foreignKeys = [],
          tbl_checks = [], tbl_exclusions = []\<rparr>)"

text \<open>The rows of the constraints of a kind of a table, one for each name of a constraint.\<close>

definition constraintsOf :: "Deps \<Rightarrow> string \<Rightarrow> row list \<Rightarrow> row \<Rightarrow> row list" where
  "constraintsOf deps kind dbConstraints dbTable =
     uniq deps
       (filter (\<lambda>dbConstraint. ofTable dbTable dbConstraint \<and>
                  field dbConstraint ''constraint_type'' = Some kind) dbConstraints)
       (\<lambda>dbConstraint. field dbConstraint ''constraint_name'')"

text \<open>The mode \<^verbatim>\<open>deferrable\<close> of a row: the value \<^verbatim>\<open>deferred\<close> when \<^verbatim>\<open>deferrable\<close> holds.\<close>

definition deferrableOf :: "row \<Rightarrow> string option" where
  "deferrableOf constraint =
     (if truthyField constraint ''deferrable'' then field constraint ''deferred'' else None)"

definition tableUniques :: "Deps \<Rightarrow> row list \<Rightarrow> row \<Rightarrow> TableUnique list" where
  "tableUniques deps dbConstraints dbTable =
     map (\<lambda>constraint.
            (let uniques = filter (\<lambda>dbC. map_of dbC ''constraint_name'' =
                                         map_of constraint ''constraint_name'') dbConstraints
             in \<lparr>uq_name = field constraint ''constraint_name'',
                 uq_columnNames = map (\<lambda>u. tplField u ''column_name'') uniques,
                 uq_deferrable = deferrableOf constraint\<rparr>))
       (constraintsOf deps ''UNIQUE'' dbConstraints dbTable)"

text \<open>The checks of a table; an expression that is no string is a TypeError.\<close>

definition tableChecks :: "Deps \<Rightarrow> row list \<Rightarrow> row \<Rightarrow> TableCheck list action" where
  "tableChecks deps dbConstraints dbTable =
     mapM (\<lambda>constraint.
            (let checks = filter (\<lambda>dbC. map_of dbC ''constraint_name'' =
                                        map_of constraint ''constraint_name'') dbConstraints
             in case stringField constraint ''expression'' of
                  None \<Rightarrow> throw JsTypeError
                | Some expression \<Rightarrow>
                    ret \<lparr>chk_name = field constraint ''constraint_name'',
                         chk_columnNames = Some (map (\<lambda>c. tplField c ''column_name'') checks),
                         chk_expression = Some (checkExpression expression)\<rparr>))
       (constraintsOf deps ''CHECK'' dbConstraints dbTable)"

text \<open>The exclusions of a table: the expression without its first eight characters.\<close>

definition tableExclusions :: "Deps \<Rightarrow> row list \<Rightarrow> row \<Rightarrow> TableExclusion list action" where
  "tableExclusions deps dbConstraints dbTable =
     mapM (\<lambda>constraint.
            (case stringField constraint ''expression'' of
               None \<Rightarrow> throw JsTypeError
             | Some expression \<Rightarrow>
                 ret \<lparr>exc_name = field constraint ''constraint_name'',
                      exc_expression = Some (drop 8 expression)\<rparr>))
       (constraintsOf deps ''EXCLUDE'' dbConstraints dbTable)"

definition tableForeignKeys ::
  "Deps \<Rightarrow> string option \<Rightarrow> row list \<Rightarrow> row \<Rightarrow> TableForeignKey list" where
  "tableForeignKeys deps currentSchema dbForeignKeys dbTable =
     map (\<lambda>dbForeignKey.
            (let foreignKeys = filter (\<lambda>dbFk. map_of dbFk ''constraint_name'' =
                                             map_of dbForeignKey ''constraint_name'') dbForeignKeys;
                 schema_opt = getSchemaFromKey deps currentSchema dbForeignKey
                                ''referenced_table_schema'';
                 referencedTableName =
                   pg_buildTableName deps (field dbForeignKey ''referenced_table_name'') schema_opt
             in \<lparr>fk_name = field dbForeignKey ''constraint_name'',
                 fk_columnNames = map (\<lambda>dbFk. tplField dbFk ''column_name'') foreignKeys,
                 fk_referencedColumnNames =
                   map (\<lambda>dbFk. tplField dbFk ''referenced_column_name'') foreignKeys,
                 fk_referencedTableName = referencedTableName,
                 fk_referencedSchema = field dbForeignKey ''referenced_table_schema'',
                 fk_referencedDatabase = None,
                 fk_onDelete = field dbForeignKey ''on_delete'',
                 fk_onUpdate = field dbForeignKey ''on_update'',
                 fk_deferrable = deferrableOf dbForeignKey\<rparr>))
       (uniq deps (filter (ofTable dbTable) dbForeignKeys)
          (\<lambda>dbForeignKey. field dbForeignKey ''constraint_name''))"

definition tableIndices :: "Deps \<Rightarrow> row list \<Rightarrow> row \<Rightarrow> TableIndex list" where
  "tableIndices deps dbIndices dbTable =
     map (\<lambda>constraint.
            (let indices =
                   filter (\<lambda>index.
                             map_of index ''table_schema'' = map_of constraint ''table_schema'' \<and>
                             map_of index ''table_name'' = map_of constraint ''table_name'' \<and>
                             map_of index ''constraint_name'' = map_of constraint ''constraint_name'')
                     dbIndices
             in \<lparr>idx_name = field constraint ''constraint_name'',
                 idx_columnNames = map (\<lambda>i. tplField i ''column_name'') indices,
                 idx_where = field constraint ''condition'',
                 idx_isUnique = (field constraint ''is_unique'' = Some ''TRUE''),
                 idx_isSpatial = (field constraint ''index_type'' = Some ''gist''),
                 idx_isConcurrent = False,
                 idx_isFulltext = False\<rparr>))
       (uniq deps (filter (ofTable dbTable) dbIndices)
          (\<lambda>dbIndex. field dbIndex ''constraint_name''))"

text \<open>The Table of a row: its columns from the rows of the columns, then its constraints,
  foreign keys and indices.\<close>

definition loadTable ::
  "Deps \<Rightarrow> Env \<Rightarrow> string option \<Rightarrow> string option \<Rightarrow> row list \<Rightarrow> row list \<Rightarrow> row list \<Rightarrow> row list
     \<Rightarrow> row \<Rightarrow> Table action" where
  "loadTable deps env currentSchema currentDatabase dbColumns dbConstraints dbIndices dbForeignKeys
     dbTable =
     (let table = tableOfRow deps currentSchema currentDatabase dbTable
      in andThen (mapM (loadColumn deps env currentDatabase table dbConstraints dbTable)
                    (filter (ofTable dbTable) dbColumns)) (\<lambda>columns.
         andThen (tableChecks deps dbConstraints dbTable) (\<lambda>checks.
         andThen (tableExclusions deps dbConstraints dbTable) (\<lambda>exclusions.
           ret (table\<lparr>tbl_columns := columns,
                  tbl_uniques := tableUniques deps dbConstraints dbTable,
                  tbl_checks := checks,
                  tbl_exclusions := exclusions,
                  tbl_foreignKeys := tableForeignKeys deps currentSchema dbForeignKeys dbTable,
                  tbl_indices := tableIndices deps dbIndices dbTable\<rparr>)))))"

text \<open>
  \<^verbatim>\<open>loadTables(tableNames?)\<close>. The four statements of \<^verbatim>\<open>Promise.all\<close> are taken one after the
  other, as are the tables and, within a table, its columns.
\<close>

definition loadTables :: "Deps \<Rightarrow> Env \<Rightarrow> string list option \<Rightarrow> Table list action" where
  "loadTables deps env tableNames_opt =
     (if tableNames_opt = Some [] then ret []
      else
        andThen (getCurrentSchema env) (\<lambda>currentSchema.
        andThen (getCurrentDatabase env) (\<lambda>currentDatabase.
        andThen (case tableNames_opt of
                   None \<Rightarrow> queryRows env tablesSql
                 | Some tableNames \<Rightarrow>
                     queryRows env
                       (tablesSql @ '' WHERE '' @ tablesCondition deps currentSchema tableNames))
          (\<lambda>dbTables.
             if length dbTables = 0 then ret []
             else
               andThen (hasSupportForPartitionedTables env) (\<lambda>hasRelispartitionColumn.
               andThen (queryRows env (columnsSql dbTables)) (\<lambda>dbColumns.
               andThen (queryRows env (constraintsSql dbTables)) (\<lambda>dbConstraints.
               andThen (queryRows env (indicesSql dbTables)) (\<lambda>dbIndices.
               andThen (queryRows env (foreignKeysSql hasRelispartitionColumn dbTables))
                 (\<lambda>dbForeignKeys.
                    mapM (loadTable deps env currentSchema currentDatabase dbColumns dbConstraints
                            dbIndices dbForeignKeys) dbTables)))))))))"


section \<open>The cached tables\<close>

text \<open>
  Modelled from the spec: \<^verbatim>\<open>Table.clone\<close> and, of BaseQueryRunner, \<^verbatim>\<open>getCachedTable\<close>,
  \<^verbatim>\<open>replaceCachedTable\<close> and \<^verbatim>\<open>executeQueries\<close> are not among the sources. By the spec the
  runner holds a cache of the loaded Table objects keyed by schema-qualified name; a
  mutation method reads through this cache, applies the mutation to a clone, executes
  the statements and only then replaces the cached entry. The statements of a run are
  executed in the order in which they are emitted and kept, with their inverses, as the
  log of the run; in the memory mode they are kept and not executed.
\<close>

text \<open>A table object seen through the store: its columns by value.\<close>

definition view :: "TableColumn list \<Rightarrow> TableObj \<Rightarrow> Table" where
  "view h t =
     \<lparr>tbl_name = tbl_name t, tbl_schema = tbl_schema t, tbl_database = tbl_database t,
      tbl_comment = tbl_comment t,
      tbl_columns = map (\<lambda>a. h ! a) (tbl_columns t),
      tbl_uniques = tbl_uniques t, tbl_indices = tbl_indices t,
      tbl_foreignKeys = tbl_foreignKeys t, tbl_checks = tbl_checks t,
      tbl_exclusions = tbl_exclusions t\<rparr>"

text \<open>The table at an address, by value.\<close>

definition tableAt :: "Runner \<Rightarrow> nat \<Rightarrow> Table" where
  "tableAt rs a = view (heap rs) (tables rs ! a)"

text \<open>The cached tables, by value.\<close>

definition cachedTables :: "Runner \<Rightarrow> Table list" where
  "cachedTables rs = map (tableAt rs) (loadedTables rs)"

text \<open>A table by value as an object whose columns are the objects from the address \<open>base\<close> on.\<close>

definition objectOf :: "Table \<Rightarrow> nat \<Rightarrow> TableObj" where
  "objectOf t base =
     \<lparr>tbl_name = tbl_name t, tbl_schema = tbl_schema t, tbl_database = tbl_database t,
      tbl_comment = tbl_comment t,
      tbl_columns = [base ..< base + length (tbl_columns t)],
      tbl_uniques = tbl_uniques t, tbl_indices = tbl_indices t,
      tbl_foreignKeys = tbl_foreignKeys t, tbl_checks = tbl_checks t,
      tbl_exclusions = tbl_exclusions t\<rparr>"

text \<open>A table by value becomes a new object; its columns become new objects.\<close>

definition allocTable :: "Table \<Rightarrow> nat action" where
  "allocTable t = (\<lambda>rs.
     (Inr (length (tables rs)),
      rs\<lparr>heap := heap rs @ tbl_columns t,
         tables := tables rs @ [objectOf t (length (heap rs))]\<rparr>))"

text \<open>
  \<^verbatim>\<open>table.clone()\<close>: a copy of the table with a copy of every member. The clone is local
  to the method that makes it, so it is a value there; its columns become objects of the
  store when the clone replaces a cached table.
\<close>

definition clone :: "nat \<Rightarrow> Table action" where
  "clone table = (\<lambda>rs. (Inr (tableAt rs table), rs))"

text \<open>\<^verbatim>\<open>getCachedTable(tableName)\<close>: the cached table of this name, or else the table loaded
  from the database, which is then cached.\<close>

definition getCachedTable ::
  "Deps \<Rightarrow> Env \<Rightarrow> string \<Rightarrow> nat action" where
  "getCachedTable deps env tname = (\<lambda>rs.
     case find (\<lambda>a. tbl_name (tables rs ! a) = tname) (loadedTables rs) of
       Some a \<Rightarrow> (Inr a, rs)
     | None \<Rightarrow>
         andThen (loadTables deps env (Some [tname])) (\<lambda>foundTables.
           case foundTables of
             [] \<Rightarrow> throw (TypeORMError (''Table '' @ quoted tname @ '' does not exist.''))
           | t # _ \<Rightarrow>
               andThen (allocTable t) (\<lambda>a.
               andThen (modify (\<lambda>rs. rs\<lparr>loadedTables := loadedTables rs @ [a]\<rparr>)) (\<lambda>_.
                 ret a))) rs)"

text \<open>
  \<^verbatim>\<open>replaceCachedTable(table, changedTable)\<close>: the cached table with the name of the table
  takes the members of the changed table; a table that is not cached is left alone.
\<close>

definition replaceCachedTable :: "nat \<Rightarrow> Table \<Rightarrow> unit action" where
  "replaceCachedTable table changedTable = (\<lambda>rs.
     case find (\<lambda>a. tbl_name (tables rs ! a) = tbl_name (tables rs ! table)) (loadedTables rs) of
       None \<Rightarrow> (Inr (), rs)
     | Some a \<Rightarrow>
         (Inr (),
          rs\<lparr>heap := heap rs @ tbl_columns changedTable,
             tables := (tables rs)[a := objectOf changedTable (length (heap rs))]\<rparr>))"

fun runQueries :: "Env \<Rightarrow> Query list \<Rightarrow> unit action" where
  "runQueries env [] = ret ()"
| "runQueries env (q # qs) = andThen (query env (fst q) (snd q) False) (\<lambda>_. runQueries env qs)"

text \<open>\<^verbatim>\<open>executeQueries(upQueries, downQueries)\<close>\<close>

definition executeQueries :: "Env \<Rightarrow> Query list \<Rightarrow> Query list \<Rightarrow> unit action" where
  "executeQueries env up down =
     andThen (modify (\<lambda>rs. rs\<lparr>upQueries := upQueries rs @ up, downQueries := downQueries rs @ down\<rparr>))
       (\<lambda>_. (\<lambda>rs. if sqlMemoryMode rs then (Inr (), rs) else runQueries env up rs))"

text \<open>A table argument of a method: a Table object or the name of a table.\<close>

datatype TableArg = TableInstance nat | TableByName string

definition resolveTable ::
  "Deps \<Rightarrow> Env \<Rightarrow> TableArg \<Rightarrow> nat action" where
  "resolveTable deps env tableOrName =
     (case tableOrName of
        TableInstance t \<Rightarrow> ret t
      | TableByName n \<Rightarrow> getCachedTable deps env n)"

text \<open>
  The local state of a method while it builds its statements: the up and down
  statements so far and the clone of the table.
\<close>

record Plan =
  plan_up :: "Query list"
  plan_down :: "Query list"
  plan_table :: Table

text \<open>\<^verbatim>\<open>upQueries.push(up); downQueries.push(down)\<close>\<close>

definition push :: "Query \<Rightarrow> Query \<Rightarrow> 'a Plan_scheme \<Rightarrow> 'a Plan_scheme" where
  "push up down p = p\<lparr>plan_up := plan_up p @ [up], plan_down := plan_down p @ [down]\<rparr>"


section \<open>PostgresQueryRunner: renameTable\<close>

definition renameConstraintSql :: "Deps \<Rightarrow> Table \<Rightarrow> string \<Rightarrow> string \<Rightarrow> Query" where
  "renameConstraintSql deps table fromName toName =
     newQuery (''ALTER TABLE '' @ escapePath deps (targetOf table) @ '' RENAME CONSTRAINT '' @
       quoted fromName @ '' TO '' @ quoted toName)"

definition renameIndexSql :: "string option \<Rightarrow> string \<Rightarrow> string \<Rightarrow> Query" where
  "renameIndexSql schema_opt fromName toName =
     (if truthy schema_opt
      then newQuery (''ALTER INDEX '' @ quoted (the schema_opt) @ ''.'' @ quoted fromName @
             '' RENAME TO '' @ quoted toName)
      else newQuery (''ALTER INDEX '' @ quoted fromName @ '' RENAME TO '' @ quoted toName))"


text \<open>The primary key constraint is renamed when it has no name given by the user.\<close>

definition renameTable_primaryKey :: "Deps \<Rightarrow> Table \<Rightarrow> Plan \<Rightarrow> Plan" where
  "renameTable_primaryKey deps oldTable p =
     (let newTable = plan_table p
      in if length (primaryColumns newTable) > 0 \<and>
            \<not> truthy (col_primaryKeyConstraintName (hd (primaryColumns newTable))) then
           (let columnNames = map col_name (primaryColumns newTable);
                oldPkName = ns_primaryKeyName deps oldTable columnNames;
                newPkName = ns_primaryKeyName deps newTable columnNames
            in push (renameConstraintSql deps newTable oldPkName newPkName)
                 (renameConstraintSql deps newTable newPkName oldPkName) p)
         else p)"

definition renameTable_sequence :: "Deps \<Rightarrow> Table \<Rightarrow> TableColumn \<Rightarrow> Plan \<Rightarrow> Plan" where
  "renameTable_sequence deps oldTable col p =
     (let newTable = plan_table p
      in if col_isGenerated col \<and> col_generationStrategy col = Some ''increment'' then
           (let sequencePath = buildSequencePath deps oldTable (col_name col);
                sequenceName = buildSequenceName deps oldTable (col_name col);
                newSequencePath = buildSequencePath deps newTable (col_name col);
                newSequenceName = buildSequenceName deps newTable (col_name col)
            in push (newQuery (''ALTER SEQUENCE '' @ escapePath deps (TargetString sequencePath) @
                       '' RENAME TO '' @ quoted newSequenceName))
                 (newQuery (''ALTER SEQUENCE '' @ escapePath deps (TargetString newSequencePath) @
                       '' RENAME TO '' @ quoted sequenceName)) p)
         else p)"

definition renameTable_sequences :: "Deps \<Rightarrow> Table \<Rightarrow> Plan \<Rightarrow> Plan" where
  "renameTable_sequences deps oldTable p =
     fold (renameTable_sequence deps oldTable) (tbl_columns (plan_table p)) p"

text \<open>
  One step of \<^verbatim>\<open>newTable.uniques.forEach\<close>: the unique constraint at position \<open>i\<close> of the
  clone is renamed, in the clone itself, when its name is the one that the naming
  strategy gives for the old table.
\<close>

definition renameTable_unique :: "Deps \<Rightarrow> Table \<Rightarrow> nat \<Rightarrow> Plan \<Rightarrow> Plan" where
  "renameTable_unique deps oldTable i p =
     (let newTable = plan_table p;
          unique = tbl_uniques newTable ! i;
          oldUniqueName = ns_uniqueConstraintName deps oldTable (uq_columnNames unique)
      in if uq_name unique \<noteq> Some oldUniqueName then p
         else
           (let newUniqueName = ns_uniqueConstraintName deps newTable (uq_columnNames unique);
                p = push (renameConstraintSql deps newTable (tpl (uq_name unique)) newUniqueName)
                      (renameConstraintSql deps newTable newUniqueName (tpl (uq_name unique))) p
            in p\<lparr>plan_table := newTable\<lparr>tbl_uniques :=
                 (tbl_uniques newTable)[i := unique\<lparr>uq_name := Some newUniqueName\<rparr>]\<rparr>\<rparr>))"


definition renameTable_index :: "Deps \<Rightarrow> Table \<Rightarrow> nat \<Rightarrow> Plan \<Rightarrow> Plan" where
  "renameTable_index deps oldTable i p =
     (let newTable = plan_table p;
          index = tbl_indices newTable ! i;
          oldIndexName = ns_indexName deps oldTable (idx_columnNames index) (idx_where index)
      in if idx_name index \<noteq> Some oldIndexName then p
         else
           (let schema_opt = schema (pg_parseTableName deps (targetOf newTable));
                newIndexName = ns_indexName deps newTable (idx_columnNames index) (idx_where index);
                p = push (renameIndexSql schema_opt (tpl (idx_name index)) newIndexName)
                      (renameIndexSql schema_opt newIndexName (tpl (idx_name index))) p
            in p\<lparr>plan_table := newTable\<lparr>tbl_indices :=
                 (tbl_indices newTable)[i := index\<lparr>idx_name := Some newIndexName\<rparr>]\<rparr>\<rparr>))"


definition renameTable_foreignKey :: "Deps \<Rightarrow> Table \<Rightarrow> nat \<Rightarrow> Plan \<Rightarrow> Plan" where
  "renameTable_foreignKey deps oldTable i p =
     (let newTable = plan_table p;
          foreignKey = tbl_foreignKeys newTable ! i;
          oldForeignKeyName =
            ns_foreignKeyName deps oldTable (fk_columnNames foreignKey)
              (getTablePath deps (targetOfForeignKey foreignKey)) (fk_referencedColumnNames foreignKey)
      in if fk_name foreignKey \<noteq> Some oldForeignKeyName then p
         else
           (let newForeignKeyName =
                  ns_foreignKeyName deps newTable (fk_columnNames foreignKey)
                    (getTablePath deps (targetOfForeignKey foreignKey))
                    (fk_referencedColumnNames foreignKey);
                p = push (renameConstraintSql deps newTable (tpl (fk_name foreignKey)) newForeignKeyName)
                      (renameConstraintSql deps newTable newForeignKeyName (tpl (fk_name foreignKey))) p
            in p\<lparr>plan_table := newTable\<lparr>tbl_foreignKeys :=
                 (tbl_foreignKeys newTable)[i := foreignKey\<lparr>fk_name := Some newForeignKeyName\<rparr>]\<rparr>\<rparr>))"






section \<open>The rename cascade, in the words of the spec\<close>












section \<open>The tables of a catalog\<close>







text \<open>Two columns with the same name, type, nullability and primary flag.\<close>

definition sameHead :: "TableColumn \<Rightarrow> TableColumn \<Rightarrow> bool" where
  "sameHead a b =
     (col_name b = col_name a \<and> col_type b = col_type a \<and>
      col_isNullable b = col_isNullable a \<and> col_isPrimary b = col_isPrimary a)"
section \<open>Members of a table\<close>

text \<open>
  Modelled from the spec: the class Table is not among the sources. Its methods find the
  members that belong to a column by the name of the column, add a column at the end and
  remove the column of a given name.
\<close>

definition findColumnByName :: "Table \<Rightarrow> string \<Rightarrow> TableColumn option" where
  "findColumnByName table name = find (\<lambda>c. col_name c = name) (tbl_columns table)"

definition table_addColumn :: "Table \<Rightarrow> TableColumn \<Rightarrow> Table" where
  "table_addColumn table column = table\<lparr>tbl_columns := tbl_columns table @ [column]\<rparr>"

text \<open>The list without its first element that satisfies \<open>P\<close>.\<close>

fun removeFirst :: "('a \<Rightarrow> bool) \<Rightarrow> 'a list \<Rightarrow> 'a list" where
  "removeFirst P [] = []"
| "removeFirst P (x # xs) = (if P x then xs else x # removeFirst P xs)"

text \<open>The list with \<open>f\<close> applied to its first element that satisfies \<open>P\<close>.\<close>

fun updateFirst :: "('a \<Rightarrow> bool) \<Rightarrow> ('a \<Rightarrow> 'a) \<Rightarrow> 'a list \<Rightarrow> 'a list" where
  "updateFirst P f [] = []"
| "updateFirst P f (x # xs) = (if P x then f x # xs else x # updateFirst P f xs)"

definition table_removeColumn :: "Table \<Rightarrow> TableColumn \<Rightarrow> Table" where
  "table_removeColumn table column =
     table\<lparr>tbl_columns := removeFirst (\<lambda>c. col_name c = col_name column) (tbl_columns table)\<rparr>"

text \<open>
  \<^verbatim>\<open>xs.splice(xs.indexOf(x), 1)\<close>: the first \<open>x\<close> is removed; when there is none the
  index is -1 and the last element is removed.
\<close>

definition splice_indexOf :: "'a \<Rightarrow> 'a list \<Rightarrow> 'a list" where
  "splice_indexOf x xs = (if x \<in> set xs then remove1 x xs else butlast xs)"

text \<open>\<^verbatim>\<open>xs[i]\<close>, which is \<^verbatim>\<open>undefined\<close> past the end.\<close>

definition at_js :: "'a list \<Rightarrow> nat \<Rightarrow> 'a option" where
  "at_js xs i = (if i < length xs then Some (xs ! i) else None)"


section \<open>PostgresQueryRunner: statements on columns\<close>

text \<open>\<^verbatim>\<open>`ALTER TABLE ${this.escapePath(table)}`\<close> with the rest of the statement.\<close>

definition alterTable :: "Deps \<Rightarrow> Table \<Rightarrow> string \<Rightarrow> Query" where
  "alterTable deps table rest = newQuery (''ALTER TABLE '' @ escapePath deps (targetOf table) @ rest)"

text \<open>\<^verbatim>\<open>`ALTER TABLE ${this.escapePath(table)} ALTER COLUMN "${name}"`\<close> with the rest.\<close>

definition alterColumn :: "Deps \<Rightarrow> Table \<Rightarrow> string \<Rightarrow> string \<Rightarrow> Query" where
  "alterColumn deps table name rest = alterTable deps table ('' ALTER COLUMN '' @ quoted name @ rest)"

text \<open>
  The name of the primary key of the primary columns: the name that the first of them
  carries, or else the name that the naming strategy gives.
\<close>

definition pkNameOf :: "Deps \<Rightarrow> Table \<Rightarrow> TableColumn list \<Rightarrow> string" where
  "pkNameOf deps clonedTable primaryCols =
     (if truthy (col_primaryKeyConstraintName (hd primaryCols))
      then the (col_primaryKeyConstraintName (hd primaryCols))
      else ns_primaryKeyName deps clonedTable (map col_name primaryCols))"

text \<open>\<^verbatim>\<open>primaryColumns.map((column) => `"${column.name}"`).join(", ")\<close>\<close>

definition columnNamesOf :: "TableColumn list \<Rightarrow> string" where
  "columnNamesOf primaryCols = join_js '', '' (map (\<lambda>column. quoted (col_name column)) primaryCols)"

definition dropPrimaryKeySql :: "Deps \<Rightarrow> Table \<Rightarrow> string \<Rightarrow> Query" where
  "dropPrimaryKeySql deps table pkName = alterTable deps table ('' DROP CONSTRAINT '' @ quoted pkName)"

definition addPrimaryKeySql :: "Deps \<Rightarrow> Table \<Rightarrow> string \<Rightarrow> string \<Rightarrow> Query" where
  "addPrimaryKeySql deps table pkName columnNames =
     alterTable deps table ('' ADD CONSTRAINT '' @ quoted pkName @ '' PRIMARY KEY ('' @ columnNames @ '')'')"

text \<open>The two statements on the metadata table for a generated column.\<close>

definition generatedColumnArgs :: "Deps \<Rightarrow> string \<Rightarrow> string \<Rightarrow> string option \<Rightarrow> MetadataArgs" where
  "generatedColumnArgs deps tableNameWithSchema name val =
     (let parts = split_js (CHR ''.'') tableNameWithSchema
      in \<lparr>md_database = pg_database deps, md_schema = at_js parts 0, md_table = at_js parts 1,
          md_type = mt_GENERATED_COLUMN deps, md_name = name, md_value = val\<rparr>)"

text \<open>The local state of a method at its start: no statements and the clone of the table.\<close>

definition newPlan :: "Table \<Rightarrow> Plan" where
  "newPlan clonedTable = \<lparr>plan_up = [], plan_down = [], plan_table = clonedTable\<rparr>"


section \<open>PostgresQueryRunner: addColumn\<close>

definition isEnumType :: "TableColumn \<Rightarrow> bool" where
  "isEnumType column = (col_type column = ''enum'' \<or> col_type column = ''simple-enum'')"

text \<open>The type of an enum column is created unless the database has it.\<close>

definition addColumn_enum :: "Deps \<Rightarrow> Env \<Rightarrow> Table \<Rightarrow> TableColumn \<Rightarrow> 'a Plan_scheme \<Rightarrow> 'a Plan_scheme action" where
  "addColumn_enum deps env table column p =
     (if isEnumType column then
        andThen (hasEnumType deps env table column) (\<lambda>hasEnum.
          if \<not> hasEnum then
            (case createEnumTypeSql deps table column None of
               None \<Rightarrow> throw JsTypeError
             | Some up \<Rightarrow> ret (push up (dropEnumTypeSql deps table column None) p))
          else ret p)
      else ret p)"

definition addColumn_column :: "Deps \<Rightarrow> Table \<Rightarrow> TableColumn \<Rightarrow> Plan \<Rightarrow> Plan" where
  "addColumn_column deps table column p =
     push (alterTable deps table ('' ADD '' @ buildCreateColumnSql deps table column))
       (alterTable deps table ('' DROP COLUMN '' @ quoted (col_name column))) p"

text \<open>A primary column: the primary key is dropped, if there is one, and made anew.\<close>

definition addColumn_primaryKey :: "Deps \<Rightarrow> Table \<Rightarrow> TableColumn \<Rightarrow> Plan \<Rightarrow> Plan" where
  "addColumn_primaryKey deps table column p =
     (if col_isPrimary column then
        (let clonedTable = plan_table p;
             primaryCols = primaryColumns clonedTable;
             p = (if length primaryCols > 0 then
                    (let pkName = pkNameOf deps clonedTable primaryCols;
                         columnNames = columnNamesOf primaryCols
                     in push (dropPrimaryKeySql deps table pkName)
                          (addPrimaryKeySql deps table pkName columnNames) p)
                  else p);
             primaryCols = primaryCols @ [column];
             pkName = pkNameOf deps clonedTable primaryCols;
             columnNames = columnNamesOf primaryCols
         in push (addPrimaryKeySql deps table pkName columnNames)
              (dropPrimaryKeySql deps table pkName) p)
      else p)"

text \<open>The index on the column alone, when the clone has one.\<close>

definition addColumn_index :: "Deps \<Rightarrow> Table \<Rightarrow> TableColumn \<Rightarrow> Plan \<Rightarrow> Plan" where
  "addColumn_index deps table column p =
     (case find (\<lambda>index. length (idx_columnNames index) = 1 \<and>
                   idx_columnNames index ! 0 = col_name column) (tbl_indices (plan_table p)) of
        Some columnIndex \<Rightarrow>
          push (createIndexSql deps table columnIndex) (dropIndexSql deps table columnIndex) p
      | None \<Rightarrow> p)"

text \<open>A unique column: the clone gets a unique constraint named by the naming strategy.\<close>

definition addColumn_unique :: "Deps \<Rightarrow> Table \<Rightarrow> TableColumn \<Rightarrow> Plan \<Rightarrow> Plan" where
  "addColumn_unique deps table column p =
     (if col_isUnique column then
        (let uniqueConstraint =
               \<lparr>uq_name = Some (ns_uniqueConstraintName deps table [col_name column]),
                uq_columnNames = [col_name column], uq_deferrable = None\<rparr>;
             clonedTable = plan_table p;
             p = p\<lparr>plan_table := clonedTable\<lparr>tbl_uniques :=
                   tbl_uniques clonedTable @ [uniqueConstraint]\<rparr>\<rparr>
         in push (alterTable deps table ('' ADD CONSTRAINT '' @ quoted (tpl (uq_name uniqueConstraint)) @
                    '' UNIQUE ('' @ quoted (col_name column) @ '')''))
              (alterTable deps table ('' DROP CONSTRAINT '' @ quoted (tpl (uq_name uniqueConstraint)))) p)
      else p)"

text \<open>A stored generated column is recorded in the metadata table.\<close>

definition addColumn_generated :: "Deps \<Rightarrow> Env \<Rightarrow> Table \<Rightarrow> TableColumn \<Rightarrow> Plan \<Rightarrow> Plan action" where
  "addColumn_generated deps env table column p =
     (if col_generatedType column = Some ''STORED'' \<and> truthy (col_asExpression column) then
        andThen (getTableNameWithSchema env (tbl_name table)) (\<lambda>tableNameWithSchema.
          ret (push
            (insertTypeormMetadataSql deps
               (generatedColumnArgs deps tableNameWithSchema (col_name column) (col_asExpression column)))
            (deleteTypeormMetadataSql deps
               (generatedColumnArgs deps tableNameWithSchema (col_name column) None)) p))
      else ret p)"

definition addColumn_comment :: "Deps \<Rightarrow> Table \<Rightarrow> TableColumn \<Rightarrow> Plan \<Rightarrow> Plan" where
  "addColumn_comment deps table column p =
     (if truthy (col_comment column) then
        push (newQuery (''COMMENT ON COLUMN '' @ escapePath deps (targetOf table) @ ''.'' @
                quoted (col_name column) @ '' IS '' @ escapeComment (col_comment column)))
          (newQuery (''COMMENT ON COLUMN '' @ escapePath deps (targetOf table) @ ''.'' @
                quoted (col_name column) @ '' IS '' @ escapeComment (col_comment column))) p
      else p)"

text \<open>The statements of \<^verbatim>\<open>addColumn\<close> and the clone after them.\<close>

definition addColumn_plan :: "Deps \<Rightarrow> Env \<Rightarrow> Table \<Rightarrow> Table \<Rightarrow> TableColumn \<Rightarrow> Plan action" where
  "addColumn_plan deps env table clonedTable column =
     andThen (addColumn_enum deps env table column (newPlan clonedTable)) (\<lambda>p.
     andThen (addColumn_generated deps env table column
                (addColumn_unique deps table column
                  (addColumn_index deps table column
                    (addColumn_primaryKey deps table column
                      (addColumn_column deps table column p))))) (\<lambda>p.
       ret (addColumn_comment deps table column p)))"

definition addColumn ::
  "Deps \<Rightarrow> Env \<Rightarrow> TableArg \<Rightarrow> TableColumn \<Rightarrow> unit action" where
  "addColumn deps env tableOrName column =
     andThen (resolveTable deps env tableOrName) (\<lambda>table.
     andThen (clone table) (\<lambda>clonedTable. (\<lambda>rs.
       andThen (addColumn_plan deps env (tableAt rs table) clonedTable column) (\<lambda>p.
       andThen (executeQueries env (plan_up p) (plan_down p)) (\<lambda>_.
         replaceCachedTable table (table_addColumn (plan_table p) column))) rs)))"


section \<open>PostgresQueryRunner: dropColumn\<close>

text \<open>A column argument of a method: a TableColumn object or the name of a column.\<close>

datatype 'c ColumnArg = ColumnInstance 'c | ColumnByName string

definition dropColumn_find :: "Table \<Rightarrow> TableColumn ColumnArg \<Rightarrow> TableColumn action" where
  "dropColumn_find table columnOrName =
     (case columnOrName of
        ColumnInstance column \<Rightarrow> ret column
      | ColumnByName name \<Rightarrow>
          (case findColumnByName table name of
             Some column \<Rightarrow> ret column
           | None \<Rightarrow> throw (TypeORMError (''Column '' @ quoted name @ '' was not found in table '' @
                                quoted (tbl_name table)))))"

text \<open>
  A primary column: the primary key is dropped, the column of the clone is no longer
  primary, and the primary key is made anew of the primary columns that are left. A
  clone without a column of this name is a TypeError.
\<close>

definition dropColumn_primaryKey :: "Deps \<Rightarrow> TableColumn \<Rightarrow> Plan \<Rightarrow> Plan action" where
  "dropColumn_primaryKey deps column p =
     (if col_isPrimary column then
        (let clonedTable = plan_table p;
             pkName = (if truthy (col_primaryKeyConstraintName column)
                       then the (col_primaryKeyConstraintName column)
                       else ns_primaryKeyName deps clonedTable
                              (map col_name (primaryColumns clonedTable)));
             columnNames = columnNamesOf (primaryColumns clonedTable);
             p = push (dropPrimaryKeySql deps clonedTable pkName)
                   (addPrimaryKeySql deps clonedTable pkName columnNames) p
         in case findColumnByName clonedTable (col_name column) of
              None \<Rightarrow> throw JsTypeError
            | Some _ \<Rightarrow>
                (let clonedTable = clonedTable\<lparr>tbl_columns :=
                       updateFirst (\<lambda>c. col_name c = col_name column)
                         (\<lambda>c. c\<lparr>col_isPrimary := False\<rparr>) (tbl_columns clonedTable)\<rparr>;
                     p = p\<lparr>plan_table := clonedTable\<rparr>
                 in if length (primaryColumns clonedTable) > 0 then
                      (let pkName = pkNameOf deps clonedTable (primaryColumns clonedTable);
                           columnNames = columnNamesOf (primaryColumns clonedTable)
                       in ret (push (addPrimaryKeySql deps clonedTable pkName columnNames)
                                 (dropPrimaryKeySql deps clonedTable pkName) p))
                    else ret p))
      else ret p)"

text \<open>The index, the check and the unique constraint on the column alone leave the clone.\<close>

definition dropColumn_index :: "Deps \<Rightarrow> Table \<Rightarrow> TableColumn \<Rightarrow> Plan \<Rightarrow> Plan" where
  "dropColumn_index deps table column p =
     (let clonedTable = plan_table p;
          on_column = (\<lambda>index. length (idx_columnNames index) = 1 \<and>
                                idx_columnNames index ! 0 = col_name column)
      in case find on_column (tbl_indices clonedTable) of
           Some columnIndex \<Rightarrow>
             push (dropIndexSql deps table columnIndex) (createIndexSql deps table columnIndex)
               (p\<lparr>plan_table := clonedTable\<lparr>tbl_indices :=
                    removeFirst on_column (tbl_indices clonedTable)\<rparr>\<rparr>)
         | None \<Rightarrow> p)"

definition dropColumn_check :: "Deps \<Rightarrow> Table \<Rightarrow> TableColumn \<Rightarrow> Plan \<Rightarrow> Plan" where
  "dropColumn_check deps table column p =
     (let clonedTable = plan_table p;
          on_column = (\<lambda>check. case chk_columnNames check of
                                  None \<Rightarrow> False
                                | Some names \<Rightarrow> length names = 1 \<and> names ! 0 = col_name column)
      in case find on_column (tbl_checks clonedTable) of
           Some columnCheck \<Rightarrow>
             push (dropCheckConstraintSql deps table columnCheck)
               (createCheckConstraintSql deps table columnCheck)
               (p\<lparr>plan_table := clonedTable\<lparr>tbl_checks :=
                    removeFirst on_column (tbl_checks clonedTable)\<rparr>\<rparr>)
         | None \<Rightarrow> p)"

definition dropColumn_unique :: "Deps \<Rightarrow> Table \<Rightarrow> TableColumn \<Rightarrow> Plan \<Rightarrow> Plan" where
  "dropColumn_unique deps table column p =
     (let clonedTable = plan_table p;
          on_column = (\<lambda>unique. length (uq_columnNames unique) = 1 \<and>
                                 uq_columnNames unique ! 0 = col_name column)
      in case find on_column (tbl_uniques clonedTable) of
           Some columnUnique \<Rightarrow>
             push (dropUniqueConstraintSql deps table columnUnique)
               (createUniqueConstraintSql deps table columnUnique)
               (p\<lparr>plan_table := clonedTable\<lparr>tbl_uniques :=
                    removeFirst on_column (tbl_uniques clonedTable)\<rparr>\<rparr>)
         | None \<Rightarrow> p)"

definition dropColumn_column :: "Deps \<Rightarrow> Table \<Rightarrow> TableColumn \<Rightarrow> Plan \<Rightarrow> Plan" where
  "dropColumn_column deps table column p =
     push (alterTable deps table ('' DROP COLUMN '' @ quoted (col_name column)))
       (alterTable deps table ('' ADD '' @ buildCreateColumnSql deps table column)) p"

text \<open>The type of an enum column is dropped when the database has it.\<close>

definition dropColumn_enum :: "Deps \<Rightarrow> Env \<Rightarrow> Table \<Rightarrow> TableColumn \<Rightarrow> Plan \<Rightarrow> Plan action" where
  "dropColumn_enum deps env table column p =
     (if isEnumType column then
        andThen (hasEnumType deps env table column) (\<lambda>hasEnum.
          if hasEnum then
            andThen (getUserDefinedTypeName deps env table column) (\<lambda>enumType.
              (let escapedEnumName = quoted (tpl (fst enumType)) @ ''.'' @ quoted (snd enumType)
               in case createEnumTypeSql deps table column (Some escapedEnumName) of
                    None \<Rightarrow> throw JsTypeError
                  | Some down \<Rightarrow>
                      ret (push (dropEnumTypeSql deps table column (Some escapedEnumName)) down p)))
          else ret p)
      else ret p)"

definition dropColumn_generated :: "Deps \<Rightarrow> Env \<Rightarrow> Table \<Rightarrow> TableColumn \<Rightarrow> Plan \<Rightarrow> Plan action" where
  "dropColumn_generated deps env table column p =
     (if col_generatedType column = Some ''STORED'' then
        andThen (getTableNameWithSchema env (tbl_name table)) (\<lambda>tableNameWithSchema.
          ret (push
            (deleteTypeormMetadataSql deps
               (generatedColumnArgs deps tableNameWithSchema (col_name column) None))
            (insertTypeormMetadataSql deps
               (generatedColumnArgs deps tableNameWithSchema (col_name column) (col_asExpression column)))
            p))
      else ret p)"

text \<open>The statements of \<^verbatim>\<open>dropColumn\<close> and the clone after them.\<close>

definition dropColumn_plan :: "Deps \<Rightarrow> Env \<Rightarrow> Table \<Rightarrow> Table \<Rightarrow> TableColumn \<Rightarrow> Plan action" where
  "dropColumn_plan deps env table clonedTable column =
     andThen (dropColumn_primaryKey deps column (newPlan clonedTable)) (\<lambda>p.
     andThen (dropColumn_enum deps env table column
                (dropColumn_column deps table column
                  (dropColumn_unique deps table column
                    (dropColumn_check deps table column
                      (dropColumn_index deps table column p))))) (\<lambda>p.
       dropColumn_generated deps env table column p))"

definition dropColumn ::
  "Deps \<Rightarrow> Env \<Rightarrow> TableArg \<Rightarrow> TableColumn ColumnArg \<Rightarrow> unit action" where
  "dropColumn deps env tableOrName columnOrName =
     andThen (resolveTable deps env tableOrName) (\<lambda>table. (\<lambda>rs.
       andThen (dropColumn_find (tableAt rs table) columnOrName) (\<lambda>column.
       andThen (clone table) (\<lambda>clonedTable.
       andThen (dropColumn_plan deps env (tableAt rs table) clonedTable column) (\<lambda>p.
       andThen (executeQueries env (plan_up p) (plan_down p)) (\<lambda>_.
         replaceCachedTable table (table_removeColumn (plan_table p) column))))) rs))"


section \<open>PostgresQueryRunner: changeColumn\<close>

text \<open>
  The local state of \<^verbatim>\<open>changeColumn\<close>: the statements, the clone and the flag
  \<^verbatim>\<open>defaultValueChanged\<close>.
\<close>

record CPlan = Plan +
  defaultValueChanged :: bool

definition newCPlan :: "Table \<Rightarrow> CPlan" where
  "newCPlan clonedTable =
     \<lparr>plan_up = [], plan_down = [], plan_table = clonedTable, defaultValueChanged = False\<rparr>"

text \<open>The column is made anew, and not changed in place, in these cases.\<close>

definition changeColumn_recreates :: "TableColumn \<Rightarrow> TableColumn \<Rightarrow> bool" where
  "changeColumn_recreates oldColumn newColumn =
     (col_type oldColumn \<noteq> col_type newColumn \<or>
      col_length oldColumn \<noteq> col_length newColumn \<or>
      col_isArray newColumn \<noteq> col_isArray oldColumn \<or>
      (\<not> truthy (col_generatedType oldColumn) \<and> col_generatedType newColumn = Some ''STORED'') \<or>
      (col_asExpression oldColumn \<noteq> col_asExpression newColumn \<and>
         col_generatedType newColumn = Some ''STORED''))"

text \<open>
  \<^verbatim>\<open>table.findColumnUniques(column)\<close> and its like, by position: the members that have the
  name of the column among their column names.
\<close>

definition hasColumnName :: "string list \<Rightarrow> string \<Rightarrow> bool" where
  "hasColumnName columnNames name = truthy (find (\<lambda>columnName. columnName = name) columnNames)"

definition findColumnUniques :: "Table \<Rightarrow> TableColumn \<Rightarrow> nat list" where
  "findColumnUniques table column =
     filter (\<lambda>i. hasColumnName (uq_columnNames (tbl_uniques table ! i)) (col_name column))
       [0 ..< length (tbl_uniques table)]"

definition findColumnIndices :: "Table \<Rightarrow> TableColumn \<Rightarrow> nat list" where
  "findColumnIndices table column =
     filter (\<lambda>i. hasColumnName (idx_columnNames (tbl_indices table ! i)) (col_name column))
       [0 ..< length (tbl_indices table)]"

definition findColumnForeignKeys :: "Table \<Rightarrow> TableColumn \<Rightarrow> nat list" where
  "findColumnForeignKeys table column =
     filter (\<lambda>i. hasColumnName (fk_columnNames (tbl_foreignKeys table ! i)) (col_name column))
       [0 ..< length (tbl_foreignKeys table)]"

text \<open>The statements that rename the column, and the type of an enum column.\<close>

definition rename_column :: "Deps \<Rightarrow> Table \<Rightarrow> TableColumn \<Rightarrow> TableColumn \<Rightarrow> CPlan \<Rightarrow> CPlan" where
  "rename_column deps table oldColumn newColumn p =
     push (alterTable deps table ('' RENAME COLUMN '' @ quoted (col_name oldColumn) @ '' TO '' @
             quoted (col_name newColumn)))
       (alterTable deps table ('' RENAME COLUMN '' @ quoted (col_name newColumn) @ '' TO '' @
             quoted (col_name oldColumn))) p"

definition rename_enum ::
  "Deps \<Rightarrow> Env \<Rightarrow> Table \<Rightarrow> TableColumn \<Rightarrow> TableColumn \<Rightarrow> CPlan \<Rightarrow> CPlan action" where
  "rename_enum deps env table oldColumn newColumn p =
     (if isEnumType oldColumn then
        andThen (getUserDefinedTypeName deps env table oldColumn) (\<lambda>oldEnumType.
          ret (push
            (newQuery (''ALTER TYPE '' @ quoted (tpl (fst oldEnumType)) @ ''.'' @
               quoted (snd oldEnumType) @ '' RENAME TO '' @
               buildEnumName deps table newColumn False False False))
            (newQuery (''ALTER TYPE '' @ buildEnumName deps table newColumn True False False @
               '' RENAME TO '' @ quoted (snd oldEnumType))) p))
      else ret p)"

text \<open>The primary key without a name of its own takes the name for the new column names.\<close>

definition rename_primaryKey :: "Deps \<Rightarrow> Table \<Rightarrow> TableColumn \<Rightarrow> TableColumn \<Rightarrow> CPlan \<Rightarrow> CPlan" where
  "rename_primaryKey deps table oldColumn newColumn p =
     (if col_isPrimary oldColumn \<and> \<not> truthy (col_primaryKeyConstraintName oldColumn) then
        (let clonedTable = plan_table p;
             columnNames = map col_name (primaryColumns clonedTable);
             oldPkName = ns_primaryKeyName deps clonedTable columnNames;
             columnNames = splice_indexOf (col_name oldColumn) columnNames @ [col_name newColumn];
             newPkName = ns_primaryKeyName deps clonedTable columnNames
         in push (alterTable deps table ('' RENAME CONSTRAINT '' @ quoted oldPkName @ '' TO '' @
                    quoted newPkName))
              (alterTable deps table ('' RENAME CONSTRAINT '' @ quoted newPkName @ '' TO '' @
                    quoted oldPkName)) p)
      else p)"

definition rename_sequence :: "Deps \<Rightarrow> Table \<Rightarrow> TableColumn \<Rightarrow> TableColumn \<Rightarrow> CPlan \<Rightarrow> CPlan" where
  "rename_sequence deps table oldColumn newColumn p =
     (if col_isGenerated oldColumn \<and> col_generationStrategy newColumn = Some ''increment'' then
        (let sequencePath = buildSequencePath deps table (col_name oldColumn);
             sequenceName = buildSequenceName deps table (col_name oldColumn);
             newSequencePath = buildSequencePath deps table (col_name newColumn);
             newSequenceName = buildSequenceName deps table (col_name newColumn)
         in push (newQuery (''ALTER SEQUENCE '' @ escapePath deps (TargetString sequencePath) @
                    '' RENAME TO '' @ quoted newSequenceName))
              (newQuery (''ALTER SEQUENCE '' @ escapePath deps (TargetString newSequencePath) @
                    '' RENAME TO '' @ quoted sequenceName)) p)
      else p)"

text \<open>
  One step of \<^verbatim>\<open>clonedTable.findColumnUniques(oldColumn).forEach\<close>: the unique constraint at
  position \<open>i\<close> of the clone, when its name is the one that the naming strategy gives,
  takes the new column name in place of the old one and then the name for these columns.
\<close>

definition rename_unique ::
  "Deps \<Rightarrow> Table \<Rightarrow> TableColumn \<Rightarrow> TableColumn \<Rightarrow> nat \<Rightarrow> CPlan \<Rightarrow> CPlan" where
  "rename_unique deps table oldColumn newColumn i p =
     (let clonedTable = plan_table p;
          unique = tbl_uniques clonedTable ! i;
          oldUniqueName = ns_uniqueConstraintName deps clonedTable (uq_columnNames unique)
      in if uq_name unique \<noteq> Some oldUniqueName then p
         else
           (let unique = unique\<lparr>uq_columnNames :=
                  splice_indexOf (col_name oldColumn) (uq_columnNames unique) @ [col_name newColumn]\<rparr>;
                clonedTable = clonedTable\<lparr>tbl_uniques := (tbl_uniques clonedTable)[i := unique]\<rparr>;
                newUniqueName = ns_uniqueConstraintName deps clonedTable (uq_columnNames unique);
                p = push (alterTable deps table ('' RENAME CONSTRAINT '' @ quoted (tpl (uq_name unique)) @
                            '' TO '' @ quoted newUniqueName))
                      (alterTable deps table ('' RENAME CONSTRAINT '' @ quoted newUniqueName @
                            '' TO '' @ quoted (tpl (uq_name unique)))) p
            in p\<lparr>plan_table := clonedTable\<lparr>tbl_uniques :=
                 (tbl_uniques clonedTable)[i := unique\<lparr>uq_name := Some newUniqueName\<rparr>]\<rparr>\<rparr>))"

definition rename_index ::
  "Deps \<Rightarrow> Table \<Rightarrow> TableColumn \<Rightarrow> TableColumn \<Rightarrow> nat \<Rightarrow> CPlan \<Rightarrow> CPlan" where
  "rename_index deps table oldColumn newColumn i p =
     (let clonedTable = plan_table p;
          index = tbl_indices clonedTable ! i;
          oldIndexName = ns_indexName deps clonedTable (idx_columnNames index) (idx_where index)
      in if idx_name index \<noteq> Some oldIndexName then p
         else
           (let index = index\<lparr>idx_columnNames :=
                  splice_indexOf (col_name oldColumn) (idx_columnNames index) @ [col_name newColumn]\<rparr>;
                clonedTable = clonedTable\<lparr>tbl_indices := (tbl_indices clonedTable)[i := index]\<rparr>;
                schema_opt = schema (pg_parseTableName deps (targetOf table));
                newIndexName = ns_indexName deps clonedTable (idx_columnNames index) (idx_where index);
                p = push (renameIndexSql schema_opt (tpl (idx_name index)) newIndexName)
                      (renameIndexSql schema_opt newIndexName (tpl (idx_name index))) p
            in p\<lparr>plan_table := clonedTable\<lparr>tbl_indices :=
                 (tbl_indices clonedTable)[i := index\<lparr>idx_name := Some newIndexName\<rparr>]\<rparr>\<rparr>))"

definition rename_foreignKey ::
  "Deps \<Rightarrow> Table \<Rightarrow> TableColumn \<Rightarrow> TableColumn \<Rightarrow> nat \<Rightarrow> CPlan \<Rightarrow> CPlan" where
  "rename_foreignKey deps table oldColumn newColumn i p =
     (let clonedTable = plan_table p;
          foreignKey = tbl_foreignKeys clonedTable ! i;
          foreignKeyName =
            ns_foreignKeyName deps clonedTable (fk_columnNames foreignKey)
              (getTablePath deps (targetOfForeignKey foreignKey)) (fk_referencedColumnNames foreignKey)
      in if fk_name foreignKey \<noteq> Some foreignKeyName then p
         else
           (let foreignKey = foreignKey\<lparr>fk_columnNames :=
                  splice_indexOf (col_name oldColumn) (fk_columnNames foreignKey) @
                    [col_name newColumn]\<rparr>;
                clonedTable = clonedTable\<lparr>tbl_foreignKeys :=
                  (tbl_foreignKeys clonedTable)[i := foreignKey]\<rparr>;
                newForeignKeyName =
                  ns_foreignKeyName deps clonedTable (fk_columnNames foreignKey)
                    (getTablePath deps (targetOfForeignKey foreignKey))
                    (fk_referencedColumnNames foreignKey);
                p = push (alterTable deps table ('' RENAME CONSTRAINT '' @
                            quoted (tpl (fk_name foreignKey)) @ '' TO '' @ quoted newForeignKeyName))
                      (alterTable deps table ('' RENAME CONSTRAINT '' @ quoted newForeignKeyName @
                            '' TO '' @ quoted (tpl (fk_name foreignKey)))) p
            in p\<lparr>plan_table := clonedTable\<lparr>tbl_foreignKeys :=
                 (tbl_foreignKeys clonedTable)[i := foreignKey\<lparr>fk_name := Some newForeignKeyName\<rparr>]\<rparr>\<rparr>))"

text \<open>
  The column of the clone takes the new name; a clone without a column of the old name
  is a TypeError.
\<close>

definition rename_clonedColumn :: "TableColumn \<Rightarrow> TableColumn \<Rightarrow> CPlan \<Rightarrow> CPlan action" where
  "rename_clonedColumn oldColumn newColumn p =
     (let clonedTable = plan_table p
      in case find (\<lambda>column. col_name column = col_name oldColumn) (tbl_columns clonedTable) of
           None \<Rightarrow> throw JsTypeError
         | Some _ \<Rightarrow>
             ret (p\<lparr>plan_table := clonedTable\<lparr>tbl_columns :=
                    updateFirst (\<lambda>column. col_name column = col_name oldColumn)
                      (\<lambda>column. column\<lparr>col_name := col_name newColumn\<rparr>)
                      (tbl_columns clonedTable)\<rparr>\<rparr>))"

text \<open>The block \<^verbatim>\<open>if (oldColumn.name !== newColumn.name)\<close> up to the renaming of \<^verbatim>\<open>oldColumn\<close>.\<close>

definition changeColumn_rename ::
  "Deps \<Rightarrow> Env \<Rightarrow> Table \<Rightarrow> TableColumn \<Rightarrow> TableColumn \<Rightarrow> CPlan \<Rightarrow> CPlan action" where
  "changeColumn_rename deps env table oldColumn newColumn p =
     andThen (rename_enum deps env table oldColumn newColumn
                (rename_column deps table oldColumn newColumn p)) (\<lambda>p.
       (let p = rename_sequence deps table oldColumn newColumn
                  (rename_primaryKey deps table oldColumn newColumn p);
            p = fold (rename_unique deps table oldColumn newColumn)
                  (findColumnUniques (plan_table p) oldColumn) p;
            p = fold (rename_index deps table oldColumn newColumn)
                  (findColumnIndices (plan_table p) oldColumn) p;
            p = fold (rename_foreignKey deps table oldColumn newColumn)
                  (findColumnForeignKeys (plan_table p) oldColumn) p
        in rename_clonedColumn oldColumn newColumn p))"

text \<open>A change of the precision or of the scale.\<close>

definition change_precision :: "Deps \<Rightarrow> Table \<Rightarrow> TableColumn \<Rightarrow> TableColumn \<Rightarrow> CPlan \<Rightarrow> CPlan" where
  "change_precision deps table oldColumn newColumn p =
     (if col_precision newColumn \<noteq> col_precision oldColumn \<or>
         col_scale newColumn \<noteq> col_scale oldColumn then
        push (alterColumn deps table (col_name newColumn) ('' TYPE '' @ pg_createFullType deps newColumn))
          (alterColumn deps table (col_name newColumn) ('' TYPE '' @ pg_createFullType deps oldColumn)) p
      else p)"

text \<open>
  \<^verbatim>\<open>OrmUtils.isArraysEqual(newColumn.enum!, oldColumn.enum!)\<close>: reading the length of a
  list of values that is \<^verbatim>\<open>undefined\<close> is a TypeError.
\<close>

definition enumsEqual :: "Deps \<Rightarrow> TableColumn \<Rightarrow> TableColumn \<Rightarrow> bool option" where
  "enumsEqual deps newColumn oldColumn =
     (case (col_enum newColumn, col_enum oldColumn) of
        (Some vs, Some ws) \<Rightarrow> Some (isArraysEqual deps vs ws)
      | _ \<Rightarrow> None)"

text \<open>
  A change of the values or of the name of the type of an enum column: the old type gets
  the suffix \<^verbatim>\<open>_old\<close>, the new type is created, the default is dropped, the column is
  cast to the new type, the default is set, and the old type is dropped.
\<close>

definition change_enum_statements :: "Deps \<Rightarrow> Table \<Rightarrow> TableColumn \<Rightarrow> TableColumn \<Rightarrow> CPlan \<Rightarrow> CPlan action" where
  "change_enum_statements deps table oldColumn newColumn p =
     (let arraySuffix = (if col_isArray newColumn then ''[]'' else '''');
          newEnumName = buildEnumName deps table newColumn True False False;
          oldEnumName = buildEnumName deps table oldColumn True False False;
          oldEnumNameWithoutSchema = buildEnumName deps table oldColumn False False False;
          oldEnumNameWithSchema_old = buildEnumName deps table oldColumn True False True;
          oldEnumNameWithoutSchema_old = buildEnumName deps table oldColumn False False True;
          p = push (newQuery (''ALTER TYPE '' @ oldEnumName @ '' RENAME TO '' @
                      oldEnumNameWithoutSchema_old))
                (newQuery (''ALTER TYPE '' @ oldEnumNameWithSchema_old @ '' RENAME TO '' @
                      oldEnumNameWithoutSchema)) p
      in case createEnumTypeSql deps table newColumn (Some newEnumName) of
           None \<Rightarrow> throw JsTypeError
         | Some createNew \<Rightarrow>
             (let p = push createNew (dropEnumTypeSql deps table newColumn (Some newEnumName)) p;
                  p = (if isSet (col_default oldColumn) then
                         push (alterColumn deps table (col_name oldColumn) '' DROP DEFAULT'')
                           (alterColumn deps table (col_name oldColumn)
                              ('' SET DEFAULT '' @ tpl_nullable (col_default oldColumn)))
                           (p\<lparr>defaultValueChanged := True\<rparr>)
                       else p);
                  upType = newEnumName @ arraySuffix @ '' USING '' @ quoted (col_name newColumn) @
                    ''::'' @ quoted ''text'' @ ''::'' @ newEnumName @ arraySuffix;
                  downType = oldEnumNameWithSchema_old @ arraySuffix @ '' USING '' @
                    quoted (col_name newColumn) @ ''::'' @ quoted ''text'' @ ''::'' @
                    oldEnumNameWithSchema_old @ arraySuffix;
                  p = push (alterColumn deps table (col_name newColumn) ('' TYPE '' @ upType))
                        (alterColumn deps table (col_name newColumn) ('' TYPE '' @ downType)) p;
                  p = (if isSet (col_default newColumn) then
                         push (alterColumn deps table (col_name newColumn)
                                 ('' SET DEFAULT '' @ tpl_nullable (col_default newColumn)))
                           (alterColumn deps table (col_name newColumn) '' DROP DEFAULT'') p
                       else p)
              in case createEnumTypeSql deps table oldColumn (Some oldEnumNameWithSchema_old) of
                   None \<Rightarrow> throw JsTypeError
                 | Some createOld \<Rightarrow>
                     ret (push (dropEnumTypeSql deps table oldColumn (Some oldEnumNameWithSchema_old))
                            createOld p)))"

definition change_enum :: "Deps \<Rightarrow> Table \<Rightarrow> TableColumn \<Rightarrow> TableColumn \<Rightarrow> CPlan \<Rightarrow> CPlan action" where
  "change_enum deps table oldColumn newColumn p =
     (if isEnumType newColumn \<and> isEnumType oldColumn then
        (case enumsEqual deps newColumn oldColumn of
           None \<Rightarrow> throw JsTypeError
         | Some equal \<Rightarrow>
             if \<not> equal \<or> col_enumName newColumn \<noteq> col_enumName oldColumn
             then change_enum_statements deps table oldColumn newColumn p
             else ret p)
      else ret p)"

definition change_nullable :: "Deps \<Rightarrow> Table \<Rightarrow> TableColumn \<Rightarrow> TableColumn \<Rightarrow> CPlan \<Rightarrow> CPlan" where
  "change_nullable deps table oldColumn newColumn p =
     (if col_isNullable oldColumn \<noteq> col_isNullable newColumn then
        (if col_isNullable newColumn then
           push (alterColumn deps table (col_name oldColumn) '' DROP NOT NULL'')
             (alterColumn deps table (col_name oldColumn) '' SET NOT NULL'') p
         else
           push (alterColumn deps table (col_name oldColumn) '' SET NOT NULL'')
             (alterColumn deps table (col_name oldColumn) '' DROP NOT NULL'') p)
      else p)"

definition change_comment :: "Deps \<Rightarrow> Table \<Rightarrow> TableColumn \<Rightarrow> TableColumn \<Rightarrow> CPlan \<Rightarrow> CPlan" where
  "change_comment deps table oldColumn newColumn p =
     (if col_comment oldColumn \<noteq> col_comment newColumn then
        push (newQuery (''COMMENT ON COLUMN '' @ escapePath deps (targetOf table) @ ''.'' @
                quoted (col_name oldColumn) @ '' IS '' @ escapeComment (col_comment newColumn)))
          (newQuery (''COMMENT ON COLUMN '' @ escapePath deps (targetOf table) @ ''.'' @
                quoted (col_name newColumn) @ '' IS '' @ escapeComment (col_comment oldColumn))) p
      else p)"

text \<open>
  \<^verbatim>\<open>primaryColumns.splice(primaryColumns.indexOf(primaryColumns.find(P)), 1)\<close>: the first
  element that satisfies \<open>P\<close> is removed, or the last one when there is none.
\<close>

definition spliceFound :: "('a \<Rightarrow> bool) \<Rightarrow> 'a list \<Rightarrow> 'a list" where
  "spliceFound P xs = (case find P xs of Some _ \<Rightarrow> removeFirst P xs | None \<Rightarrow> butlast xs)"

text \<open>\<^verbatim>\<open>clonedTable.columns.find((column) => column.name === newColumn.name)!.isPrimary = b\<close>\<close>

definition setClonedPrimary :: "TableColumn \<Rightarrow> bool \<Rightarrow> Table \<Rightarrow> Table option" where
  "setClonedPrimary newColumn b clonedTable =
     (case find (\<lambda>column. col_name column = col_name newColumn) (tbl_columns clonedTable) of
        None \<Rightarrow> None
      | Some _ \<Rightarrow>
          Some (clonedTable\<lparr>tbl_columns :=
            updateFirst (\<lambda>column. col_name column = col_name newColumn)
              (\<lambda>column. column\<lparr>col_isPrimary := b\<rparr>) (tbl_columns clonedTable)\<rparr>))"

text \<open>
  A change of \<^verbatim>\<open>isPrimary\<close>: the primary key is dropped, if there is one, and made anew
  with or without the column.
\<close>

definition change_primary :: "Deps \<Rightarrow> Table \<Rightarrow> TableColumn \<Rightarrow> TableColumn \<Rightarrow> CPlan \<Rightarrow> CPlan action" where
  "change_primary deps table oldColumn newColumn p =
     (if col_isPrimary newColumn \<noteq> col_isPrimary oldColumn then
        (let clonedTable = plan_table p;
             primaryCols = primaryColumns clonedTable;
             p = (if length primaryCols > 0 then
                    push (dropPrimaryKeySql deps table (pkNameOf deps clonedTable primaryCols))
                      (addPrimaryKeySql deps table (pkNameOf deps clonedTable primaryCols)
                         (columnNamesOf primaryCols)) p
                  else p)
         in if col_isPrimary newColumn then
              (let primaryCols = primaryCols @ [newColumn]
               in case setClonedPrimary newColumn True clonedTable of
                    None \<Rightarrow> throw JsTypeError
                  | Some clonedTable \<Rightarrow>
                      ret (push (addPrimaryKeySql deps table (pkNameOf deps clonedTable primaryCols)
                                   (columnNamesOf primaryCols))
                             (dropPrimaryKeySql deps table (pkNameOf deps clonedTable primaryCols))
                             (p\<lparr>plan_table := clonedTable\<rparr>)))
            else
              (let primaryCols =
                     spliceFound (\<lambda>c. col_name c = col_name newColumn) primaryCols
               in case setClonedPrimary newColumn False clonedTable of
                    None \<Rightarrow> throw JsTypeError
                  | Some clonedTable \<Rightarrow>
                      if length primaryCols > 0 then
                        ret (push (addPrimaryKeySql deps table (pkNameOf deps clonedTable primaryCols)
                                     (columnNamesOf primaryCols))
                               (dropPrimaryKeySql deps table (pkNameOf deps clonedTable primaryCols))
                               (p\<lparr>plan_table := clonedTable\<rparr>))
                      else ret (p\<lparr>plan_table := clonedTable\<rparr>)))
      else ret p)"

text \<open>
  A change of \<^verbatim>\<open>isUnique\<close>: the clone gets a unique constraint on the column, or loses the
  one on the column alone; a clone without such a constraint is a TypeError.
\<close>

definition change_unique :: "Deps \<Rightarrow> Table \<Rightarrow> TableColumn \<Rightarrow> TableColumn \<Rightarrow> CPlan \<Rightarrow> CPlan action" where
  "change_unique deps table oldColumn newColumn p =
     (if col_isUnique newColumn \<noteq> col_isUnique oldColumn then
        (let clonedTable = plan_table p
         in if col_isUnique newColumn then
              (let uniqueConstraint =
                     \<lparr>uq_name = Some (ns_uniqueConstraintName deps table [col_name newColumn]),
                      uq_columnNames = [col_name newColumn], uq_deferrable = None\<rparr>
               in ret (push
                    (alterTable deps table ('' ADD CONSTRAINT '' @
                       quoted (tpl (uq_name uniqueConstraint)) @ '' UNIQUE ('' @
                       quoted (col_name newColumn) @ '')''))
                    (alterTable deps table ('' DROP CONSTRAINT '' @
                       quoted (tpl (uq_name uniqueConstraint))))
                    (p\<lparr>plan_table := clonedTable\<lparr>tbl_uniques :=
                         tbl_uniques clonedTable @ [uniqueConstraint]\<rparr>\<rparr>)))
            else
              (let on_column = (\<lambda>unique. length (uq_columnNames unique) = 1 \<and>
                                  hasColumnName (uq_columnNames unique) (col_name newColumn))
               in case find on_column (tbl_uniques clonedTable) of
                    None \<Rightarrow> throw JsTypeError
                  | Some uniqueConstraint \<Rightarrow>
                      ret (push
                        (alterTable deps table ('' DROP CONSTRAINT '' @
                           quoted (tpl (uq_name uniqueConstraint))))
                        (alterTable deps table ('' ADD CONSTRAINT '' @
                           quoted (tpl (uq_name uniqueConstraint)) @ '' UNIQUE ('' @
                           quoted (col_name newColumn) @ '')''))
                        (p\<lparr>plan_table := clonedTable\<lparr>tbl_uniques :=
                             removeFirst on_column (tbl_uniques clonedTable)\<rparr>\<rparr>))))
      else ret p)"

text \<open>The statements on the sequence and on the default of a generated column.\<close>

definition nextvalOf :: "Deps \<Rightarrow> Table \<Rightarrow> TableColumn \<Rightarrow> string" where
  "nextvalOf deps table column =
     '' SET DEFAULT nextval('' @ sq @
       escapePath deps (TargetString (buildSequencePath deps table (col_name column))) @ sq @ '')''"

definition dropSequenceSql :: "Deps \<Rightarrow> Table \<Rightarrow> TableColumn \<Rightarrow> Query" where
  "dropSequenceSql deps table column =
     newQuery (''DROP SEQUENCE '' @
       escapePath deps (TargetString (buildSequencePath deps table (col_name column))))"

definition createSequenceSql :: "Deps \<Rightarrow> Table \<Rightarrow> TableColumn \<Rightarrow> Query" where
  "createSequenceSql deps table column =
     newQuery (''CREATE SEQUENCE IF NOT EXISTS '' @
       escapePath deps (TargetString (buildSequencePath deps table (col_name column))) @
       '' OWNED BY '' @ escapePath deps (targetOf table) @ ''.'' @ quoted (col_name column))"

definition change_generated_old :: "Deps \<Rightarrow> Table \<Rightarrow> TableColumn \<Rightarrow> TableColumn \<Rightarrow> CPlan \<Rightarrow> CPlan" where
  "change_generated_old deps table oldColumn newColumn p =
     (if col_isGenerated oldColumn then
        (if col_generationStrategy oldColumn = Some ''uuid'' then
           push (alterColumn deps table (col_name oldColumn) '' DROP DEFAULT'')
             (alterColumn deps table (col_name oldColumn) ('' SET DEFAULT '' @ pg_uuidGenerator deps)) p
         else if col_generationStrategy oldColumn = Some ''increment'' then
           push (dropSequenceSql deps table newColumn) (createSequenceSql deps table newColumn)
             (push (alterColumn deps table (col_name newColumn) '' DROP DEFAULT'')
                (alterColumn deps table (col_name newColumn) (nextvalOf deps table newColumn)) p)
         else p)
      else p)"

definition change_generated_new :: "Deps \<Rightarrow> Table \<Rightarrow> TableColumn \<Rightarrow> CPlan \<Rightarrow> CPlan" where
  "change_generated_new deps table newColumn p =
     (if col_generationStrategy newColumn = Some ''uuid'' then
        (if col_isGenerated newColumn then
           push (alterColumn deps table (col_name newColumn) ('' SET DEFAULT '' @ pg_uuidGenerator deps))
             (alterColumn deps table (col_name newColumn) '' DROP DEFAULT'') p
         else
           push (alterColumn deps table (col_name newColumn) '' DROP DEFAULT'')
             (alterColumn deps table (col_name newColumn) ('' SET DEFAULT '' @ pg_uuidGenerator deps)) p)
      else if col_generationStrategy newColumn = Some ''increment'' then
        (if col_isGenerated newColumn then
           push (alterColumn deps table (col_name newColumn) (nextvalOf deps table newColumn))
             (alterColumn deps table (col_name newColumn) '' DROP DEFAULT'')
             (push (createSequenceSql deps table newColumn) (dropSequenceSql deps table newColumn) p)
         else
           push (dropSequenceSql deps table newColumn) (createSequenceSql deps table newColumn)
             (push (alterColumn deps table (col_name newColumn) '' DROP DEFAULT'')
                (alterColumn deps table (col_name newColumn) (nextvalOf deps table newColumn)) p))
      else p)"

definition change_generated :: "Deps \<Rightarrow> Table \<Rightarrow> TableColumn \<Rightarrow> TableColumn \<Rightarrow> CPlan \<Rightarrow> CPlan" where
  "change_generated deps table oldColumn newColumn p =
     (if col_isGenerated oldColumn \<noteq> col_isGenerated newColumn then
        change_generated_new deps table newColumn
          (change_generated_old deps table oldColumn newColumn p)
      else p)"

text \<open>A change of the default, unless the change of the enum type has dealt with it.\<close>

definition change_default :: "Deps \<Rightarrow> Table \<Rightarrow> TableColumn \<Rightarrow> TableColumn \<Rightarrow> CPlan \<Rightarrow> CPlan" where
  "change_default deps table oldColumn newColumn p =
     (if col_default newColumn \<noteq> col_default oldColumn \<and> \<not> defaultValueChanged p then
        (if isSet (col_default newColumn) then
           push (alterColumn deps table (col_name newColumn)
                   ('' SET DEFAULT '' @ tpl_nullable (col_default newColumn)))
             (if isSet (col_default oldColumn)
              then alterColumn deps table (col_name newColumn)
                     ('' SET DEFAULT '' @ tpl_nullable (col_default oldColumn))
              else alterColumn deps table (col_name newColumn) '' DROP DEFAULT'') p
         else if isSet (col_default oldColumn) then
           push (alterColumn deps table (col_name newColumn) '' DROP DEFAULT'')
             (alterColumn deps table (col_name newColumn)
                ('' SET DEFAULT '' @ tpl_nullable (col_default oldColumn))) p
         else p)
      else p)"

text \<open>\<^verbatim>\<open>(x || "")\<close>\<close>

definition orEmpty :: "string option \<Rightarrow> string" where
  "orEmpty x = (if truthy x then the x else '''')"

definition change_spatial :: "Deps \<Rightarrow> Table \<Rightarrow> TableColumn \<Rightarrow> TableColumn \<Rightarrow> CPlan \<Rightarrow> CPlan" where
  "change_spatial deps table oldColumn newColumn p =
     (if toLowerCase (orEmpty (col_spatialFeatureType newColumn)) \<noteq>
           toLowerCase (orEmpty (col_spatialFeatureType oldColumn)) \<or>
         col_srid newColumn \<noteq> col_srid oldColumn then
        push (alterColumn deps table (col_name newColumn) ('' TYPE '' @ pg_createFullType deps newColumn))
          (alterColumn deps table (col_name newColumn) ('' TYPE '' @ pg_createFullType deps oldColumn)) p
      else p)"

definition change_collation :: "Deps \<Rightarrow> Table \<Rightarrow> TableColumn \<Rightarrow> TableColumn \<Rightarrow> CPlan \<Rightarrow> CPlan" where
  "change_collation deps table oldColumn newColumn p =
     (if col_collation newColumn \<noteq> col_collation oldColumn then
        (let oldCollation = (if truthy (col_collation oldColumn)
                             then quoted (the (col_collation oldColumn))
                             else ''pg_catalog.'' @ quoted ''default'')
         in push (alterColumn deps table (col_name newColumn)
                    ('' TYPE '' @ col_type newColumn @ '' COLLATE '' @
                       quoted (tpl (col_collation newColumn))))
              (alterColumn deps table (col_name newColumn)
                    ('' TYPE '' @ col_type newColumn @ '' COLLATE '' @ oldCollation)) p)
      else p)"

text \<open>
  A change of \<^verbatim>\<open>generatedType\<close> to a column that is not stored: the column is made anew
  and takes the values of the old one. There are five up and three down statements.
\<close>

definition change_generatedType ::
  "Deps \<Rightarrow> Env \<Rightarrow> Table \<Rightarrow> TableColumn \<Rightarrow> TableColumn \<Rightarrow> CPlan \<Rightarrow> CPlan action" where
  "change_generatedType deps env table oldColumn newColumn p =
     (if col_generatedType newColumn \<noteq> col_generatedType oldColumn \<and>
         (\<not> truthy (col_generatedType newColumn) \<or> col_generatedType newColumn = Some ''VIRTUAL'') then
        andThen (getTableNameWithSchema env (tbl_name table)) (\<lambda>tableNameWithSchema.
          ret (p\<lparr>plan_up := plan_up p @
                  [alterTable deps table ('' RENAME COLUMN '' @ quoted (col_name oldColumn) @ '' TO '' @
                     quoted (''TEMP_OLD_'' @ col_name oldColumn)),
                   alterTable deps table ('' ADD '' @ buildCreateColumnSql deps table newColumn),
                   newQuery (''UPDATE '' @ escapePath deps (targetOf table) @ '' SET '' @
                     quoted (col_name newColumn) @ '' = '' @ quoted (''TEMP_OLD_'' @ col_name oldColumn)),
                   alterTable deps table ('' DROP COLUMN '' @ quoted (''TEMP_OLD_'' @ col_name oldColumn)),
                   deleteTypeormMetadataSql deps
                     (generatedColumnArgs deps tableNameWithSchema (col_name oldColumn) None)],
                plan_down := plan_down p @
                  [insertTypeormMetadataSql deps
                     (generatedColumnArgs deps tableNameWithSchema (col_name oldColumn)
                        (col_asExpression oldColumn)),
                   alterTable deps table ('' ADD '' @ buildCreateColumnSql deps table oldColumn),
                   alterTable deps table ('' DROP COLUMN '' @ quoted (col_name newColumn))]\<rparr>))
      else ret p)"

text \<open>The blocks of \<^verbatim>\<open>changeColumn\<close> after the renaming, in their order.\<close>

definition changeColumn_changes ::
  "Deps \<Rightarrow> Env \<Rightarrow> Table \<Rightarrow> TableColumn \<Rightarrow> TableColumn \<Rightarrow> CPlan \<Rightarrow> CPlan action" where
  "changeColumn_changes deps env table oldColumn newColumn p =
     andThen (change_enum deps table oldColumn newColumn
                (change_precision deps table oldColumn newColumn p)) (\<lambda>p.
     andThen (change_primary deps table oldColumn newColumn
                (change_comment deps table oldColumn newColumn
                  (change_nullable deps table oldColumn newColumn p))) (\<lambda>p.
     andThen (change_unique deps table oldColumn newColumn p) (\<lambda>p.
       change_generatedType deps env table oldColumn newColumn
         (change_collation deps table oldColumn newColumn
           (change_spatial deps table oldColumn newColumn
             (change_default deps table oldColumn newColumn
               (change_generated deps table oldColumn newColumn p)))))))"

text \<open>
  The old column of \<^verbatim>\<open>changeColumn\<close> is an object: the one given, or the column of this
  name of the table itself.
\<close>

definition changeColumn_find :: "nat \<Rightarrow> nat ColumnArg \<Rightarrow> nat action" where
  "changeColumn_find table oldTableColumnOrName = (\<lambda>rs.
     case oldTableColumnOrName of
       ColumnInstance oldColumn \<Rightarrow> (Inr oldColumn, rs)
     | ColumnByName name \<Rightarrow>
         (case find (\<lambda>a. col_name (heap rs ! a) = name) (tbl_columns (tables rs ! table)) of
            Some oldColumn \<Rightarrow> (Inr oldColumn, rs)
          | None \<Rightarrow>
              throw (TypeORMError (''Column '' @ quoted name @ '' was not found in the '' @
                quoted (tbl_name (tables rs ! table)) @ '' table.'')) rs))"

text \<open>\<^verbatim>\<open>oldColumn.name = newColumn.name\<close>\<close>

definition setColumnName :: "nat \<Rightarrow> string \<Rightarrow> unit action" where
  "setColumnName oldColumn name =
     modify (\<lambda>rs. rs\<lparr>heap := (heap rs)[oldColumn := (heap rs ! oldColumn)\<lparr>col_name := name\<rparr>]\<rparr>)"

text \<open>
  The branch that changes the column in place: the renaming, which ends with the new
  name written to the old column, and then the other blocks, which read the table and
  the old column as they are then.
\<close>

definition changeColumn_inPlace ::
  "Deps \<Rightarrow> Env \<Rightarrow> nat \<Rightarrow> nat \<Rightarrow> TableColumn \<Rightarrow> CPlan \<Rightarrow> CPlan action" where
  "changeColumn_inPlace deps env table oldColumn newColumn p = (\<lambda>rs.
     andThen
       (if col_name (heap rs ! oldColumn) \<noteq> col_name newColumn then
          andThen (changeColumn_rename deps env (tableAt rs table) (heap rs ! oldColumn) newColumn p)
            (\<lambda>p. andThen (setColumnName oldColumn (col_name newColumn)) (\<lambda>_. ret p))
        else ret p)
       (\<lambda>p. (\<lambda>rs. changeColumn_changes deps env (tableAt rs table) (heap rs ! oldColumn)
                    newColumn p rs)) rs)"

definition changeColumn ::
  "Deps \<Rightarrow> Env \<Rightarrow> TableArg \<Rightarrow> nat ColumnArg \<Rightarrow> TableColumn \<Rightarrow> unit action" where
  "changeColumn deps env tableOrName oldTableColumnOrName newColumn =
     andThen (resolveTable deps env tableOrName) (\<lambda>table.
     andThen (clone table) (\<lambda>clonedTable.
     andThen (changeColumn_find table oldTableColumnOrName) (\<lambda>oldColumn. (\<lambda>rs.
       if changeColumn_recreates (heap rs ! oldColumn) newColumn then
         andThen (dropColumn deps env (TableInstance table)
                    (ColumnInstance (heap rs ! oldColumn))) (\<lambda>_.
         andThen (addColumn deps env (TableInstance table) newColumn) (\<lambda>_.
         andThen (clone table) (\<lambda>clonedTable.
         andThen (executeQueries env [] []) (\<lambda>_.
           replaceCachedTable table clonedTable)))) rs
       else
         andThen (changeColumn_inPlace deps env table oldColumn newColumn (newCPlan clonedTable)) (\<lambda>p.
         andThen (executeQueries env (plan_up p) (plan_down p)) (\<lambda>_.
           replaceCachedTable table (plan_table p))) rs))))"


section \<open>The store and the log of a runner\<close>

text \<open>The objects of the store and the cache; the log of the run and its mode.\<close>

definition store :: "Runner \<Rightarrow> TableColumn list \<times> TableObj list \<times> nat list" where
  "store rs = (heap rs, tables rs, loadedTables rs)"

definition journal :: "Runner \<Rightarrow> Query list \<times> Query list \<times> bool" where
  "journal rs = (upQueries rs, downQueries rs, sqlMemoryMode rs)"

text \<open>An action preserves a part of the state when it ends, well or not, with this part as it was.\<close>

definition preserves :: "(Runner \<Rightarrow> 'b) \<Rightarrow> 'a action \<Rightarrow> bool" where
  "preserves part m = (\<forall>rs. part (snd (m rs)) = part rs)"

text \<open>An action that ends in an error.\<close>

definition failed :: "(RunnerError + 'a) \<times> Runner \<Rightarrow> bool" where
  "failed r = isl (fst r)"


section \<open>The change of an enum type, as specified\<close>

text \<open>
  The six steps in the words of the specification: the old type is renamed to the name
  with \<^verbatim>\<open>_old\<close>, the new type is created, the default is dropped if there is one, the
  column is cast through text to the new type, the default of the new column is set if
  there is one, and the renamed old type is dropped.
\<close>

definition spec_createType :: "string \<Rightarrow> string list \<Rightarrow> Query" where
  "spec_createType name vs =
     newQuery (''CREATE TYPE '' @ name @ '' AS ENUM('' @
       join_js '', '' (map (\<lambda>v. sq @ doubleQuotes v @ sq) vs) @ '')'')"

definition spec_castTo :: "TableColumn \<Rightarrow> string \<Rightarrow> string" where
  "spec_castTo newColumn typeName =
     (let t = typeName @ (if col_isArray newColumn then ''[]'' else '''')
      in '' TYPE '' @ t @ '' USING '' @ quoted (col_name newColumn) @ ''::'' @ quoted ''text'' @
         ''::'' @ t)"

definition spec_enumChange_up ::
  "Deps \<Rightarrow> Table \<Rightarrow> TableColumn \<Rightarrow> TableColumn \<Rightarrow> string list \<Rightarrow> Query list" where
  "spec_enumChange_up deps table oldColumn newColumn newValues =
     [newQuery (''ALTER TYPE '' @ buildEnumName deps table oldColumn True False False @
        '' RENAME TO '' @ buildEnumName deps table oldColumn False False True),
      spec_createType (buildEnumName deps table newColumn True False False) newValues] @
     (if isSet (col_default oldColumn)
      then [alterColumn deps table (col_name oldColumn) '' DROP DEFAULT''] else []) @
     [alterColumn deps table (col_name newColumn)
        (spec_castTo newColumn (buildEnumName deps table newColumn True False False))] @
     (if isSet (col_default newColumn)
      then [alterColumn deps table (col_name newColumn)
              ('' SET DEFAULT '' @ tpl_nullable (col_default newColumn))] else []) @
     [newQuery (''DROP TYPE '' @ buildEnumName deps table oldColumn True False True)]"

text \<open>The inverse of each of the steps, step by step.\<close>

definition spec_enumChange_down ::
  "Deps \<Rightarrow> Table \<Rightarrow> TableColumn \<Rightarrow> TableColumn \<Rightarrow> string list \<Rightarrow> Query list" where
  "spec_enumChange_down deps table oldColumn newColumn oldValues =
     [newQuery (''ALTER TYPE '' @ buildEnumName deps table oldColumn True False True @
        '' RENAME TO '' @ buildEnumName deps table oldColumn False False False),
      newQuery (''DROP TYPE '' @ buildEnumName deps table newColumn True False False)] @
     (if isSet (col_default oldColumn)
      then [alterColumn deps table (col_name oldColumn)
              ('' SET DEFAULT '' @ tpl_nullable (col_default oldColumn))] else []) @
     [alterColumn deps table (col_name newColumn)
        (spec_castTo newColumn (buildEnumName deps table oldColumn True False True))] @
     (if isSet (col_default newColumn)
      then [alterColumn deps table (col_name newColumn) '' DROP DEFAULT''] else []) @
     [spec_createType (buildEnumName deps table oldColumn True False True) oldValues]"

text \<open>The new column differs from the old one in its values, the name of its type and its default only.\<close>

definition sameButEnum :: "TableColumn \<Rightarrow> TableColumn \<Rightarrow> bool" where
  "sameButEnum oldColumn newColumn =
     (newColumn = oldColumn\<lparr>col_enum := col_enum newColumn, col_enumName := col_enumName newColumn,
                            col_default := col_default newColumn\<rparr>)"


section \<open>Sample collaborators\<close>










text \<open>
  The table user with a unique constraint, an index and a foreign key named by the
  naming strategy, and one of each with a name of its own.
\<close>

definition user_Table :: Table where
  "user_Table =
     \<lparr>tbl_name = ''user'', tbl_schema = None, tbl_database = None, tbl_comment = None,
      tbl_columns = [title_TableColumn\<lparr>col_name := ''id'', col_type := ''int'', col_length := [],
                       col_isPrimary := True, col_isNullable := False\<rparr>,
                     title_TableColumn\<lparr>col_name := ''email''\<rparr>,
                     title_TableColumn\<lparr>col_name := ''groupId'', col_type := ''int'', col_length := []\<rparr>],
      tbl_uniques = [\<lparr>uq_name = Some ''UQ_user_email'', uq_columnNames = [''email''],
                       uq_deferrable = None\<rparr>,
                     \<lparr>uq_name = Some ''UQ_custom'', uq_columnNames = [''email'', ''groupId''],
                       uq_deferrable = None\<rparr>],
      tbl_indices = [\<lparr>idx_name = Some ''my_index'', idx_columnNames = [''email''], idx_where = None,
                       idx_isUnique = False, idx_isSpatial = False, idx_isConcurrent = False,
                       idx_isFulltext = False\<rparr>,
                     \<lparr>idx_name = Some ''IDX_user_groupId'', idx_columnNames = [''groupId''],
                       idx_where = None, idx_isUnique = False, idx_isSpatial = False,
                       idx_isConcurrent = False, idx_isFulltext = False\<rparr>],
      tbl_foreignKeys = [\<lparr>fk_name = Some ''FK_user_groupId'', fk_columnNames = [''groupId''],
                           fk_referencedColumnNames = [''id''], fk_referencedTableName = ''group'',
                           fk_referencedSchema = None, fk_referencedDatabase = None,
                           fk_onDelete = None, fk_onUpdate = None, fk_deferrable = None\<rparr>,
                         \<lparr>fk_name = Some ''fk_owner'', fk_columnNames = [''id''],
                           fk_referencedColumnNames = [''id''], fk_referencedTableName = ''owner'',
                           fk_referencedSchema = None, fk_referencedDatabase = None,
                           fk_onDelete = None, fk_onUpdate = None, fk_deferrable = None\<rparr>],
      tbl_checks = [], tbl_exclusions = []\<rparr>"

text \<open>
  A runner in the memory mode whose store holds the table user and its columns and whose
  cache holds the table.
\<close>

definition user_Runner :: Runner where
  "user_Runner = new_Runner\<lparr>heap := tbl_columns user_Table, tables := [objectOf user_Table 0],
                            loadedTables := [0], sqlMemoryMode := True\<rparr>"

text \<open>The same runner with statements executed, and a database that refuses the statements
  with a given beginning.\<close>

definition live_Runner :: Runner where
  "live_Runner = user_Runner\<lparr>sqlMemoryMode := False\<rparr>"

definition refusing_Env :: "string \<Rightarrow> Env" where
  "refusing_Env beginning = quiet_Env\<lparr>driver_query := (\<lambda>_ q _.
     if take (length beginning) q = beginning then Inl ''refused''
     else Inr (Some \<lparr>rows = Some [], rowCount = Null, command = None\<rparr>))\<rparr>"

text \<open>The column email as a text, and as a column that may not be null.\<close>

definition email_text :: TableColumn where
  "email_text = title_TableColumn\<lparr>col_name := ''email'', col_type := ''text''\<rparr>"

definition email_required :: TableColumn where
  "email_required = title_TableColumn\<lparr>col_name := ''email'', col_isNullable := False\<rparr>"


section \<open>Facts about strings\<close>

lemma char_of_39: "char_of (39::nat) = CHR 0x27"
  by code_simp

lemma of_char_toLowerCase_char:
  "(of_char (toLowerCase_char c) :: nat) =
     (if 65 \<le> (of_char c :: nat) \<and> (of_char c :: nat) \<le> 90 then of_char c + 32 else of_char c)"
  by (simp add: toLowerCase_char_def)

lemma toLowerCase_char_idem: "toLowerCase_char (toLowerCase_char c) = toLowerCase_char c"
  by (simp add: toLowerCase_char_def)

lemma toLowerCase_char_quote: "toLowerCase_char c = CHR 0x27 \<longleftrightarrow> c = CHR 0x27"
proof
  assume "toLowerCase_char c = CHR 0x27"
  then have "(of_char (toLowerCase_char c) :: nat) = of_char (CHR 0x27)"
    by simp
  then have "(of_char c :: nat) = 39"
    by (simp add: of_char_toLowerCase_char split: if_splits)
  then have "char_of (of_char c :: nat) = (char_of (39::nat) :: char)"
    by simp
  then show "c = CHR 0x27"
    by (simp add: char_of_39)
next
  assume "c = CHR 0x27"
  then show "toLowerCase_char c = CHR 0x27"
    by (simp add: toLowerCase_char_def)
qed

lemma toLowerCase_idem: "toLowerCase (toLowerCase s) = toLowerCase s"
  by (simp add: toLowerCase_def toLowerCase_char_idem)

lemma toLowerCase_quote_free: "CHR 0x27 \<in> set (toLowerCase s) \<longleftrightarrow> CHR 0x27 \<in> set s"
proof (induction s)
  case Nil
  then show ?case by (simp add: toLowerCase_def)
next
  case (Cons c cs)
  have "CHR 0x27 = toLowerCase_char c \<longleftrightarrow> CHR 0x27 = c"
    using toLowerCase_char_quote [of c] by auto
  with Cons show ?case by (simp add: toLowerCase_def)
qed

lemma split_js_not_Nil: "split_js sep s \<noteq> []"
  by (induction s) (auto split: list.splits)

lemma split_js_sep_free: "x \<in> set (split_js sep s) \<Longrightarrow> sep \<notin> set x"
proof (induction s arbitrary: x)
  case Nil
  then show ?case by simp
next
  case (Cons c cs)
  obtain p ps where ps: "split_js sep cs = p # ps"
    using split_js_not_Nil [of sep cs] by (cases "split_js sep cs") auto
  show ?case
  proof (cases "c = sep")
    case True
    with Cons show ?thesis by auto
  next
    case False
    with Cons.prems ps have "x = c # p \<or> x \<in> set ps" by simp
    then show ?thesis
    proof
      assume "x = c # p"
      moreover have "sep \<notin> set p" using Cons.IH [of p] ps by simp
      ultimately show ?thesis using False by auto
    next
      assume "x \<in> set ps"
      then show ?thesis using Cons.IH [of x] ps by simp
    qed
  qed
qed

lemma join_split_js: "join_js [sep] (split_js sep s) = s"
proof (induction s)
  case Nil
  then show ?case by simp
next
  case (Cons c cs)
  obtain p ps where ps: "split_js sep cs = p # ps"
    using split_js_not_Nil [of sep cs] by (cases "split_js sep cs") auto
  show ?case
  proof (cases "c = sep")
    case True
    with Cons ps show ?thesis by simp
  next
    case False
    with Cons ps show ?thesis by (cases ps) auto
  qed
qed

lemma split_js_no_sep: "sep \<notin> set x \<Longrightarrow> split_js sep x = [x]"
  by (induction x) (auto split: list.splits)

lemma split_js_append_sep:
  "sep \<notin> set x \<Longrightarrow> split_js sep (x @ sep # rest) = x # split_js sep rest"
  by (induction x) (auto split: list.splits)

lemma split_join_js:
  "xs \<noteq> [] \<Longrightarrow> (\<And>x. x \<in> set xs \<Longrightarrow> sep \<notin> set x) \<Longrightarrow> split_js sep (join_js [sep] xs) = xs"
proof (induction xs)
  case Nil
  then show ?case by simp
next
  case (Cons x xs)
  show ?case
  proof (cases xs)
    case Nil
    with Cons.prems show ?thesis by (simp add: split_js_no_sep)
  next
    case (Cons y ys)
    have "split_js sep (join_js [sep] xs) = xs"
      using Cons.IH Cons.prems Cons by simp
    moreover have "sep \<notin> set x"
      using Cons.prems by simp
    ultimately show ?thesis
      using Cons by (simp add: split_js_append_sep)
  qed
qed


lemma length_mapi_js: "length (mapi_js f xs) = length xs"
  by (simp add: mapi_js_def)

lemma nth_mapi_js: "i < length xs \<Longrightarrow> mapi_js f xs ! i = f (xs ! i) i"
  by (simp add: mapi_js_def nth_enumerate_eq)

lemma set_mapi_js: "y \<in> set (mapi_js f xs) \<Longrightarrow> \<exists>i < length xs. y = f (xs ! i) i"
  by (metis in_set_conv_nth length_mapi_js nth_mapi_js)

lemma mapi_js_lower_idem:
  "mapi_js lowerPart
     (mapi_js lowerPart xs) =
   mapi_js lowerPart xs"
  by (rule nth_equalityI) (simp_all add: length_mapi_js nth_mapi_js lowerPart_def toLowerCase_idem)

lemma mapi_js_lower_quote_free:
  assumes "\<And>x. x \<in> set xs \<Longrightarrow> CHR 0x27 \<notin> set x"
    and "y \<in> set (mapi_js lowerPart xs)"
  shows "CHR 0x27 \<notin> set y"
proof -
  obtain i where i: "i < length xs"
    and y: "y = lowerPart (xs ! i) i"
    using set_mapi_js [OF assms(2)] by auto
  have "CHR 0x27 \<notin> set (xs ! i)"
    using assms(1) i by simp
  then show ?thesis
    using y by (simp add: lowerPart_def toLowerCase_quote_free)
qed

lemma split_lowered_parts:
  "split_js (CHR 0x27)
     (join_js sq (mapi_js lowerPart (split_js (CHR 0x27) s))) =
   mapi_js lowerPart (split_js (CHR 0x27) s)"
  unfolding sq_def
proof (rule split_join_js)
  show "mapi_js lowerPart (split_js (CHR 0x27) s) \<noteq> []"
    using split_js_not_Nil [of "CHR 0x27" s] length_mapi_js
    by (metis length_0_conv)
next
  fix x
  assume "x \<in> set (mapi_js lowerPart (split_js (CHR 0x27) s))"
  then show "CHR 0x27 \<notin> set x"
    by (rule mapi_js_lower_quote_free [rotated]) (rule split_js_sep_free)
qed


section \<open>Default-value normalization\<close>

lemma lowerDefaultValueIfNecessary_example:
  "lowerDefaultValueIfNecessary (Defined (''GetDate() + '' @ sq @ ''Ab C'' @ sq @ '' + X'')) =
     Defined (''getdate() + '' @ sq @ ''Ab C'' @ sq @ '' + x'')"
  by code_simp

text \<open>
  C9. Lower-casing a default value twice is the same as lower-casing it once, for every
  value (a string, \<^verbatim>\<open>undefined\<close> or \<^verbatim>\<open>null\<close>). For a string the result is again a
  string; split at the single quotes it has the parts of the input, those at odd
  positions (inside the quotes) unchanged and those at even positions lower-cased.
\<close>

theorem lowerDefaultValueIfNecessary_idempotent:
  "lowerDefaultValueIfNecessary (lowerDefaultValueIfNecessary v) = lowerDefaultValueIfNecessary v \<and>
   (\<exists>r. lowerDefaultValueIfNecessary (Defined s) = Defined r \<and>
        split_js (CHR 0x27) r =
          mapi_js lowerPart (split_js (CHR 0x27) s))"
proof
  show "lowerDefaultValueIfNecessary (lowerDefaultValueIfNecessary v) = lowerDefaultValueIfNecessary v"
  proof (cases v)
    case (Defined t)
    then show ?thesis
      by (simp add: lowerDefaultValueIfNecessary_def split_lowered_parts mapi_js_lower_idem)
  qed (simp_all add: lowerDefaultValueIfNecessary_def)
next
  show "\<exists>r. lowerDefaultValueIfNecessary (Defined s) = Defined r \<and>
        split_js (CHR 0x27) r =
          mapi_js lowerPart (split_js (CHR 0x27) s)"
  proof (cases "s = []")
    case True
    then show ?thesis
      by (simp add: lowerDefaultValueIfNecessary_def mapi_js_def lowerPart_def toLowerCase_def)
  next
    case False
    then show ?thesis
      by (simp add: lowerDefaultValueIfNecessary_def split_lowered_parts)
  qed
qed

theorem lowerDefaultValueIfNecessary_idempotent_witness:
  "lowerDefaultValueIfNecessary
     (lowerDefaultValueIfNecessary (Defined (''GetDate() + '' @ sq @ ''Ab C'' @ sq @ '' + X''))) =
   Defined (''getdate() + '' @ sq @ ''Ab C'' @ sq @ '' + x'')"
  using lowerDefaultValueIfNecessary_idempotent
          [of "Defined (''GetDate() + '' @ sq @ ''Ab C'' @ sq @ '' + X'')" "[]"]
  by (simp only: lowerDefaultValueIfNecessary_example)


section \<open>Table names\<close>

lemma split_three_parts:
  assumes "CHR ''.'' \<notin> set a" "CHR ''.'' \<notin> set b" "CHR ''.'' \<notin> set c"
  shows "split_js (CHR ''.'') (a @ ''.'' @ b @ ''.'' @ c) = [a, b, c]"
  using assms by (simp add: split_js_append_sep split_js_no_sep)

lemma split_two_parts:
  assumes "CHR ''.'' \<notin> set a" "CHR ''.'' \<notin> set b"
  shows "split_js (CHR ''.'') (a @ ''.'' @ b) = [a, b]"
  using assms by (simp add: split_js_append_sep split_js_no_sep)

text \<open>
  C10. For a table name, a schema and a database that are not empty and have no dot,
  parsing the built name gives back the three of them. A string is parsed by its parts
  between the dots: one part is the table name, with the database and the schema of the
  driver; of two parts the first is the schema, as it is and also when it is empty, with
  the database of the driver; of three parts the first is the database and the second
  the schema, and the driver's database or schema stands in for a part that is empty.
  So a schema or a database left out of the built name is filled from the driver.
\<close>

theorem parseTableName_buildTableName:
  assumes "t \<noteq> []" "s \<noteq> []" "d \<noteq> []"
    and "CHR ''.'' \<notin> set t" "CHR ''.'' \<notin> set s" "CHR ''.'' \<notin> set d"
    and "CHR ''.'' \<notin> set a" "CHR ''.'' \<notin> set b" "CHR ''.'' \<notin> set c"
  shows "parseTableName driver (TargetString (buildTableName t (Some s) (Some d))) =
           \<lparr>database = Some d, schema = Some s, tableName = t\<rparr> \<and>
         parseTableName driver (TargetString (buildTableName t None (Some d))) =
           \<lparr>database = Some d, schema = drv_schema driver, tableName = t\<rparr> \<and>
         parseTableName driver (TargetString (buildTableName t (Some s) None)) =
           \<lparr>database = drv_database driver, schema = Some s, tableName = t\<rparr> \<and>
         parseTableName driver (TargetString (buildTableName t None None)) =
           \<lparr>database = drv_database driver, schema = drv_schema driver, tableName = t\<rparr> \<and>
         parseTableName driver (TargetString c) =
           \<lparr>database = drv_database driver, schema = drv_schema driver, tableName = c\<rparr> \<and>
         parseTableName driver (TargetString (b @ ''.'' @ c)) =
           \<lparr>database = drv_database driver, schema = Some b, tableName = c\<rparr> \<and>
         parseTableName driver (TargetString (a @ ''.'' @ b @ ''.'' @ c)) =
           \<lparr>database = (if a = [] then drv_database driver else Some a),
            schema = (if b = [] then drv_schema driver else Some b), tableName = c\<rparr>"
proof (intro conjI)
  have "split_js (CHR ''.'') (buildTableName t (Some s) (Some d)) = [d, s, t]"
    using assms split_three_parts [of d s t] by (simp add: buildTableName_def)
  then show "parseTableName driver (TargetString (buildTableName t (Some s) (Some d))) =
           \<lparr>database = Some d, schema = Some s, tableName = t\<rparr>"
    using assms by (simp add: parseTableName_string_def or_js_def)
next
  have "split_js (CHR ''.'') (buildTableName t None (Some d)) = [d, [], t]"
    using assms split_three_parts [of d "[]" t] by (simp add: buildTableName_def)
  then show "parseTableName driver (TargetString (buildTableName t None (Some d))) =
           \<lparr>database = Some d, schema = drv_schema driver, tableName = t\<rparr>"
    using assms by (simp add: parseTableName_string_def or_js_def)
next
  have "split_js (CHR ''.'') (buildTableName t (Some s) None) = [s, t]"
    using assms split_two_parts [of s t] by (simp add: buildTableName_def)
  then show "parseTableName driver (TargetString (buildTableName t (Some s) None)) =
           \<lparr>database = drv_database driver, schema = Some s, tableName = t\<rparr>"
    using assms by (simp add: parseTableName_string_def)
next
  have "buildTableName t None None = t"
    by (simp add: buildTableName_def)
  then show "parseTableName driver (TargetString (buildTableName t None None)) =
           \<lparr>database = drv_database driver, schema = drv_schema driver, tableName = t\<rparr>"
    using assms by (simp add: parseTableName_string_def split_js_no_sep)
next
  show "parseTableName driver (TargetString c) =
           \<lparr>database = drv_database driver, schema = drv_schema driver, tableName = c\<rparr>"
    using assms by (simp add: parseTableName_string_def split_js_no_sep)
next
  have "split_js (CHR ''.'') (b @ ''.'' @ c) = [b, c]"
    using assms by (intro split_two_parts)
  then show "parseTableName driver (TargetString (b @ ''.'' @ c)) =
           \<lparr>database = drv_database driver, schema = Some b, tableName = c\<rparr>"
    by (simp add: parseTableName_string_def)
next
  have "split_js (CHR ''.'') (a @ ''.'' @ b @ ''.'' @ c) = [a, b, c]"
    using assms by (intro split_three_parts)
  then show "parseTableName driver (TargetString (a @ ''.'' @ b @ ''.'' @ c)) =
           \<lparr>database = (if a = [] then drv_database driver else Some a),
            schema = (if b = [] then drv_schema driver else Some b), tableName = c\<rparr>"
    by (cases a; cases b) (simp_all add: parseTableName_string_def or_js_def)
qed

theorem parseTableName_buildTableName_witness:
  "parseTableName \<lparr>drv_database = Some ''master'', drv_schema = Some ''dbo'', drv_searchSchema = Some ''dbo''\<rparr>
     (TargetString (buildTableName ''post'' (Some ''blog'') (Some ''app''))) =
     \<lparr>database = Some ''app'', schema = Some ''blog'', tableName = ''post''\<rparr> \<and>
   buildTableName ''post'' (Some ''blog'') (Some ''app'') = ''app.blog.post'' \<and>
   parseTableName \<lparr>drv_database = Some ''master'', drv_schema = Some ''dbo'', drv_searchSchema = Some ''dbo''\<rparr>
     (TargetString (buildTableName ''post'' None (Some ''app''))) =
     \<lparr>database = Some ''app'', schema = Some ''dbo'', tableName = ''post''\<rparr> \<and>
   buildTableName ''post'' None (Some ''app'') = ''app..post'' \<and>
   parseTableName \<lparr>drv_database = Some ''master'', drv_schema = Some ''dbo'', drv_searchSchema = Some ''dbo''\<rparr>
     (TargetString ''.blog.post'') =
     \<lparr>database = Some ''master'', schema = Some ''blog'', tableName = ''post''\<rparr>"
  using parseTableName_buildTableName [of "''post''" "''blog''" "''app''" "[]" "''blog''" "''post''"
      "\<lparr>drv_database = Some ''master'', drv_schema = Some ''dbo'', drv_searchSchema = Some ''dbo''\<rparr>"]
  by (simp add: buildTableName_def)

text \<open>
  A string of two parts whose first part is empty has the empty string as its schema, not
  the schema of the driver.
\<close>

theorem empty_schema_part_is_kept:
  "parseTableName \<lparr>drv_database = Some ''master'', drv_schema = Some ''dbo'', drv_searchSchema = Some ''dbo''\<rparr>
     (TargetString ''.post'') =
     \<lparr>database = Some ''master'', schema = Some [], tableName = ''post''\<rparr> \<and>
   schema (parseTableName \<lparr>drv_database = Some ''master'', drv_schema = Some ''dbo'', drv_searchSchema = Some ''dbo''\<rparr>
     (TargetString ''.post'')) \<noteq> Some ''dbo''"
  by code_simp


section \<open>Statements of the query runner\<close>

lemma query_released:
  "isReleased rs \<Longrightarrow> query env q ps st rs = (Inl QueryRunnerAlreadyReleasedError, rs)"
  by (simp add: query_def)

lemma query_driver_error:
  assumes "\<not> isReleased rs"
    and "databaseConnection rs \<or> connect_fails env = None"
    and "logger_fails env ''logQuery'' = None"
    and "broadcast_fails env ''BeforeQuery'' = None"
    and "driver_query env (sent rs) q ps = Inl err"
    and "logger_fails env ''logQueryError'' = None"
    and "broadcast_fails env ''AfterQuery'' = None"
    and "broadcast_fails env ''AfterQueryWait'' = None"
  shows "query env q ps st rs =
           (Inl (QueryFailedError q ps err),
            rs\<lparr>databaseConnection := True, sent := sent rs @ [(q, ps)]\<rparr>)"
  using assms
  by (auto simp: query_def query_try_def query_catch_def query_finally_def andThen_def
      connect_def logger_def broadcast_def ret_def)

lemma query_driver_result:
  assumes "\<not> isReleased rs"
    and "databaseConnection rs \<or> connect_fails env = None"
    and "logger_fails env ''logQuery'' = None"
    and "broadcast_fails env ''BeforeQuery'' = None"
    and "driver_query env (sent rs) q ps = Inr r"
    and "broadcast_fails env ''AfterQuery'' = None"
    and "query_is_slow env q \<longrightarrow> logger_fails env ''logQuerySlow'' = None"
    and "broadcast_fails env ''AfterQueryWait'' = None"
  shows "query env q ps st rs =
           (Inr (normalizeResult r st),
            rs\<lparr>databaseConnection := True, sent := sent rs @ [(q, ps)]\<rparr>)"
  using assms
  by (auto simp: query_def query_try_def query_finally_def andThen_def connect_def logger_def
      broadcast_def ret_def)

text \<open>
  When the promise \<^verbatim>\<open>broadcasterResult.wait()\<close> is rejected after the driver has failed,
  its error is thrown in place of the QueryFailedError.
\<close>

lemma query_wait_rejected:
  assumes "\<not> isReleased rs"
    and "databaseConnection rs \<or> connect_fails env = None"
    and "logger_fails env ''logQuery'' = None"
    and "broadcast_fails env ''BeforeQuery'' = None"
    and "broadcast_fails env ''AfterQueryWait'' = Some e"
  shows "fst (query env q ps st rs) = Inl (CollaboratorError e)"
  using assms
  by (auto simp: query_def query_try_def query_finally_def andThen_def connect_def logger_def
      broadcast_def ret_def Let_def split: sum.splits option.splits)

text \<open>
  C7. Once the runner is released, \<open>query\<close> fails with QueryRunnerAlreadyReleasedError and
  leaves the state as it is: no statement is sent. When the runner is not released, the
  driver fails on the statement, and neither the logger nor the broadcaster fails in its
  turn (before the statement, in the \<^verbatim>\<open>catch\<close> block and in the \<^verbatim>\<open>finally\<close> block), \<open>query\<close>
  fails with a QueryFailedError that holds the statement, its parameters and the error
  of the driver, after the statement was handed to the driver once.
\<close>

theorem query_errors:
  "isReleased (release rs) \<and>
   query env q ps st (release rs) = (Inl QueryRunnerAlreadyReleasedError, release rs) \<and>
   (isReleased rs \<longrightarrow> query env q ps st rs = (Inl QueryRunnerAlreadyReleasedError, rs)) \<and>
   (\<not> isReleased rs \<longrightarrow> (databaseConnection rs \<or> connect_fails env = None) \<longrightarrow>
      logger_fails env ''logQuery'' = None \<longrightarrow>
      broadcast_fails env ''BeforeQuery'' = None \<longrightarrow>
      driver_query env (sent rs) q ps = Inl err \<longrightarrow>
      logger_fails env ''logQueryError'' = None \<longrightarrow>
      broadcast_fails env ''AfterQuery'' = None \<longrightarrow>
      broadcast_fails env ''AfterQueryWait'' = None \<longrightarrow>
      query env q ps st rs =
        (Inl (QueryFailedError q ps err),
         rs\<lparr>databaseConnection := True, sent := sent rs @ [(q, ps)]\<rparr>))"
proof (intro conjI impI)
  show released: "isReleased (release rs)"
    by (simp add: release_def)
  show "query env q ps st (release rs) = (Inl QueryRunnerAlreadyReleasedError, release rs)"
    using released by (rule query_released)
next
  assume "isReleased rs"
  then show "query env q ps st rs = (Inl QueryRunnerAlreadyReleasedError, rs)"
    by (rule query_released)
next
  assume "\<not> isReleased rs" "databaseConnection rs \<or> connect_fails env = None"
    "logger_fails env ''logQuery'' = None"
    "broadcast_fails env ''BeforeQuery'' = None" "driver_query env (sent rs) q ps = Inl err"
    "logger_fails env ''logQueryError'' = None" "broadcast_fails env ''AfterQuery'' = None"
    "broadcast_fails env ''AfterQueryWait'' = None"
  then show "query env q ps st rs =
        (Inl (QueryFailedError q ps err),
         rs\<lparr>databaseConnection := True, sent := sent rs @ [(q, ps)]\<rparr>)"
    by (rule query_driver_error)
qed

theorem query_errors_witness:
  "query quiet_Env ''SELECT 1'' (Some [''7'']) False (release new_Runner) =
     (Inl QueryRunnerAlreadyReleasedError, release new_Runner) \<and>
   sent (release new_Runner) = [] \<and>
   fst (query (quiet_Env\<lparr>driver_query := (\<lambda>_ _ _. Inl ''syntax error'')\<rparr>)
          ''SELEC 1'' (Some [''7'']) False new_Runner) =
     Inl (QueryFailedError ''SELEC 1'' (Some [''7'']) ''syntax error'')"
  using query_errors [of new_Runner quiet_Env "''SELECT 1''" "Some [''7'']" False]
    query_errors [of new_Runner "quiet_Env\<lparr>driver_query := (\<lambda>_ _ _. Inl ''syntax error'')\<rparr>"
      "''SELEC 1''" "Some [''7'']" False "''syntax error''"]
  by (simp add: new_Runner_def quiet_Env_def release_def)

text \<open>
  C8. When the driver answers a statement with a result object, the structured result of
  \<open>query\<close> has as its raw payload the pair of the rows and the row count for the commands
  DELETE and UPDATE, and the rows alone for every other command; its records are the rows
  and its affected count is the row count whenever the result object has them. Without
  the structured result, \<open>query\<close> returns the raw payload itself.
\<close>

theorem query_result_shape:
  assumes "\<not> isReleased rs"
    and "databaseConnection rs \<or> connect_fails env = None"
    and "logger_fails env ''logQuery'' = None"
    and "broadcast_fails env ''BeforeQuery'' = None"
    and "driver_query env (sent rs) q ps = Inr (Some r)"
    and "broadcast_fails env ''AfterQuery'' = None"
    and "query_is_slow env q \<longrightarrow> logger_fails env ''logQuerySlow'' = None"
    and "broadcast_fails env ''AfterQueryWait'' = None"
    and "payload = (if command r = Some ''DELETE'' \<or> command r = Some ''UPDATE''
                    then RawRowsAndCount (rows r) (rowCount r) else RawRows (rows r))"
  shows "(\<exists>res. fst (query env q ps True rs) = Inr (ReturnResult res) \<and>
            raw res = Some payload \<and>
            (\<forall>x. rows r = Some x \<longrightarrow> records res = x) \<and>
            (rowCount r \<noteq> Undefined \<longrightarrow> affected res = rowCount r)) \<and>
         fst (query env q ps False rs) = Inr (ReturnRaw payload)"
  using assms
  by (auto simp: query_driver_result normalizeResult_def new_QueryResult_def Let_def
      split: option.splits)

theorem query_result_shape_witness:
  "fst (query sample_Env ''DELETE FROM post'' None True new_Runner) =
     Inr (ReturnResult \<lparr>records = [], affected = Defined 3,
            raw = Some (RawRowsAndCount (Some []) (Defined 3))\<rparr>) \<and>
   fst (query sample_Env ''DELETE FROM post'' None False new_Runner) =
     Inr (ReturnRaw (RawRowsAndCount (Some []) (Defined 3))) \<and>
   fst (query sample_Env ''SELECT id FROM post'' None True new_Runner) =
     Inr (ReturnResult \<lparr>records = [[(''id'', JsString ''1'')]], affected = Defined 1,
            raw = Some (RawRows (Some [[(''id'', JsString ''1'')]]))\<rparr>) \<and>
   fst (query sample_Env ''SELECT id FROM post'' None False new_Runner) =
     Inr (ReturnRaw (RawRows (Some [[(''id'', JsString ''1'')]])))"
  using query_result_shape [of new_Runner sample_Env "''DELETE FROM post''" None
      "\<lparr>rows = Some [], rowCount = Defined 3, command = Some ''DELETE''\<rparr>"
      "RawRowsAndCount (Some []) (Defined 3)"]
    query_result_shape [of new_Runner sample_Env "''SELECT id FROM post''" None
      "\<lparr>rows = Some [[(''id'', JsString ''1'')]], rowCount = Defined 1, command = Some ''SELECT''\<rparr>"
      "RawRows (Some [[(''id'', JsString ''1'')]])"]
  by (simp add: new_Runner_def sample_Env_def quiet_Env_def query_def query_try_def
      query_finally_def andThen_def connect_def logger_def broadcast_def ret_def
      normalizeResult_def new_QueryResult_def)


section \<open>Nested transactions\<close>

lemma toString_int_1: "toString_int 1 = ''1''"
  by code_simp

lemma toString_int_2: "toString_int 2 = ''2''"
  by code_simp

lemma query_quiet:
  assumes "connect_fails env = None"
    and "\<forall>m. logger_fails env m = None"
    and "\<forall>ev. broadcast_fails env ev = None"
    and "\<forall>h q ps. \<exists>r. driver_query env h q ps = Inr r"
    and "\<not> isReleased rs"
  shows "query env q ps st rs =
           (Inr (normalizeResult (projr (driver_query env (sent rs) q ps)) st),
            rs\<lparr>databaseConnection := True, sent := sent rs @ [(q, ps)]\<rparr>)"
proof -
  obtain r where "driver_query env (sent rs) q ps = Inr r"
    using assms(4) by blast
  then show ?thesis
    using assms by (simp add: query_driver_result)
qed

lemma startTransaction_quiet:
  assumes "connect_fails env = None"
    and "\<forall>m. logger_fails env m = None"
    and "\<forall>ev. broadcast_fails env ev = None"
    and "\<forall>h q ps. \<exists>r. driver_query env h q ps = Inr r"
    and "\<not> isReleased rs"
  shows "startTransaction env lvl rs =
           (Inr (),
            rs\<lparr>isTransactionActive := True, databaseConnection := True,
               sent := sent rs @
                 (if transactionDepth rs = 0
                  then (''START TRANSACTION'', None) #
                         (if truthy lvl then [(''SET TRANSACTION ISOLATION LEVEL '' @ the lvl, None)] else [])
                  else [(''SAVEPOINT typeorm_'' @ toString_int (transactionDepth rs), None)]),
               transactionDepth := transactionDepth rs + 1\<rparr>)"
  using assms
  by (simp add: startTransaction_def andThen_def modify_def broadcast_def ret_def query_quiet)

lemma commitTransaction_quiet:
  assumes "connect_fails env = None"
    and "\<forall>m. logger_fails env m = None"
    and "\<forall>ev. broadcast_fails env ev = None"
    and "\<forall>h q ps. \<exists>r. driver_query env h q ps = Inr r"
    and "\<not> isReleased rs"
    and "isTransactionActive rs"
  shows "commitTransaction env rs =
           (Inr (),
            rs\<lparr>isTransactionActive := (1 < transactionDepth rs), databaseConnection := True,
               sent := sent rs @
                 [(if 1 < transactionDepth rs
                   then ''RELEASE SAVEPOINT typeorm_'' @ toString_int (transactionDepth rs - 1)
                   else ''COMMIT'', None)],
               transactionDepth := transactionDepth rs - 1\<rparr>)"
  using assms
  by (simp add: commitTransaction_def andThen_def modify_def broadcast_def ret_def query_quiet)

lemma rollbackTransaction_quiet:
  assumes "connect_fails env = None"
    and "\<forall>m. logger_fails env m = None"
    and "\<forall>ev. broadcast_fails env ev = None"
    and "\<forall>h q ps. \<exists>r. driver_query env h q ps = Inr r"
    and "\<not> isReleased rs"
    and "isTransactionActive rs"
  shows "rollbackTransaction env rs =
           (Inr (),
            rs\<lparr>isTransactionActive := (1 < transactionDepth rs), databaseConnection := True,
               sent := sent rs @
                 [(if 1 < transactionDepth rs
                   then ''ROLLBACK TO SAVEPOINT typeorm_'' @ toString_int (transactionDepth rs - 1)
                   else ''ROLLBACK'', None)],
               transactionDepth := transactionDepth rs - 1\<rparr>)"
  using assms
  by (simp add: rollbackTransaction_def andThen_def modify_def broadcast_def ret_def query_quiet)

lemma three_nested_quiet:
  assumes "connect_fails env = None"
    and "\<forall>m. logger_fails env m = None"
    and "\<forall>ev. broadcast_fails env ev = None"
    and "\<forall>h q ps. \<exists>r. driver_query env h q ps = Inr r"
    and "\<not> isReleased rs"
    and "transactionDepth rs = 0"
  shows "andThen (startTransaction env None) (\<lambda>_.
         andThen (startTransaction env None) (\<lambda>_.
         andThen (startTransaction env None) (\<lambda>_.
         andThen (commitTransaction env) (\<lambda>_.
         andThen (commitTransaction env) (\<lambda>_.
         commitTransaction env))))) rs =
           (Inr (),
            rs\<lparr>isTransactionActive := False, databaseConnection := True,
               sent := sent rs @
                 [(''START TRANSACTION'', None), (''SAVEPOINT typeorm_1'', None),
                  (''SAVEPOINT typeorm_2'', None), (''RELEASE SAVEPOINT typeorm_2'', None),
                  (''RELEASE SAVEPOINT typeorm_1'', None), (''COMMIT'', None)],
               transactionDepth := 0\<rparr>)"
  using assms
  by (simp add: andThen_def startTransaction_quiet commitTransaction_quiet
      toString_int_1 toString_int_2)

text \<open>
  C4, as the runner does it. With collaborators that do not fail and a runner that is not
  released: three nested \<open>startTransaction\<close> calls and three \<open>commitTransaction\<close> calls
  from depth 0 send one START TRANSACTION, the savepoints typeorm_1 and typeorm_2, the
  release of typeorm_2 and of typeorm_1 and one COMMIT, in this order, and end at depth 0.
  In general \<open>startTransaction\<close> at depth 0 sends START TRANSACTION (and then the isolation
  level, when one is given) and at any other depth \<open>d\<close> the savepoint typeorm_d;
  \<open>commitTransaction\<close> above depth 1 releases the savepoint typeorm_(d - 1) and otherwise
  sends COMMIT; \<open>rollbackTransaction\<close> above depth 1 rolls back to the savepoint
  typeorm_(d - 1) and otherwise sends ROLLBACK. Each call moves the depth by one.
\<close>

theorem nested_transactions:
  assumes "connect_fails env = None"
    and "\<forall>m. logger_fails env m = None"
    and "\<forall>ev. broadcast_fails env ev = None"
    and "\<forall>h q ps. \<exists>r. driver_query env h q ps = Inr r"
    and "\<not> isReleased rs"
  shows "(transactionDepth rs = 0 \<longrightarrow>
            andThen (startTransaction env None) (\<lambda>_.
            andThen (startTransaction env None) (\<lambda>_.
            andThen (startTransaction env None) (\<lambda>_.
            andThen (commitTransaction env) (\<lambda>_.
            andThen (commitTransaction env) (\<lambda>_.
            commitTransaction env))))) rs =
              (Inr (),
               rs\<lparr>isTransactionActive := False, databaseConnection := True,
                  sent := sent rs @
                    [(''START TRANSACTION'', None), (''SAVEPOINT typeorm_1'', None),
                     (''SAVEPOINT typeorm_2'', None), (''RELEASE SAVEPOINT typeorm_2'', None),
                     (''RELEASE SAVEPOINT typeorm_1'', None), (''COMMIT'', None)],
                  transactionDepth := 0\<rparr>)) \<and>
         startTransaction env lvl rs =
           (Inr (),
            rs\<lparr>isTransactionActive := True, databaseConnection := True,
               sent := sent rs @
                 (if transactionDepth rs = 0
                  then (''START TRANSACTION'', None) #
                         (if truthy lvl then [(''SET TRANSACTION ISOLATION LEVEL '' @ the lvl, None)] else [])
                  else [(''SAVEPOINT typeorm_'' @ toString_int (transactionDepth rs), None)]),
               transactionDepth := transactionDepth rs + 1\<rparr>) \<and>
         (isTransactionActive rs \<longrightarrow>
            commitTransaction env rs =
              (Inr (),
               rs\<lparr>isTransactionActive := (1 < transactionDepth rs), databaseConnection := True,
                  sent := sent rs @
                    [(if 1 < transactionDepth rs
                      then ''RELEASE SAVEPOINT typeorm_'' @ toString_int (transactionDepth rs - 1)
                      else ''COMMIT'', None)],
                  transactionDepth := transactionDepth rs - 1\<rparr>)) \<and>
         (isTransactionActive rs \<longrightarrow>
            rollbackTransaction env rs =
              (Inr (),
               rs\<lparr>isTransactionActive := (1 < transactionDepth rs), databaseConnection := True,
                  sent := sent rs @
                    [(if 1 < transactionDepth rs
                      then ''ROLLBACK TO SAVEPOINT typeorm_'' @ toString_int (transactionDepth rs - 1)
                      else ''ROLLBACK'', None)],
                  transactionDepth := transactionDepth rs - 1\<rparr>))"
proof (intro conjI impI)
  assume "transactionDepth rs = 0"
  then show "andThen (startTransaction env None) (\<lambda>_.
            andThen (startTransaction env None) (\<lambda>_.
            andThen (startTransaction env None) (\<lambda>_.
            andThen (commitTransaction env) (\<lambda>_.
            andThen (commitTransaction env) (\<lambda>_.
            commitTransaction env))))) rs =
              (Inr (),
               rs\<lparr>isTransactionActive := False, databaseConnection := True,
                  sent := sent rs @
                    [(''START TRANSACTION'', None), (''SAVEPOINT typeorm_1'', None),
                     (''SAVEPOINT typeorm_2'', None), (''RELEASE SAVEPOINT typeorm_2'', None),
                     (''RELEASE SAVEPOINT typeorm_1'', None), (''COMMIT'', None)],
                  transactionDepth := 0\<rparr>)"
    using assms by (rule three_nested_quiet [rotated 5])
next
  show "startTransaction env lvl rs =
           (Inr (),
            rs\<lparr>isTransactionActive := True, databaseConnection := True,
               sent := sent rs @
                 (if transactionDepth rs = 0
                  then (''START TRANSACTION'', None) #
                         (if truthy lvl then [(''SET TRANSACTION ISOLATION LEVEL '' @ the lvl, None)] else [])
                  else [(''SAVEPOINT typeorm_'' @ toString_int (transactionDepth rs), None)]),
               transactionDepth := transactionDepth rs + 1\<rparr>)"
    using assms by (rule startTransaction_quiet)
next
  assume "isTransactionActive rs"
  with assms show "commitTransaction env rs =
              (Inr (),
               rs\<lparr>isTransactionActive := (1 < transactionDepth rs), databaseConnection := True,
                  sent := sent rs @
                    [(if 1 < transactionDepth rs
                      then ''RELEASE SAVEPOINT typeorm_'' @ toString_int (transactionDepth rs - 1)
                      else ''COMMIT'', None)],
                  transactionDepth := transactionDepth rs - 1\<rparr>)"
    by (rule commitTransaction_quiet)
next
  assume "isTransactionActive rs"
  with assms show "rollbackTransaction env rs =
              (Inr (),
               rs\<lparr>isTransactionActive := (1 < transactionDepth rs), databaseConnection := True,
                  sent := sent rs @
                    [(if 1 < transactionDepth rs
                      then ''ROLLBACK TO SAVEPOINT typeorm_'' @ toString_int (transactionDepth rs - 1)
                      else ''ROLLBACK'', None)],
                  transactionDepth := transactionDepth rs - 1\<rparr>)"
    by (rule rollbackTransaction_quiet)
qed

theorem nested_transactions_witness:
  "connect_fails quiet_Env = None \<and>
   (\<forall>m. logger_fails quiet_Env m = None) \<and>
   (\<forall>ev. broadcast_fails quiet_Env ev = None) \<and>
   (\<forall>h q ps. \<exists>r. driver_query quiet_Env h q ps = Inr r) \<and>
   \<not> isReleased new_Runner \<and>
   transactionDepth new_Runner = 0 \<and>
   map fst (sent (snd (
     andThen (startTransaction quiet_Env None) (\<lambda>_.
     andThen (startTransaction quiet_Env None) (\<lambda>_.
     andThen (startTransaction quiet_Env None) (\<lambda>_.
     andThen (commitTransaction quiet_Env) (\<lambda>_.
     andThen (commitTransaction quiet_Env) (\<lambda>_.
     commitTransaction quiet_Env))))) new_Runner))) =
     [''START TRANSACTION'', ''SAVEPOINT typeorm_1'', ''SAVEPOINT typeorm_2'',
      ''RELEASE SAVEPOINT typeorm_2'', ''RELEASE SAVEPOINT typeorm_1'', ''COMMIT''] \<and>
   map fst (sent (snd (startTransaction quiet_Env (Some ''SERIALIZABLE'') new_Runner))) =
     [''START TRANSACTION'', ''SET TRANSACTION ISOLATION LEVEL SERIALIZABLE'']"
proof -
  have q: "connect_fails quiet_Env = None" "\<forall>m. logger_fails quiet_Env m = None"
    "\<forall>ev. broadcast_fails quiet_Env ev = None"
    "\<forall>h q ps. \<exists>r. driver_query quiet_Env h q ps = Inr r" "\<not> isReleased new_Runner"
    by (simp_all add: quiet_Env_def new_Runner_def)
  have d: "transactionDepth new_Runner = 0" "sent new_Runner = []"
    by (simp_all add: new_Runner_def)
  show ?thesis
    using q d nested_transactions [OF q, of "Some ''SERIALIZABLE''"]
    by simp
qed

theorem three_nested_send_no_BEGIN:
  "map fst (sent (snd (
     andThen (startTransaction quiet_Env None) (\<lambda>_.
     andThen (startTransaction quiet_Env None) (\<lambda>_.
     andThen (startTransaction quiet_Env None) (\<lambda>_.
     andThen (commitTransaction quiet_Env) (\<lambda>_.
     andThen (commitTransaction quiet_Env) (\<lambda>_.
     commitTransaction quiet_Env))))) new_Runner))) =
     [''START TRANSACTION'', ''SAVEPOINT typeorm_1'', ''SAVEPOINT typeorm_2'',
      ''RELEASE SAVEPOINT typeorm_2'', ''RELEASE SAVEPOINT typeorm_1'', ''COMMIT''] \<and>
   count_list (map fst (sent (snd (
     andThen (startTransaction quiet_Env None) (\<lambda>_.
     andThen (startTransaction quiet_Env None) (\<lambda>_.
     andThen (startTransaction quiet_Env None) (\<lambda>_.
     andThen (commitTransaction quiet_Env) (\<lambda>_.
     andThen (commitTransaction quiet_Env) (\<lambda>_.
     commitTransaction quiet_Env))))) new_Runner)))) ''BEGIN'' = 0"
proof -
  have q: "connect_fails quiet_Env = None" "\<forall>m. logger_fails quiet_Env m = None"
    "\<forall>ev. broadcast_fails quiet_Env ev = None"
    "\<forall>h q ps. \<exists>r. driver_query quiet_Env h q ps = Inr r" "\<not> isReleased new_Runner"
    "transactionDepth new_Runner = 0"
    by (simp_all add: quiet_Env_def new_Runner_def)
  have d: "sent new_Runner = []"
    by (simp add: new_Runner_def)
  show ?thesis
    by (simp add: three_nested_quiet [OF q] d)
qed


section \<open>Changed columns\<close>

lemma find_name_Some:
  "find (\<lambda>c. col_name c = n) tcs = Some tc \<Longrightarrow> col_name tc = n"
  by (induction tcs) (auto split: if_splits)

lemma enum_differs_iff:
  "(case (col_enum tc, cm_enum cm) of
      (Some te, Some ce) \<Rightarrow> \<not> eq te (map enumValueText ce)
    | _ \<Rightarrow> False) \<longleftrightarrow>
   (\<exists>te ce. col_enum tc = Some te \<and> cm_enum cm = Some ce \<and> \<not> eq te (map enumValueText ce))"
  by (cases "col_enum tc"; cases "cm_enum cm") simp_all

lemma isColumnChanged_iff:
  assumes "col_name tc = databaseName cm"
  shows "isColumnChanged eq tc cm \<longleftrightarrow>
     (\<not> truthy (cm_asExpression cm) \<and> col_type tc \<noteq> normalizeType (cm_type cm)) \<or>
     (\<not> truthy (cm_asExpression cm) \<and>
        toUpperCase (col_length tc) \<noteq> toUpperCase (getColumnLength cm)) \<or>
     col_precision tc \<noteq> cm_precision cm \<or>
     col_scale tc \<noteq> cm_scale cm \<or>
     col_isGenerated tc \<noteq> cm_isGenerated cm \<or>
     (\<not> col_isGenerated tc \<and>
        lowerDefaultValueIfNecessary (normalizeDefault (cm_default cm)) \<noteq>
        lowerDefaultValueIfNecessary (col_default tc)) \<or>
     col_isPrimary tc \<noteq> cm_isPrimary cm \<or>
     col_isNullable tc \<noteq> cm_isNullable cm \<or>
     col_asExpression tc \<noteq> cm_asExpression cm \<or>
     col_generatedType tc \<noteq> cm_generatedType cm \<or>
     col_isUnique tc \<noteq> normalizeIsUnique cm \<or>
     (\<exists>te ce. col_enum tc = Some te \<and> cm_enum cm = Some ce \<and> \<not> eq te (map enumValueText ce))"
  unfolding isColumnChanged_def enum_differs_iff compareColumnType_def compareColumnLength_def
  using assms by simp

lemma findChangedColumns_title_nullable:
  "findChangedColumns eq [title_TableColumn] [title_ColumnMetadata\<lparr>cm_isNullable := False\<rparr>] =
     [title_ColumnMetadata\<lparr>cm_isNullable := False\<rparr>]"
  by (simp add: findChangedColumns_def isColumnChanged_def title_TableColumn_def
      title_ColumnMetadata_def)

lemma findChangedColumns_title_same:
  "findChangedColumns eq [title_TableColumn] [title_ColumnMetadata] = []"
  by (simp add: findChangedColumns_def isColumnChanged_def title_TableColumn_def
      title_ColumnMetadata_def compareColumnType_def compareColumnLength_def
      getColumnLength_def normalizeIsUnique_def lowerDefaultValueIfNecessary_def)

text \<open>
  C5, as the driver does it. A declared column is returned exactly when the current
  columns have one of its database name (the first such is taken) and the two differ in
  the normalized type or the normalized length (both only when the declared column has
  no asExpression), the precision, the scale, the generated flag, the normalized default
  (only when the current column is not generated), the primary flag, the nullable flag,
  asExpression, generatedType, the derived uniqueness, or the enum values (only when
  both columns have a list of them). The result keeps the order of the declared columns.
  The current varchar(255) column against its declaration with another nullable flag is
  returned; against the same declaration nothing is.
\<close>

theorem findChangedColumns_exact:
  "(cm \<in> set (findChangedColumns eq tcs cms) \<longleftrightarrow>
      cm \<in> set cms \<and>
      (\<exists>tc. find (\<lambda>c. col_name c = databaseName cm) tcs = Some tc \<and>
         ((\<not> truthy (cm_asExpression cm) \<and> col_type tc \<noteq> normalizeType (cm_type cm)) \<or>
          (\<not> truthy (cm_asExpression cm) \<and>
             toUpperCase (col_length tc) \<noteq> toUpperCase (getColumnLength cm)) \<or>
          col_precision tc \<noteq> cm_precision cm \<or>
          col_scale tc \<noteq> cm_scale cm \<or>
          col_isGenerated tc \<noteq> cm_isGenerated cm \<or>
          (\<not> col_isGenerated tc \<and>
             lowerDefaultValueIfNecessary (normalizeDefault (cm_default cm)) \<noteq>
             lowerDefaultValueIfNecessary (col_default tc)) \<or>
          col_isPrimary tc \<noteq> cm_isPrimary cm \<or>
          col_isNullable tc \<noteq> cm_isNullable cm \<or>
          col_asExpression tc \<noteq> cm_asExpression cm \<or>
          col_generatedType tc \<noteq> cm_generatedType cm \<or>
          col_isUnique tc \<noteq> normalizeIsUnique cm \<or>
          (\<exists>te ce. col_enum tc = Some te \<and> cm_enum cm = Some ce \<and>
             \<not> eq te (map enumValueText ce))))) \<and>
   findChangedColumns eq tcs cms = filter (\<lambda>c. c \<in> set (findChangedColumns eq tcs cms)) cms \<and>
   findChangedColumns eq [title_TableColumn] [title_ColumnMetadata\<lparr>cm_isNullable := False\<rparr>] =
     [title_ColumnMetadata\<lparr>cm_isNullable := False\<rparr>] \<and>
   findChangedColumns eq [title_TableColumn] [title_ColumnMetadata] = []"
proof (intro conjI)
  show "cm \<in> set (findChangedColumns eq tcs cms) \<longleftrightarrow>
      cm \<in> set cms \<and>
      (\<exists>tc. find (\<lambda>c. col_name c = databaseName cm) tcs = Some tc \<and>
         ((\<not> truthy (cm_asExpression cm) \<and> col_type tc \<noteq> normalizeType (cm_type cm)) \<or>
          (\<not> truthy (cm_asExpression cm) \<and>
             toUpperCase (col_length tc) \<noteq> toUpperCase (getColumnLength cm)) \<or>
          col_precision tc \<noteq> cm_precision cm \<or>
          col_scale tc \<noteq> cm_scale cm \<or>
          col_isGenerated tc \<noteq> cm_isGenerated cm \<or>
          (\<not> col_isGenerated tc \<and>
             lowerDefaultValueIfNecessary (normalizeDefault (cm_default cm)) \<noteq>
             lowerDefaultValueIfNecessary (col_default tc)) \<or>
          col_isPrimary tc \<noteq> cm_isPrimary cm \<or>
          col_isNullable tc \<noteq> cm_isNullable cm \<or>
          col_asExpression tc \<noteq> cm_asExpression cm \<or>
          col_generatedType tc \<noteq> cm_generatedType cm \<or>
          col_isUnique tc \<noteq> normalizeIsUnique cm \<or>
          (\<exists>te ce. col_enum tc = Some te \<and> cm_enum cm = Some ce \<and>
             \<not> eq te (map enumValueText ce))))"
  proof (cases "find (\<lambda>c. col_name c = databaseName cm) tcs")
    case None
    then show ?thesis
      by (simp add: findChangedColumns_def)
  next
    case (Some tc)
    then have "col_name tc = databaseName cm"
      by (rule find_name_Some)
    then show ?thesis
      using Some isColumnChanged_iff [of tc cm eq]
      by (simp add: findChangedColumns_def)
  qed
next
  show "findChangedColumns eq tcs cms = filter (\<lambda>c. c \<in> set (findChangedColumns eq tcs cms)) cms"
    unfolding findChangedColumns_def
    by (rule filter_cong) auto
next
  show "findChangedColumns eq [title_TableColumn] [title_ColumnMetadata\<lparr>cm_isNullable := False\<rparr>] =
     [title_ColumnMetadata\<lparr>cm_isNullable := False\<rparr>]"
    by (rule findChangedColumns_title_nullable)
next
  show "findChangedColumns eq [title_TableColumn] [title_ColumnMetadata] = []"
    by (rule findChangedColumns_title_same)
qed

theorem findChangedColumns_exact_witness:
  "title_ColumnMetadata\<lparr>cm_isNullable := False\<rparr> \<in>
     set (findChangedColumns (=) [title_TableColumn]
            [title_ColumnMetadata\<lparr>cm_isNullable := False\<rparr>]) \<and>
   find (\<lambda>c. col_name c = databaseName (title_ColumnMetadata\<lparr>cm_isNullable := False\<rparr>))
     [title_TableColumn] = Some title_TableColumn \<and>
   col_isNullable title_TableColumn \<noteq> cm_isNullable (title_ColumnMetadata\<lparr>cm_isNullable := False\<rparr>) \<and>
   findChangedColumns (=) [title_TableColumn] [title_ColumnMetadata] = []"
  using findChangedColumns_exact [of "title_ColumnMetadata\<lparr>cm_isNullable := False\<rparr>" "(=)"
      "[title_TableColumn]" "[title_ColumnMetadata\<lparr>cm_isNullable := False\<rparr>]"]
  by (simp add: title_TableColumn_def title_ColumnMetadata_def)

theorem generated_default_is_not_compared:
  "lowerDefaultValueIfNecessary (normalizeDefault (cm_default id_ColumnMetadata)) \<noteq>
     lowerDefaultValueIfNecessary (col_default id_TableColumn) \<and>
   find (\<lambda>c. col_name c = databaseName id_ColumnMetadata) [id_TableColumn] = Some id_TableColumn \<and>
   (\<forall>eq. findChangedColumns eq [id_TableColumn] [id_ColumnMetadata] = [])"
  by (simp add: findChangedColumns_def isColumnChanged_def id_TableColumn_def
      id_ColumnMetadata_def title_TableColumn_def title_ColumnMetadata_def
      compareColumnType_def compareColumnLength_def getColumnLength_def
      normalizeIsUnique_def lowerDefaultValueIfNecessary_def)


section \<open>Loading with no names\<close>










subsection \<open>The columns of a table\<close>














lemma sameHead_trans: "sameHead a b \<Longrightarrow> sameHead b c \<Longrightarrow> sameHead a c"
  by (simp add: sameHead_def)




subsection \<open>The tables\<close>








subsection \<open>The sample catalog\<close>



















section \<open>Renaming a table\<close>

lemma targetOf_update [simp]:
  "targetOf (t\<lparr>tbl_uniques := us\<rparr>) = targetOf t"
  "targetOf (t\<lparr>tbl_indices := ixs\<rparr>) = targetOf t"
  "targetOf (t\<lparr>tbl_foreignKeys := fks\<rparr>) = targetOf t"
  by (simp_all add: targetOf_def)














lemma plan_table_primaryKey [simp]:
  "plan_table (renameTable_primaryKey deps oldTable p) = plan_table p"
  by (simp add: renameTable_primaryKey_def Let_def push_def)

lemma plan_table_sequence [simp]:
  "plan_table (renameTable_sequence deps oldTable c p) = plan_table p"
  by (simp add: renameTable_sequence_def Let_def push_def)

lemma plan_table_fold_sequence [simp]:
  "plan_table (fold (renameTable_sequence deps oldTable) cs p) = plan_table p"
  by (induction cs arbitrary: p) simp_all

lemma plan_table_sequences [simp]:
  "plan_table (renameTable_sequences deps oldTable p) = plan_table p"
  by (simp add: renameTable_sequences_def)





text \<open>The columns of the clone stay as they are while the statements are built.\<close>

lemma columns_renameTable_unique [simp]:
  "tbl_columns (plan_table (renameTable_unique deps oldTable i p)) = tbl_columns (plan_table p)"
  by (simp add: renameTable_unique_def Let_def push_def)

lemma columns_renameTable_index [simp]:
  "tbl_columns (plan_table (renameTable_index deps oldTable i p)) = tbl_columns (plan_table p)"
  by (simp add: renameTable_index_def Let_def push_def)

lemma columns_renameTable_foreignKey [simp]:
  "tbl_columns (plan_table (renameTable_foreignKey deps oldTable i p)) = tbl_columns (plan_table p)"
  by (simp add: renameTable_foreignKey_def Let_def push_def)

lemma columns_fold_unique [simp]:
  "tbl_columns (plan_table (fold (renameTable_unique deps oldTable) ks p)) = tbl_columns (plan_table p)"
  by (induction ks arbitrary: p) simp_all

lemma columns_fold_index [simp]:
  "tbl_columns (plan_table (fold (renameTable_index deps oldTable) ks p)) = tbl_columns (plan_table p)"
  by (induction ks arbitrary: p) simp_all

lemma columns_fold_foreignKey [simp]:
  "tbl_columns (plan_table (fold (renameTable_foreignKey deps oldTable) ks p)) = tbl_columns (plan_table p)"
  by (induction ks arbitrary: p) simp_all




lemma view_appended:
  "\<forall>a\<in>set (tbl_columns t). a < length h \<Longrightarrow> view (h @ cs) t = view h t"
  by (simp add: view_def nth_append)








section \<open>What the actions leave as it is\<close>

lemma preserves_ret: "preserves part (ret a)"
  by (simp add: preserves_def ret_def)

lemma preserves_throw: "preserves part (throw e)"
  by (simp add: preserves_def throw_def)

lemma preserves_andThen:
  "preserves part m \<Longrightarrow> (\<And>a. preserves part (f a)) \<Longrightarrow> preserves part (andThen m f)"
  unfolding preserves_def andThen_def
proof (intro allI)
  fix rs
  assume m: "\<forall>rs. part (snd (m rs)) = part rs" and f: "\<And>a. \<forall>rs. part (snd (f a rs)) = part rs"
  show "part (snd (case m rs of (Inl e, rs') \<Rightarrow> (Inl e, rs') | (Inr a, rs') \<Rightarrow> f a rs')) = part rs"
  proof (cases "m rs")
    case (Pair r rs')
    then have "part rs' = part rs"
      using m [rule_format, of rs] by simp
    then show ?thesis
      using Pair f by (cases r) simp_all
  qed
qed

lemma preserves_reader: "(\<And>x. preserves part (m x)) \<Longrightarrow> preserves part (\<lambda>rs. m (g rs) rs)"
  by (simp add: preserves_def)

lemma preserves_pair:
  "preserves (\<lambda>rs. (f rs, g rs)) m \<Longrightarrow> preserves f m \<and> preserves g m"
  by (simp add: preserves_def)

text \<open>A query touches neither the store nor the log.\<close>

lemma preserves_query: "preserves (\<lambda>rs. (store rs, journal rs)) (query env q ps b)"
  by (auto simp: preserves_def query_def query_try_def query_finally_def andThen_def connect_def
      logger_def broadcast_def throw_def ret_def store_def journal_def Let_def
      split: option.splits sum.splits)

lemma preserves_queryRows: "preserves (\<lambda>rs. (store rs, journal rs)) (queryRows env q)"
  unfolding queryRows_def queryRowsWith_def
  by (intro preserves_andThen preserves_query)
     (simp add: preserves_ret preserves_throw split: QueryReturn.splits RawPayload.splits option.splits)

lemma preserves_firstField: "preserves part (firstField rws key)"
  by (simp add: firstField_def preserves_ret preserves_throw split: list.splits)

lemma preserves_getCurrentSchema: "preserves (\<lambda>rs. (store rs, journal rs)) (getCurrentSchema env)"
  unfolding getCurrentSchema_def
  by (intro preserves_andThen preserves_queryRows preserves_firstField)

lemma preserves_schemaOrCurrent:
  "preserves (\<lambda>rs. (store rs, journal rs)) (schemaOrCurrent env parsed)"
  by (simp add: schemaOrCurrent_def preserves_getCurrentSchema preserves_ret)

lemma preserves_hasEnumType:
  "preserves (\<lambda>rs. (store rs, journal rs)) (hasEnumType deps env table column)"
  unfolding hasEnumType_def Let_def
  by (intro preserves_andThen preserves_schemaOrCurrent preserves_queryRows preserves_ret)

lemma preserves_getUserDefinedTypeName:
  "preserves (\<lambda>rs. (store rs, journal rs)) (getUserDefinedTypeName deps env table column)"
  unfolding getUserDefinedTypeName_def Let_def
  by (intro preserves_andThen preserves_schemaOrCurrent preserves_queryRows preserves_firstField)
     (simp add: preserves_ret preserves_throw split: option.splits)

lemma preserves_getTableNameWithSchema:
  "preserves (\<lambda>rs. (store rs, journal rs)) (getTableNameWithSchema env tname)"
  unfolding getTableNameWithSchema_def
  by (auto intro!: preserves_andThen preserves_queryRows preserves_firstField preserves_ret)

lemma preserves_runQueries: "preserves (\<lambda>rs. (store rs, journal rs)) (runQueries env qs)"
  by (induction qs) (auto intro!: preserves_andThen preserves_query preserves_ret)

lemma preserves_clone: "preserves part (clone table)"
  by (simp add: preserves_def clone_def)

text \<open>\<^verbatim>\<open>executeQueries\<close> adds to the log and leaves the store as it is.\<close>

lemma preserves_executeQueries: "preserves store (executeQueries env up down)"
proof -
  have "preserves store (runQueries env up)"
    using preserves_runQueries preserves_pair by blast
  then show ?thesis
    by (auto simp: preserves_def executeQueries_def andThen_def modify_def store_def)
qed

lemma journal_executeQueries:
  "journal (snd (executeQueries env up down rs)) =
     (upQueries rs @ up, downQueries rs @ down, sqlMemoryMode rs)"
proof -
  have "preserves journal (runQueries env up)"
    using preserves_runQueries preserves_pair by blast
  then show ?thesis
    by (auto simp: preserves_def executeQueries_def andThen_def modify_def journal_def)
qed

text \<open>\<^verbatim>\<open>replaceCachedTable\<close> does not fail and leaves the log as it is.\<close>

lemma replaceCachedTable_returns: "fst (replaceCachedTable table changedTable rs) = Inr ()"
  by (simp add: replaceCachedTable_def split: option.splits)

lemma preserves_replaceCachedTable: "preserves journal (replaceCachedTable table changedTable)"
  by (simp add: preserves_def replaceCachedTable_def journal_def split: option.splits)
text \<open>The statements of the three methods are built with the store and the log as they are.\<close>

lemma preserves_addColumn_plan:
  "preserves (\<lambda>rs. (store rs, journal rs)) (addColumn_plan deps env table clonedTable column)"
  unfolding addColumn_plan_def addColumn_enum_def addColumn_generated_def
  by (auto intro!: preserves_andThen preserves_hasEnumType preserves_getTableNameWithSchema
      preserves_ret preserves_throw split: option.splits)

lemma preserves_dropColumn_find: "preserves part (dropColumn_find table columnOrName)"
  by (simp add: dropColumn_find_def preserves_ret preserves_throw
      split: ColumnArg.splits option.splits)

lemma preserves_dropColumn_plan:
  "preserves (\<lambda>rs. (store rs, journal rs)) (dropColumn_plan deps env table clonedTable column)"
  unfolding dropColumn_plan_def dropColumn_primaryKey_def dropColumn_enum_def
    dropColumn_generated_def Let_def
  by (auto intro!: preserves_andThen preserves_hasEnumType preserves_getUserDefinedTypeName
      preserves_getTableNameWithSchema preserves_ret preserves_throw split: option.splits)

lemma preserves_change_enum: "preserves part (change_enum deps table oldColumn newColumn p)"
  by (simp add: change_enum_def change_enum_statements_def Let_def preserves_ret preserves_throw
      split: option.splits)

lemma preserves_change_primary: "preserves part (change_primary deps table oldColumn newColumn p)"
  by (simp add: change_primary_def Let_def preserves_ret preserves_throw split: option.splits)

lemma preserves_change_unique: "preserves part (change_unique deps table oldColumn newColumn p)"
  by (simp add: change_unique_def Let_def preserves_ret preserves_throw split: option.splits)

lemma preserves_change_generatedType:
  "preserves (\<lambda>rs. (store rs, journal rs)) (change_generatedType deps env table oldColumn newColumn p)"
  unfolding change_generatedType_def
  by (auto intro!: preserves_andThen preserves_getTableNameWithSchema preserves_ret)

lemma preserves_changeColumn_changes:
  "preserves (\<lambda>rs. (store rs, journal rs)) (changeColumn_changes deps env table oldColumn newColumn p)"
  unfolding changeColumn_changes_def
  by (intro preserves_andThen preserves_change_enum preserves_change_primary
      preserves_change_unique preserves_change_generatedType)
text \<open>
  A method that builds its statements with the store as it is, executes them and then
  replaces the cached table: when it fails the store is as it was, and when it returns
  the store has changed by the replacement alone.
\<close>

lemma finish_failed:
  assumes m: "preserves store m"
    and f: "failed (andThen m (\<lambda>p. andThen (executeQueries env (up p) (down p))
              (\<lambda>_. replaceCachedTable table (changed p))) rs)"
  shows "store (snd (andThen m (\<lambda>p. andThen (executeQueries env (up p) (down p))
              (\<lambda>_. replaceCachedTable table (changed p))) rs)) = store rs"
proof (cases "m rs")
  case (Pair r rs1)
  have s1: "store rs1 = store rs"
    using m Pair by (auto simp: preserves_def dest: spec [of _ rs])
  show ?thesis
  proof (cases r)
    case (Inl e)
    then show ?thesis
      using Pair s1 by (simp add: andThen_def)
  next
    case (Inr p)
    obtain r2 rs2 where e: "executeQueries env (up p) (down p) rs1 = (r2, rs2)"
      by (cases "executeQueries env (up p) (down p) rs1")
    have s2: "store rs2 = store rs1"
      using preserves_executeQueries [of env "up p" "down p"] e
      by (auto simp: preserves_def dest: spec [of _ rs1])
    show ?thesis
    proof (cases r2)
      case (Inl e2)
      then show ?thesis
        using Pair Inr e s1 s2 by (simp add: andThen_def)
    next
      case (Inr u)
      then have "\<not> failed (andThen m (\<lambda>p. andThen (executeQueries env (up p) (down p))
              (\<lambda>_. replaceCachedTable table (changed p))) rs)"
        using Pair \<open>r = Inr p\<close> e replaceCachedTable_returns [of table "changed p" rs2]
        by (simp add: andThen_def failed_def)
      then show ?thesis
        using f by simp
    qed
  qed
qed

lemma finish_returned:
  assumes m: "preserves store m"
    and f: "\<not> failed (andThen m (\<lambda>p. andThen (executeQueries env (up p) (down p))
              (\<lambda>_. replaceCachedTable table (changed p))) rs)"
  shows "\<exists>p rs'. store rs' = store rs \<and>
           andThen m (\<lambda>p. andThen (executeQueries env (up p) (down p))
              (\<lambda>_. replaceCachedTable table (changed p))) rs =
           replaceCachedTable table (changed p) rs'"
proof (cases "m rs")
  case (Pair r rs1)
  have s1: "store rs1 = store rs"
    using m Pair by (auto simp: preserves_def dest: spec [of _ rs])
  show ?thesis
  proof (cases r)
    case (Inl e)
    then show ?thesis
      using Pair f by (simp add: andThen_def failed_def)
  next
    case (Inr p)
    obtain r2 rs2 where e: "executeQueries env (up p) (down p) rs1 = (r2, rs2)"
      by (cases "executeQueries env (up p) (down p) rs1")
    have s2: "store rs2 = store rs1"
      using preserves_executeQueries [of env "up p" "down p"] e
      by (auto simp: preserves_def dest: spec [of _ rs1])
    show ?thesis
    proof (cases r2)
      case (Inl e2)
      then show ?thesis
        using Pair Inr e f by (simp add: andThen_def failed_def)
    next
      case (Inr u)
      then have "andThen m (\<lambda>p. andThen (executeQueries env (up p) (down p))
              (\<lambda>_. replaceCachedTable table (changed p))) rs =
           replaceCachedTable table (changed p) rs2"
        using Pair \<open>r = Inr p\<close> e by (simp add: andThen_def)
      then show ?thesis
        using s1 s2 by (intro exI [of _ p] exI [of _ rs2]) simp
    qed
  qed
qed

lemma addColumn_resolved:
  "resolveTable deps env tableOrName rs = (Inr table, rs) \<Longrightarrow>
     addColumn deps env tableOrName column rs =
       andThen (addColumn_plan deps env (tableAt rs table) (tableAt rs table) column)
         (\<lambda>p. andThen (executeQueries env (plan_up p) (plan_down p))
           (\<lambda>_. replaceCachedTable table (table_addColumn (plan_table p) column))) rs"
  by (simp add: addColumn_def andThen_def clone_def)

lemma dropColumn_resolved:
  "resolveTable deps env tableOrName rs = (Inr table, rs) \<Longrightarrow>
   dropColumn_find (tableAt rs table) columnOrName rs = (Inr column, rs) \<Longrightarrow>
     dropColumn deps env tableOrName columnOrName rs =
       andThen (dropColumn_plan deps env (tableAt rs table) (tableAt rs table) column)
         (\<lambda>p. andThen (executeQueries env (plan_up p) (plan_down p))
           (\<lambda>_. replaceCachedTable table (table_removeColumn (plan_table p) column))) rs"
  by (simp add: dropColumn_def andThen_def clone_def)

lemma dropColumn_not_found:
  "resolveTable deps env tableOrName rs = (Inr table, rs) \<Longrightarrow>
   dropColumn_find (tableAt rs table) columnOrName rs = (Inl e, rs') \<Longrightarrow>
     dropColumn deps env tableOrName columnOrName rs = (Inl e, rs) \<and> rs' = rs"
  by (auto simp: dropColumn_def andThen_def dropColumn_find_def ret_def throw_def
      split: ColumnArg.splits option.splits)
lemma addColumn_failed:
  assumes "resolveTable deps env tableOrName rs = (Inr table, rs)"
    and "failed (addColumn deps env tableOrName column rs)"
  shows "store (snd (addColumn deps env tableOrName column rs)) = store rs"
proof -
  have "preserves store (addColumn_plan deps env (tableAt rs table) (tableAt rs table) column)"
    using preserves_addColumn_plan preserves_pair by blast
  then show ?thesis
    using assms(2) unfolding addColumn_resolved [OF assms(1)] by (rule finish_failed)
qed

lemma addColumn_returned:
  assumes "resolveTable deps env tableOrName rs = (Inr table, rs)"
    and "\<not> failed (addColumn deps env tableOrName column rs)"
  shows "\<exists>(p::Plan) rs'. store rs' = store rs \<and>
           addColumn deps env tableOrName column rs =
             replaceCachedTable table (table_addColumn (plan_table p) column) rs'"
proof -
  have "preserves store (addColumn_plan deps env (tableAt rs table) (tableAt rs table) column)"
    using preserves_addColumn_plan preserves_pair by blast
  then show ?thesis
    using assms(2) unfolding addColumn_resolved [OF assms(1)] by (rule finish_returned)
qed

lemma dropColumn_failed:
  assumes r: "resolveTable deps env tableOrName rs = (Inr table, rs)"
    and f: "failed (dropColumn deps env tableOrName columnOrName rs)"
  shows "store (snd (dropColumn deps env tableOrName columnOrName rs)) = store rs"
proof (cases "dropColumn_find (tableAt rs table) columnOrName rs")
  case (Pair found rs')
  show ?thesis
  proof (cases found)
    case (Inl e)
    then show ?thesis
      using dropColumn_not_found [OF r, of columnOrName e rs'] Pair by simp
  next
    case (Inr column)
    then have c: "dropColumn_find (tableAt rs table) columnOrName rs = (Inr column, rs)"
      using Pair by (auto simp: dropColumn_find_def ret_def throw_def
          split: ColumnArg.splits option.splits)
    have "preserves store (dropColumn_plan deps env (tableAt rs table) (tableAt rs table) column)"
      using preserves_dropColumn_plan preserves_pair by blast
    then show ?thesis
      using f unfolding dropColumn_resolved [OF r c] by (rule finish_failed)
  qed
qed

lemma dropColumn_returned:
  assumes r: "resolveTable deps env tableOrName rs = (Inr table, rs)"
    and f: "\<not> failed (dropColumn deps env tableOrName columnOrName rs)"
  shows "\<exists>column (p::Plan) rs'. store rs' = store rs \<and>
           dropColumn deps env tableOrName columnOrName rs =
             replaceCachedTable table (table_removeColumn (plan_table p) column) rs'"
proof (cases "dropColumn_find (tableAt rs table) columnOrName rs")
  case (Pair found rs')
  show ?thesis
  proof (cases found)
    case (Inl e)
    then show ?thesis
      using dropColumn_not_found [OF r, of columnOrName e rs'] Pair f by (simp add: failed_def)
  next
    case (Inr column)
    then have c: "dropColumn_find (tableAt rs table) columnOrName rs = (Inr column, rs)"
      using Pair by (auto simp: dropColumn_find_def ret_def throw_def
          split: ColumnArg.splits option.splits)
    have "preserves store (dropColumn_plan deps env (tableAt rs table) (tableAt rs table) column)"
      using preserves_dropColumn_plan preserves_pair by blast
    then have "\<exists>(p::Plan) rs'. store rs' = store rs \<and>
           dropColumn deps env tableOrName columnOrName rs =
             replaceCachedTable table (table_removeColumn (plan_table p) column) rs'"
      using f unfolding dropColumn_resolved [OF r c] by (rule finish_returned)
    then show ?thesis
      by blast
  qed
qed

text \<open>\<^verbatim>\<open>changeColumn\<close> with its table and its old column found.\<close>

lemma changeColumn_resolved:
  "resolveTable deps env tableOrName rs = (Inr table, rs) \<Longrightarrow>
   changeColumn_find table oldTableColumnOrName rs = (Inr oldColumn, rs) \<Longrightarrow>
     changeColumn deps env tableOrName oldTableColumnOrName newColumn rs =
       (if changeColumn_recreates (heap rs ! oldColumn) newColumn then
          andThen (dropColumn deps env (TableInstance table)
                     (ColumnInstance (heap rs ! oldColumn))) (\<lambda>_.
          andThen (addColumn deps env (TableInstance table) newColumn) (\<lambda>_.
          andThen (clone table) (\<lambda>clonedTable.
          andThen (executeQueries env [] []) (\<lambda>_.
            replaceCachedTable table clonedTable)))) rs
        else
          andThen (changeColumn_inPlace deps env table oldColumn newColumn
                     (newCPlan (tableAt rs table))) (\<lambda>p.
          andThen (executeQueries env (plan_up p) (plan_down p)) (\<lambda>_.
            replaceCachedTable table (plan_table p))) rs)"
  by (simp add: changeColumn_def andThen_def clone_def)

lemma changeColumn_inPlace_same_name:
  "col_name (heap rs ! oldColumn) = col_name newColumn \<Longrightarrow>
     andThen (changeColumn_inPlace deps env table oldColumn newColumn p) f rs =
     andThen (changeColumn_changes deps env (tableAt rs table) (heap rs ! oldColumn) newColumn p) f rs"
  by (simp add: changeColumn_inPlace_def andThen_def ret_def)

lemma changeColumn_inPlace_failed:
  assumes r: "resolveTable deps env tableOrName rs = (Inr table, rs)"
    and c: "changeColumn_find table oldTableColumnOrName rs = (Inr oldColumn, rs)"
    and i: "\<not> changeColumn_recreates (heap rs ! oldColumn) newColumn"
    and n: "col_name (heap rs ! oldColumn) = col_name newColumn"
    and f: "failed (changeColumn deps env tableOrName oldTableColumnOrName newColumn rs)"
  shows "store (snd (changeColumn deps env tableOrName oldTableColumnOrName newColumn rs)) =
           store rs"
proof -
  have "preserves store (changeColumn_changes deps env (tableAt rs table) (heap rs ! oldColumn)
          newColumn (newCPlan (tableAt rs table)))"
    using preserves_changeColumn_changes preserves_pair by blast
  then show ?thesis
    using f unfolding changeColumn_resolved [OF r c] changeColumn_inPlace_same_name [OF n]
    by (simp add: i finish_failed)
qed

lemma changeColumn_inPlace_returned:
  assumes r: "resolveTable deps env tableOrName rs = (Inr table, rs)"
    and c: "changeColumn_find table oldTableColumnOrName rs = (Inr oldColumn, rs)"
    and i: "\<not> changeColumn_recreates (heap rs ! oldColumn) newColumn"
    and n: "col_name (heap rs ! oldColumn) = col_name newColumn"
    and f: "\<not> failed (changeColumn deps env tableOrName oldTableColumnOrName newColumn rs)"
  shows "\<exists>(p::CPlan) rs'. store rs' = store rs \<and>
           changeColumn deps env tableOrName oldTableColumnOrName newColumn rs =
             replaceCachedTable table (plan_table p) rs'"
proof -
  have "preserves store (changeColumn_changes deps env (tableAt rs table) (heap rs ! oldColumn)
          newColumn (newCPlan (tableAt rs table)))"
    using preserves_changeColumn_changes preserves_pair by blast
  then have "\<exists>(p::CPlan) rs'. store rs' = store rs \<and>
      andThen (changeColumn_changes deps env (tableAt rs table) (heap rs ! oldColumn) newColumn
                 (newCPlan (tableAt rs table))) (\<lambda>p.
        andThen (executeQueries env (plan_up p) (plan_down p)) (\<lambda>_.
          replaceCachedTable table (plan_table p))) rs =
      replaceCachedTable table (plan_table p) rs'"
    using f unfolding changeColumn_resolved [OF r c] changeColumn_inPlace_same_name [OF n]
    by (intro finish_returned) (simp_all add: i)
  then show ?thesis
    unfolding changeColumn_resolved [OF r c] changeColumn_inPlace_same_name [OF n]
    by (simp add: i)
qed
lemma executeQueries_nothing: "fst (executeQueries env [] [] rs) = Inr ()"
  by (simp add: executeQueries_def andThen_def modify_def ret_def)

text \<open>
  The branch of \<^verbatim>\<open>changeColumn\<close> that makes the column anew fails when the dropping or the
  adding fails.
\<close>

lemma changeColumn_recreate_failed:
  assumes r: "resolveTable deps env tableOrName rs = (Inr table, rs)"
    and c: "changeColumn_find table oldTableColumnOrName rs = (Inr oldColumn, rs)"
    and i: "changeColumn_recreates (heap rs ! oldColumn) newColumn"
    and f: "failed (changeColumn deps env tableOrName oldTableColumnOrName newColumn rs)"
  shows "store (snd (changeColumn deps env tableOrName oldTableColumnOrName newColumn rs)) =
           store rs \<or>
         (\<exists>rs1. dropColumn deps env (TableInstance table)
                   (ColumnInstance (heap rs ! oldColumn)) rs = (Inr (), rs1) \<and>
                 store (snd (changeColumn deps env tableOrName oldTableColumnOrName
                               newColumn rs)) = store rs1)"
proof -
  let ?drop = "dropColumn deps env (TableInstance table) (ColumnInstance (heap rs ! oldColumn))"
  let ?add = "addColumn deps env (TableInstance table) newColumn"
  let ?change = "changeColumn deps env tableOrName oldTableColumnOrName newColumn rs"
  have here: "resolveTable deps env (TableInstance table) s = (Inr table, s)" for s
    by (simp add: resolveTable_def ret_def)
  obtain r1 rs1 where d: "?drop rs = (r1, rs1)"
    by (cases "?drop rs")
  show ?thesis
  proof (cases r1)
    case (Inl e)
    then have "?change = ?drop rs"
      using d by (simp add: changeColumn_resolved [OF r c] i andThen_def)
    moreover have "store (snd (?drop rs)) = store rs"
      using d Inl by (intro dropColumn_failed [OF here]) (simp add: failed_def)
    ultimately show ?thesis
      by simp
  next
    case (Inr u)
    obtain r2 rs2 where a: "?add rs1 = (r2, rs2)"
      by (cases "?add rs1")
    show ?thesis
    proof (cases r2)
      case (Inl e)
      then have "?change = ?add rs1"
        using d a \<open>r1 = Inr u\<close> by (simp add: changeColumn_resolved [OF r c] i andThen_def)
      moreover have "store (snd (?add rs1)) = store rs1"
        using a Inl by (intro addColumn_failed [OF here]) (simp add: failed_def)
      ultimately show ?thesis
        using d \<open>r1 = Inr u\<close> by simp
    next
      case (Inr u2)
      obtain rs3 where e: "executeQueries env [] [] rs2 = (Inr (), rs3)"
        using executeQueries_nothing [of env rs2] by (cases "executeQueries env [] [] rs2") simp
      have "\<not> failed ?change"
        using d a e \<open>r1 = Inr u\<close> \<open>r2 = Inr u2\<close>
          replaceCachedTable_returns [of table "tableAt rs2 table" rs3]
        by (simp add: changeColumn_resolved [OF r c] i andThen_def clone_def failed_def)
      then show ?thesis
        using f by simp
    qed
  qed
qed

end
